theory Spec2Isabelle
  imports Main
begin

section \<open>Text as sequences of code points\<close>

text \<open>
  The archive agent is written in Python; its \<^verbatim>\<open>str\<close> values are sequences of Unicode
  code points and almost every literal of the program is Cyrillic.  A text is therefore a
  list of code points (\<^verbatim>\<open>ord\<close> of each character).  Constants are named by a
  transliteration of the literal they stand for.
\<close>

type_synonym ustr = "int list"

text \<open>The characters for which \<^verbatim>\<open>str.isspace\<close> holds, which are also those matched by
  \<^verbatim>\<open>\s\<close> in a \<^verbatim>\<open>str\<close> pattern.\<close>

definition space_cps :: "int list" where
  "space_cps = [9, 10, 11, 12, 13, 28, 29, 30, 31, 32, 133, 160, 5760, 8192, 8193, 8194, 8195,
     8196, 8197, 8198, 8199, 8200, 8201, 8202, 8232, 8233, 8239, 8287, 12288]"

definition is_space :: "int \<Rightarrow> bool" where
  "is_space c = (c \<in> set space_cps)"

text \<open>Decimal digits (Unicode category Nd) come in runs of ten; \<open>digit_zeros\<close> lists the
  code point of the zero of every run, in increasing order.  \<^verbatim>\<open>\d\<close> matches exactly
  these characters and \<^verbatim>\<open>int\<close> reads them with their digit value.\<close>

definition digit_zeros :: "int list" where
  "digit_zeros = [
     48, 1632, 1776, 1984, 2406, 2534, 2662, 2790, 2918, 3046, 3174, 3302, 3430, 3558,
     3664, 3792, 3872, 4160, 4240, 6112, 6160, 6470, 6608, 6784, 6800, 6992, 7088, 7232,
     7248, 42528, 43216, 43264, 43472, 43504, 43600, 44016, 65296, 66720, 68912, 69734,
     69872, 69942, 70096, 70384, 70736, 70864, 71248, 71360, 71472, 71904, 72016, 72784,
     73040, 73120, 92768, 92864, 93008, 120782, 120792, 120802, 120812, 120822, 123200,
     123632, 125264, 130032]"

fun digit_in :: "int list \<Rightarrow> int \<Rightarrow> int option" where
  "digit_in [] c = None"
| "digit_in (z # zs) c =
     (if c < z then None else if c \<le> z + 9 then Some (c - z) else digit_in zs c)"

definition digit_value :: "int \<Rightarrow> int option" where
  "digit_value c = digit_in digit_zeros c"

definition is_digit :: "int \<Rightarrow> bool" where
  "is_digit c = (digit_value c \<noteq> None)"

text \<open>\<^verbatim>\<open>int(s)\<close> on a string of decimal digits, as the parsers apply it to the text
  captured by \<^verbatim>\<open>\d{4}\<close> and \<^verbatim>\<open>\d{2}\<close> groups.\<close>

definition int_of_digits :: "ustr \<Rightarrow> int" where
  "int_of_digits s = foldl (\<lambda>a c. 10 * a + (case digit_value c of Some d \<Rightarrow> d | None \<Rightarrow> 0)) 0 s"

text \<open>\<^verbatim>\<open>str(n)\<close> for an integer.\<close>

function digits_of_nat :: "nat \<Rightarrow> ustr" where
  "digits_of_nat n =
     (if n < 10 then [48 + int n] else digits_of_nat (n div 10) @ [48 + int (n mod 10)])"
  by pat_completeness auto
termination
  by (relation "measure id") auto

declare digits_of_nat.simps [simp del]

definition str_of_int :: "int \<Rightarrow> ustr" where
  "str_of_int i = (if i < 0 then 45 # digits_of_nat (nat (- i)) else digits_of_nat (nat i))"

text \<open>Case mapping of a single character.  The tables cover Basic Latin and the Cyrillic
  letters U+0400 to U+045F together with U+0490/U+0491, which is every cased character the
  program's literals and the documents of the scenarios contain; any other character is
  left as it is.\<close>

definition lower_cp :: "int \<Rightarrow> int" where
  "lower_cp c = (if 65 \<le> c \<and> c \<le> 90 then c + 32
     else if 1024 \<le> c \<and> c \<le> 1039 then c + 80
     else if 1040 \<le> c \<and> c \<le> 1071 then c + 32
     else if c = 1168 then 1169 else c)"

definition upper_cp :: "int \<Rightarrow> int" where
  "upper_cp c = (if 97 \<le> c \<and> c \<le> 122 then c - 32
     else if 1104 \<le> c \<and> c \<le> 1119 then c - 80
     else if 1072 \<le> c \<and> c \<le> 1103 then c - 32
     else if c = 1169 then 1168 else c)"

definition lower :: "ustr \<Rightarrow> ustr" where
  "lower s = map lower_cp s"

text \<open>\<^verbatim>\<open>a.startswith(b)\<close>, \<^verbatim>\<open>b in a\<close>, \<^verbatim>\<open>a.endswith(b)\<close>,
  \<^verbatim>\<open>a.count(b)\<close> and \<^verbatim>\<open>a.strip()\<close>.\<close>

fun startswith :: "ustr \<Rightarrow> ustr \<Rightarrow> bool" where
  "startswith s [] = True"
| "startswith [] (p # ps) = False"
| "startswith (x # xs) (p # ps) = (x = p \<and> startswith xs ps)"

fun contains :: "ustr \<Rightarrow> ustr \<Rightarrow> bool" where
  "contains [] p = (p = [])"
| "contains (x # xs) p = (startswith (x # xs) p \<or> contains xs p)"

definition endswith :: "ustr \<Rightarrow> ustr \<Rightarrow> bool" where
  "endswith s p = startswith (rev s) (rev p)"

function count_sub :: "ustr \<Rightarrow> ustr \<Rightarrow> nat" where
  "count_sub s p =
     (if p = [] then Suc (length s)
      else if s = [] then 0
      else if startswith s p then Suc (count_sub (drop (length p) s) p)
      else count_sub (tl s) p)"
  by pat_completeness auto
termination
  by (relation "measure (\<lambda>(s, p). length s)") auto

declare count_sub.simps [simp del]

definition strip :: "ustr \<Rightarrow> ustr" where
  "strip s = rev (dropWhile is_space (rev (dropWhile is_space s)))"

text \<open>\<^verbatim>\<open>s.split(sep)\<close> for a separator of one character, and \<^verbatim>\<open>s.replace(a, b)\<close>
  for single characters.\<close>

fun split_on :: "int \<Rightarrow> ustr \<Rightarrow> ustr list" where
  "split_on sep [] = [[]]"
| "split_on sep (x # xs) =
     (if x = sep then [] # split_on sep xs
      else (case split_on sep xs of [] \<Rightarrow> [[x]] | p # ps \<Rightarrow> (x # p) # ps))"

definition replace_cp :: "int \<Rightarrow> int \<Rightarrow> ustr \<Rightarrow> ustr" where
  "replace_cp a b s = map (\<lambda>c. if c = a then b else c) s"

text \<open>Truthiness of the values the program tests with \<^verbatim>\<open>if x\<close> and combines with
  \<^verbatim>\<open>x or y\<close>: \<^verbatim>\<open>None\<close>, the empty string and the integer zero are false.\<close>

definition truthy_str :: "ustr option \<Rightarrow> bool" where
  "truthy_str v = (case v of None \<Rightarrow> False | Some s \<Rightarrow> s \<noteq> [])"

definition truthy_int :: "int option \<Rightarrow> bool" where
  "truthy_int v = (case v of None \<Rightarrow> False | Some i \<Rightarrow> i \<noteq> 0)"

section \<open>Regular expressions\<close>

text \<open>
  The part of Python's \<^verbatim>\<open>re\<close> syntax the parsers use, with the semantics of its
  backtracking matcher: alternatives are tried from left to right, \<^verbatim>\<open>*\<close> takes as many
  iterations as it can before giving some back, \<^verbatim>\<open>*?\<close> as few as it can, and the first
  way that lets the rest of the pattern match is the match.  \<open>Grp n r\<close> is the \<open>n\<close>-th
  capturing group.  \<open>Eol\<close> is \<^verbatim>\<open>$\<close>: the end of the text, or just before a final newline.
  With the flag \<^verbatim>\<open>re.IGNORECASE\<close> (\<open>ic\<close>) a literal matches a character with the same
  lower case, and a set matches a character whose lower case, or the upper case of it,
  is in the set.
\<close>

datatype cls = Ch int | Rng int int | Space | Digit

fun in_cls :: "cls \<Rightarrow> int \<Rightarrow> bool" where
  "in_cls (Ch a) c = (c = a)"
| "in_cls (Rng a b) c = (a \<le> c \<and> c \<le> b)"
| "in_cls Space c = is_space c"
| "in_cls Digit c = is_digit c"

definition in_set :: "bool \<Rightarrow> cls list \<Rightarrow> int \<Rightarrow> bool" where
  "in_set ic cl c =
     (if ic then list_ex (\<lambda>x. in_cls x (lower_cp c) \<or> in_cls x (upper_cp (lower_cp c))) cl
      else list_ex (\<lambda>x. in_cls x c) cl)"

datatype rx = Lit int | Dot | Set "cls list" | NSet "cls list" | Eps | Eol
  | Seq rx rx | Alt rx rx | Star rx | LStar rx | Grp nat rx

type_synonym caps = "(nat \<times> ustr) list"

text \<open>The matcher takes the rest of the text, the groups captured so far and a
  continuation that matches what follows the pattern.  An iteration of a repetition that
  consumes nothing is not repeated.\<close>

function rx_match ::
  "bool \<Rightarrow> rx \<Rightarrow> ustr \<Rightarrow> caps \<Rightarrow> (ustr \<Rightarrow> caps \<Rightarrow> 'a option) \<Rightarrow> 'a option" where
  "rx_match ic (Lit c) s cs k =
     (case s of [] \<Rightarrow> None
      | x # xs \<Rightarrow> if (if ic then lower_cp x = lower_cp c else x = c) then k xs cs else None)"
| "rx_match ic Dot s cs k =
     (case s of [] \<Rightarrow> None | x # xs \<Rightarrow> if x \<noteq> 10 then k xs cs else None)"
| "rx_match ic (Set cl) s cs k =
     (case s of [] \<Rightarrow> None | x # xs \<Rightarrow> if in_set ic cl x then k xs cs else None)"
| "rx_match ic (NSet cl) s cs k =
     (case s of [] \<Rightarrow> None | x # xs \<Rightarrow> if \<not> in_set ic cl x then k xs cs else None)"
| "rx_match ic Eps s cs k = k s cs"
| "rx_match ic Eol s cs k = (if s = [] \<or> s = [10] then k s cs else None)"
| "rx_match ic (Seq a b) s cs k = rx_match ic a s cs (\<lambda>s' cs'. rx_match ic b s' cs' k)"
| "rx_match ic (Alt a b) s cs k =
     (case rx_match ic a s cs k of Some r \<Rightarrow> Some r | None \<Rightarrow> rx_match ic b s cs k)"
| "rx_match ic (Star a) s cs k =
     (case rx_match ic a s cs
             (\<lambda>s' cs'. if length s' < length s then rx_match ic (Star a) s' cs' k else None) of
        Some r \<Rightarrow> Some r
      | None \<Rightarrow> k s cs)"
| "rx_match ic (LStar a) s cs k =
     (case k s cs of
        Some r \<Rightarrow> Some r
      | None \<Rightarrow> rx_match ic a s cs
             (\<lambda>s' cs'. if length s' < length s then rx_match ic (LStar a) s' cs' k else None))"
| "rx_match ic (Grp n a) s cs k =
     rx_match ic a s cs (\<lambda>s' cs'. k s' ((n, take (length s - length s') s) # cs'))"
  by pat_completeness auto
termination
  by (relation "inv_image (measure size <*lex*> measure length) (\<lambda>(ic, r, s, cs, k). (r, s))")
     auto

text \<open>Derived forms: \<^verbatim>\<open>r+\<close>, \<^verbatim>\<open>r?\<close>, \<^verbatim>\<open>r{m,n}\<close>, a sequence of patterns and a literal
  word.\<close>

definition Plus :: "rx \<Rightarrow> rx" where
  "Plus r = Seq r (Star r)"

definition Opt :: "rx \<Rightarrow> rx" where
  "Opt r = Alt r Eps"

fun upto_rx :: "nat \<Rightarrow> rx \<Rightarrow> rx" where
  "upto_rx 0 r = Eps"
| "upto_rx (Suc n) r = Opt (Seq r (upto_rx n r))"

fun Rep :: "nat \<Rightarrow> nat \<Rightarrow> rx \<Rightarrow> rx" where
  "Rep 0 extra r = upto_rx extra r"
| "Rep (Suc n) extra r = Seq r (Rep n extra r)"

fun seqs :: "rx list \<Rightarrow> rx" where
  "seqs [] = Eps"
| "seqs [r] = r"
| "seqs (r # rs) = Seq r (seqs rs)"

definition word :: "ustr \<Rightarrow> rx" where
  "word w = seqs (map Lit w)"

text \<open>An alternation of one or more patterns.\<close>

fun alts :: "rx list \<Rightarrow> rx" where
  "alts [] = NSet [Rng 0 1114111]"
| "alts [r] = r"
| "alts (r # rs) = Alt r (alts rs)"

text \<open>\<^verbatim>\<open>re.match\<close> tries the pattern at the start of the text, \<^verbatim>\<open>re.search\<close> at every
  position from left to right; both give the captured groups of the first match.
  \<open>group n\<close> reads a group (the patterns below always set the groups they read).\<close>

definition re_match :: "bool \<Rightarrow> rx \<Rightarrow> ustr \<Rightarrow> caps option" where
  "re_match ic r s = rx_match ic r s [] (\<lambda>s' cs. Some cs)"

fun re_search :: "bool \<Rightarrow> rx \<Rightarrow> ustr \<Rightarrow> caps option" where
  "re_search ic r [] = re_match ic r []"
| "re_search ic r (x # xs) =
     (case re_match ic r (x # xs) of Some cs \<Rightarrow> Some cs | None \<Rightarrow> re_search ic r xs)"

definition group :: "nat \<Rightarrow> caps \<Rightarrow> ustr" where
  "group n cs = (case map_of cs n of Some g \<Rightarrow> g | None \<Rightarrow> [])"

text \<open>\<^verbatim>\<open>len(re.findall(r, s))\<close>: the matches are found from left to right, each search
  starting where the previous match ended (one character further after an empty match).\<close>

definition match_end :: "bool \<Rightarrow> rx \<Rightarrow> ustr \<Rightarrow> ustr option" where
  "match_end ic r s = rx_match ic r s [] (\<lambda>s' cs. Some s')"

function findall_count :: "bool \<Rightarrow> rx \<Rightarrow> ustr \<Rightarrow> nat" where
  "findall_count ic r s =
     (case match_end ic r s of
        None \<Rightarrow> (if s = [] then 0 else findall_count ic r (tl s))
      | Some s' \<Rightarrow>
          (if length s' < length s then Suc (findall_count ic r s')
           else if s = [] then 1 else Suc (findall_count ic r (tl s))))"
  by pat_completeness auto
termination
  by (relation "measure (\<lambda>(ic, r, s). length s)") auto

declare findall_count.simps [simp del]

section \<open>Literals of the program\<close>

text \<open>
  Keywords (\<open>w_\<close>), category labels (\<open>t_\<close>), sector codes (\<open>s_\<close>), sector names
  (\<open>n_\<close>) and other literals (\<open>l_\<close>).  \<open>s_pocherk_ted_wide\<close> is the code the minimal
  variant's constructor gives the handwriting sector: it has two spaces before the last
  word, where every other place of the program writes one.  The number sign U+2116 is
  \<open>8470\<close>.
\<close>

definition w_pocherk :: ustr where
  "w_pocherk = [1087, 1086, 1095, 1077, 1088, 1082]"

definition w_ted :: ustr where
  "w_ted = [1090, 1077, 1076]"

definition w_pidpys :: ustr where
  "w_pidpys = [1087, 1110, 1076, 1087, 1080, 1089]"

definition w_rukopys :: ustr where
  "w_rukopys = [1088, 1091, 1082, 1086, 1087, 1080, 1089]"

definition w_hrafoloh :: ustr where
  "w_hrafoloh = [1075, 1088, 1072, 1092, 1086, 1083, 1086, 1075]"

definition w_balisty :: ustr where
  "w_balisty = [1073, 1072, 1083, 1110, 1089, 1090, 1080]"

definition w_zbroia :: ustr where
  "w_zbroia = [1079, 1073, 1088, 1086, 1103]"

definition w_pistolet :: ustr where
  "w_pistolet = [1087, 1110, 1089, 1090, 1086, 1083, 1077, 1090]"

definition w_kulia :: ustr where
  "w_kulia = [1082, 1091, 1083, 1103]"

definition w_hilza :: ustr where
  "w_hilza = [1075, 1110, 1083, 1100, 1079, 1072]"

definition w_postril :: ustr where
  "w_postril = [1087, 1086, 1089, 1090, 1088, 1110, 1083]"

definition w_trasol :: ustr where
  "w_trasol = [1090, 1088, 1072, 1089, 1086, 1083]"

definition w_slid :: ustr where
  "w_slid = [1089, 1083, 1110, 1076]"

definition w_vidbytok :: ustr where
  "w_vidbytok = [1074, 1110, 1076, 1073, 1080, 1090, 1086, 1082]"

definition w_vzuttia :: ustr where
  "w_vzuttia = [1074, 1079, 1091, 1090, 1090, 1103]"

definition w_shyny :: ustr where
  "w_shyny = [1096, 1080, 1085, 1080]"

definition w_mekhano :: ustr where
  "w_mekhano = [1084, 1077, 1093, 1072, 1085, 1086]"

definition w_daktylo :: ustr where
  "w_daktylo = [1076, 1072, 1082, 1090, 1080, 1083, 1086]"

definition w_palets :: ustr where
  "w_palets = [1087, 1072, 1083, 1077, 1094, 1100]"

definition w_papiliar :: ustr where
  "w_papiliar = [1087, 1072, 1087, 1110, 1083, 1103, 1088]"

definition w_dermatohlif :: ustr where
  "w_dermatohlif = [1076, 1077, 1088, 1084, 1072, 1090, 1086, 1075, 1083, 1110, 1092]"

definition w_oblik :: ustr where
  "w_oblik = [1086, 1073, 1083, 1110, 1082]"

definition w_kuli :: ustr where
  "w_kuli = [1082, 1091, 1083, 1110]"

definition w_hilzy :: ustr where
  "w_hilzy = [1075, 1110, 1083, 1100, 1079, 1080]"

definition w_identyfik :: ustr where
  "w_identyfik = [1110, 1076, 1077, 1085, 1090, 1080, 1092, 1110, 1082]"

definition w_avtomat :: ustr where
  "w_avtomat = [1072, 1074, 1090, 1086, 1084, 1072, 1090]"

definition w_nizh :: ustr where
  "w_nizh = [1085, 1110, 1078]"

definition w_kholodna_zbroia :: ustr where
  "w_kholodna_zbroia = [1093, 1086, 1083, 1086, 1076, 1085, 1072, 32, 1079, 1073, 1088, 1086,
     1103]"

definition w_kholodna :: ustr where
  "w_kholodna = [1093, 1086, 1083, 1086, 1076, 1085, 1072]"

definition w_vohnepalna :: ustr where
  "w_vohnepalna = [1074, 1086, 1075, 1085, 1077, 1087, 1072, 1083, 1100, 1085, 1072]"

definition w_nabii :: ustr where
  "w_nabii = [1085, 1072, 1073, 1110, 1081]"

definition w_patron :: ustr where
  "w_patron = [1087, 1072, 1090, 1088, 1086, 1085]"

definition w_stvol :: ustr where
  "w_stvol = [1089, 1090, 1074, 1086, 1083]"

definition w_transport :: ustr where
  "w_transport = [1090, 1088, 1072, 1085, 1089, 1087, 1086, 1088, 1090]"

definition w_koleso :: ustr where
  "w_koleso = [1082, 1086, 1083, 1077, 1089, 1086]"

definition w_protektor :: ustr where
  "w_protektor = [1087, 1088, 1086, 1090, 1077, 1082, 1090, 1086, 1088]"

definition w_mekhanoskopi :: ustr where
  "w_mekhanoskopi = [1084, 1077, 1093, 1072, 1085, 1086, 1089, 1082, 1086, 1087, 1110]"

definition w_zamok :: ustr where
  "w_zamok = [1079, 1072, 1084, 1086, 1082]"

definition w_kliuch :: ustr where
  "w_kliuch = [1082, 1083, 1102, 1095]"

definition w_vidbytok_palts :: ustr where
  "w_vidbytok_palts = [1074, 1110, 1076, 1073, 1080, 1090, 1086, 1082, 32, 1087, 1072, 1083,
     1100, 1094]"

definition w_pysmo :: ustr where
  "w_pysmo = [1087, 1080, 1089, 1100, 1084, 1086]"

definition w_balistychnyi_oblik :: ustr where
  "w_balistychnyi_oblik = [1073, 1072, 1083, 1110, 1089, 1090, 1080, 1095, 1085, 1080, 1081,
     32, 1086, 1073, 1083, 1110, 1082]"

definition w_ekspertyz :: ustr where
  "w_ekspertyz = [1077, 1082, 1089, 1087, 1077, 1088, 1090, 1080, 1079]"

definition w_doslidzhenn :: ustr where
  "w_doslidzhenn = [1076, 1086, 1089, 1083, 1110, 1076, 1078, 1077, 1085, 1085]"

definition w_vysnovok :: ustr where
  "w_vysnovok = [1074, 1080, 1089, 1085, 1086, 1074, 1086, 1082]"

definition t_zbroi :: ustr where
  "t_zbroi = [1079, 1073, 1088, 1086, 1111]"

definition t_trasolohichna :: ustr where
  "t_trasolohichna = [1090, 1088, 1072, 1089, 1086, 1083, 1086, 1075, 1110, 1095, 1085, 1072]"

definition t_daktyloskopichna :: ustr where
  "t_daktyloskopichna = [1076, 1072, 1082, 1090, 1080, 1083, 1086, 1089, 1082, 1086, 1087,
     1110, 1095, 1085, 1072]"

definition t_pocherkoznavcha :: ustr where
  "t_pocherkoznavcha = [1087, 1086, 1095, 1077, 1088, 1082, 1086, 1079, 1085, 1072, 1074, 1095,
     1072]"

definition t_bal_oblik :: ustr where
  "t_bal_oblik = [1073, 1072, 1083, 46, 32, 1086, 1073, 1083, 1110, 1082]"

definition t_nevyznacheno :: ustr where
  "t_nevyznacheno = [1085, 1077, 1074, 1080, 1079, 1085, 1072, 1095, 1077, 1085, 1086]"

definition avto_mark :: ustr where
  "avto_mark = [32, 40, 1072, 1074, 1090, 1086, 41]"

definition s_pocherk_ted :: ustr where
  "s_pocherk_ted = [1087, 1086, 1095, 1077, 1088, 1082, 32, 1090, 1072, 32, 1058, 1045, 1044]"

definition s_pocherk_ted_wide :: ustr where
  "s_pocherk_ted_wide = [1087, 1086, 1095, 1077, 1088, 1082, 32, 1090, 1072, 32, 32, 1058,
     1045, 1044]"

definition s_balisty :: ustr where
  "s_balisty = [1073, 1072, 1083, 1110, 1089, 1090, 1080]"

definition s_trasolohiia :: ustr where
  "s_trasolohiia = [1090, 1088, 1072, 1089, 1086, 1083, 1086, 1075, 1110, 1103]"

definition s_daktyloskopiia :: ustr where
  "s_daktyloskopiia = [1076, 1072, 1082, 1090, 1080, 1083, 1086, 1089, 1082, 1086, 1087, 1110,
     1103]"

definition s_bal_oblik :: ustr where
  "s_bal_oblik = [1073, 1072, 1083, 46, 32, 1086, 1073, 1083, 1110, 1082]"

definition n_pocherk :: ustr where
  "n_pocherk = [1057, 1077, 1082, 1090, 1086, 1088, 32, 1087, 1086, 1095, 1077, 1088, 1082,
     1086, 1079, 1085, 1072, 1074, 1095, 1080, 1093, 32, 1076, 1086, 1089, 1083, 1110, 1076,
     1078, 1077, 1085, 1100]"

definition n_zbroi :: ustr where
  "n_zbroi = [1057, 1077, 1082, 1090, 1086, 1088, 32, 1076, 1086, 1089, 1083, 1110, 1076, 1078,
     1077, 1085, 1100, 32, 1079, 1073, 1088, 1086, 1111]"

definition n_trasolohiia :: ustr where
  "n_trasolohiia = [1057, 1077, 1082, 1090, 1086, 1088, 32, 1090, 1088, 1072, 1089, 1086, 1083,
     1086, 1075, 1110, 1095, 1085, 1080, 1093, 32, 1076, 1086, 1089, 1083, 1110, 1076, 1078,
     1077, 1085, 1100]"

definition n_daktyloskopiia :: ustr where
  "n_daktyloskopiia = [1057, 1077, 1082, 1090, 1086, 1088, 32, 1076, 1072, 1082, 1090, 1080,
     1083, 1086, 1089, 1082, 1086, 1087, 1110, 1095, 1085, 1080, 1093, 32, 1076, 1086, 1089,
     1083, 1110, 1076, 1078, 1077, 1085, 1100]"

definition n_bal_oblik :: ustr where
  "n_bal_oblik = [1057, 1077, 1082, 1090, 1086, 1088, 32, 1073, 1072, 1083, 1110, 1089, 1090,
     1080, 1095, 1085, 1086, 1075, 1086, 32, 1086, 1073, 1083, 1110, 1082, 1091]"

definition unknown_expert :: ustr where
  "unknown_expert = [1053, 1077, 1074, 1110, 1076, 1086, 1084, 1080, 1081, 95, 1077, 1082,
     1089, 1087, 1077, 1088, 1090]"

definition l_IERDR :: ustr where
  "l_IERDR = [1028, 1056, 1044, 1056]"

definition l_kryminalnomu_provadzhenniu :: ustr where
  "l_kryminalnomu_provadzhenniu = [1082, 1088, 1080, 1084, 1110, 1085, 1072, 1083, 1100, 1085,
     1086, 1084, 1091, 32, 1087, 1088, 1086, 1074, 1072, 1076, 1078, 1077, 1085, 1085, 1102]"

definition l_provadzhennia :: ustr where
  "l_provadzhennia = [1087, 1088, 1086, 1074, 1072, 1076, 1078, 1077, 1085, 1085, 1103]"

definition l_spravi :: ustr where
  "l_spravi = [1089, 1087, 1088, 1072, 1074, 1110]"

definition l_ekspertyza :: ustr where
  "l_ekspertyza = [1077, 1082, 1089, 1087, 1077, 1088, 1090, 1080, 1079, 1072]"

definition l_vid :: ustr where
  "l_vid = [1074, 1110, 1076]"

definition l_AUTO :: ustr where
  "l_AUTO = [65, 85, 84, 79, 95]"

definition l_ekspertyza_und :: ustr where
  "l_ekspertyza_und = [1077, 1082, 1089, 1087, 1077, 1088, 1090, 1080, 1079, 1072, 95]"

definition dot_doc :: ustr where
  "dot_doc = [46, 100, 111, 99]"

definition dot_docx :: ustr where
  "dot_docx = [46, 100, 111, 99, 120]"

definition dot_pdf :: ustr where
  "dot_pdf = [46, 112, 100, 102]"

section \<open>The agent and its configured tables\<close>

text \<open>
  \<^verbatim>\<open>ForensicArchiveAgent.__init__\<close> (forensic_archive_agent.py, lines 105-131, and
  forensic_archive_optimized.py, lines 113-165).  \<open>sectors\<close> maps a sector's name to its
  code, \<open>expertise_keywords\<close> a category to its keywords; both are dictionaries read in
  insertion order, hence association lists.
\<close>

record agent =
  db_path :: ustr
  archive_folder :: ustr
  existing_archive_path :: "ustr option"
  index_only_mode :: bool
  sectors :: "(ustr \<times> ustr) list"
  expertise_keywords :: "(ustr \<times> ustr list) list"

definition expertise_keywords_init :: "(ustr \<times> ustr list) list" where
  "expertise_keywords_init =
     [(t_pocherkoznavcha, [w_pocherk, w_pidpys, w_rukopys]),
      (t_zbroi, [w_zbroia, w_pistolet, w_avtomat, w_nizh, w_kholodna, w_kulia, w_hilza,
                 w_balisty]),
      (t_trasolohichna, [w_slid, w_vidbytok, w_trasol]),
      (t_daktyloskopichna, [w_daktylo, w_palets, w_papiliar]),
      (t_bal_oblik, [w_kulia, w_hilza])]"

text \<open>The constructor of the minimal variant.\<close>

definition new_agent :: "ustr \<Rightarrow> ustr \<Rightarrow> ustr option \<Rightarrow> bool \<Rightarrow> agent" where
  "new_agent dbp folder existing index_only =
     \<lparr>db_path = dbp, archive_folder = folder, existing_archive_path = existing,
      index_only_mode = index_only,
      sectors = [(n_pocherk, s_pocherk_ted_wide), (n_zbroi, s_balisty),
                 (n_trasolohiia, s_trasolohiia), (n_daktyloskopiia, s_daktyloskopiia),
                 (n_bal_oblik, s_bal_oblik)],
      expertise_keywords = expertise_keywords_init\<rparr>"

text \<open>The constructor of the optimized variant: the same tables, the handwriting sector's
  code with one space.\<close>

definition new_agent_opt :: "ustr \<Rightarrow> ustr \<Rightarrow> ustr option \<Rightarrow> bool \<Rightarrow> agent" where
  "new_agent_opt dbp folder existing index_only =
     \<lparr>db_path = dbp, archive_folder = folder, existing_archive_path = existing,
      index_only_mode = index_only,
      sectors = [(n_pocherk, s_pocherk_ted), (n_zbroi, s_balisty),
                 (n_trasolohiia, s_trasolohiia), (n_daktyloskopiia, s_daktyloskopiia),
                 (n_bal_oblik, s_bal_oblik)],
      expertise_keywords = expertise_keywords_init\<rparr>"

section \<open>Minimal variant: type classifier\<close>

text \<open>
  \<^verbatim>\<open>determine_expertise_type\<close> (forensic_archive_agent.py, lines 430-500).  Every keyword
  is used as a regular expression; four of them contain \<^verbatim>\<open>.*\<close>.  The table is local
  to the method: category, keywords, weight, in the order of the dictionary.
\<close>

definition gap :: "ustr \<Rightarrow> ustr \<Rightarrow> rx" where
  "gap a b = seqs [word a, Star Dot, word b]"

definition expertise_keywords_weighted :: "(ustr \<times> rx list \<times> int) list" where
  "expertise_keywords_weighted =
     [(t_zbroi,
       map word [w_zbroia, w_pistolet, w_avtomat, w_nizh, w_kholodna_zbroia, w_vohnepalna,
                 w_kulia, w_hilza, w_balisty, w_postril, w_nabii, w_patron, w_stvol], 10),
      (t_trasolohichna,
       map word [w_trasol, w_slid, w_vidbytok, w_papiliar, w_vzuttia, w_shyny, w_transport,
                 w_koleso, w_protektor, w_mekhanoskopi, w_zamok, w_kliuch], 8),
      (t_daktyloskopichna,
       map word [w_daktylo, w_palets, w_papiliar, w_vidbytok_palts, w_dermatohlif], 9),
      (t_pocherkoznavcha,
       map word [w_pocherk, w_pidpys, w_rukopys, w_pysmo, w_hrafoloh]
         @ [gap w_identyfik w_pidpys], 7),
      (t_bal_oblik,
       [gap w_kulia w_oblik, gap w_hilza w_oblik, word w_balistychnyi_oblik,
        gap w_identyfik w_kulia], 6)]"

text \<open>The inner loop: a keyword found adds the weight, and 2 for every occurrence after
  the first.\<close>

fun keyword_score :: "int \<Rightarrow> ustr \<Rightarrow> rx list \<Rightarrow> int" where
  "keyword_score weight text_lower [] = 0"
| "keyword_score weight text_lower (keyword # keywords) =
     (if re_search False keyword text_lower \<noteq> None
      then weight + (int (findall_count False keyword text_lower) - 1) * 2
      else 0) + keyword_score weight text_lower keywords"

text \<open>\<^verbatim>\<open>type_scores\<close> after the scoring loop: the categories with a positive score, in
  table order.\<close>

definition type_scores :: "ustr \<Rightarrow> (ustr \<times> int) list" where
  "type_scores text_lower =
     filter (\<lambda>(t, score). score > 0)
       (map (\<lambda>(t, keywords, weight). (t, keyword_score weight text_lower keywords))
          expertise_keywords_weighted)"

definition trasology_indicators :: "ustr list" where
  "trasology_indicators = [w_slid, w_vidbytok, w_vzuttia, w_shyny, w_mekhanoskopi, w_zamok]"

definition weapons_indicators :: "ustr list" where
  "weapons_indicators = [w_postril, w_vohnepalna, w_stvol, w_nabii]"

definition indicator_count :: "ustr list \<Rightarrow> ustr \<Rightarrow> nat" where
  "indicator_count indicators text_lower =
     length (filter (\<lambda>ind. contains text_lower ind) indicators)"

text \<open>\<^verbatim>\<open>scores[key] += n\<close> for a key of the dictionary.\<close>

definition add_score :: "ustr \<Rightarrow> int \<Rightarrow> (ustr \<times> int) list \<Rightarrow> (ustr \<times> int) list" where
  "add_score key n scores = map (\<lambda>(t, score). if t = key then (t, score + n) else (t, score)) scores"

definition disambiguate :: "ustr \<Rightarrow> (ustr \<times> int) list \<Rightarrow> (ustr \<times> int) list" where
  "disambiguate text_lower scores =
     (if map_of scores t_trasolohichna \<noteq> None \<and> map_of scores t_zbroi \<noteq> None
      then (let trasology_count = indicator_count trasology_indicators text_lower;
                weapons_count = indicator_count weapons_indicators text_lower
            in if trasology_count > weapons_count then add_score t_trasolohichna 5 scores
               else add_score t_zbroi 5 scores)
      else scores)"

text \<open>\<^verbatim>\<open>max(d, key=d.get)\<close>: the first key, in insertion order, with the greatest value.\<close>

fun max_by_score :: "(ustr \<times> int) \<Rightarrow> (ustr \<times> int) list \<Rightarrow> ustr \<times> int" where
  "max_by_score best [] = best"
| "max_by_score best (x # xs) = max_by_score (if snd x > snd best then x else best) xs"

definition best_type :: "(ustr \<times> int) list \<Rightarrow> ustr" where
  "best_type scores = (case scores of [] \<Rightarrow> t_nevyznacheno | x # xs \<Rightarrow> fst (max_by_score x xs))"

definition determine_expertise_type :: "agent \<Rightarrow> ustr \<Rightarrow> ustr" where
  "determine_expertise_type self text =
     (let text_lower = lower text
      in best_type (disambiguate text_lower (type_scores text_lower)))"

text \<open>\<^verbatim>\<open>determine_expertise_type_by_sector\<close> (lines 502-532).\<close>

definition sector_type_mapping :: "(ustr \<times> ustr) list" where
  "sector_type_mapping =
     [(s_pocherk_ted, t_pocherkoznavcha), (s_balisty, t_zbroi),
      (s_trasolohiia, t_trasolohichna), (s_daktyloskopiia, t_daktyloskopichna),
      (s_bal_oblik, t_bal_oblik)]"

definition determine_expertise_type_by_sector :: "agent \<Rightarrow> ustr \<Rightarrow> ustr \<Rightarrow> ustr" where
  "determine_expertise_type_by_sector self text sector_code =
     (let general_type = determine_expertise_type self text
      in if general_type = t_nevyznacheno \<or> map_of sector_type_mapping sector_code \<noteq> None
         then (case map_of sector_type_mapping sector_code of
                 None \<Rightarrow> general_type
               | Some expected_type \<Rightarrow>
                   if general_type \<noteq> t_nevyznacheno \<and> expected_type \<noteq> []
                      \<and> general_type \<noteq> expected_type
                   then expected_type @ avto_mark
                   else expected_type)
         else general_type)"

section \<open>Minimal variant: field parser\<close>

text \<open>
  \<^verbatim>\<open>parse_expertise_document\<close> (forensic_archive_agent.py, lines 355-428).  The result
  is a dictionary with six keys; absent strings are empty, an absent year is \<^verbatim>\<open>None\<close>.
\<close>

record parsed =
  p_erddr_number :: ustr
  p_expertise_number :: ustr
  p_expertise_date :: ustr
  p_expertise_year :: "int option"
  p_expertise_type :: ustr
  p_source_file :: ustr

definition ws0 :: rx where
  "ws0 = Star (Set [Space])"

definition digits1 :: rx where
  "digits1 = Plus (Set [Digit])"

text \<open>\<^verbatim>\<open>([^\s,\n\.]+)\<close>\<close>

definition token1 :: rx where
  "token1 = Grp 1 (Plus (NSet [Space, Ch 44, Ch 10, Ch 46]))"

definition erddr_patterns :: "rx list" where
  "erddr_patterns =
     [seqs [Lit 8470, ws0, word l_IERDR, ws0, token1],
      seqs [word l_IERDR, ws0, Opt (Lit 8470), ws0, token1],
      seqs [word l_kryminalnomu_provadzhenniu, ws0, Lit 8470, ws0, token1],
      seqs [word l_provadzhennia, ws0, Lit 8470, ws0, token1],
      seqs [word l_spravi, ws0, Lit 8470, ws0, token1]]"

text \<open>\<^verbatim>\<open>re.sub(r'^[^\d]*|[^\d]*$', '', s)\<close> removes the non-digits that lead and the
  non-digits that trail.\<close>

definition strip_non_digits :: "ustr \<Rightarrow> ustr" where
  "strip_non_digits s =
     rev (dropWhile (\<lambda>c. \<not> is_digit c) (rev (dropWhile (\<lambda>c. \<not> is_digit c) s)))"

fun find_erddr :: "rx list \<Rightarrow> ustr \<Rightarrow> ustr" where
  "find_erddr [] text = []"
| "find_erddr (pattern # patterns) text =
     (case re_search True pattern text of
        None \<Rightarrow> find_erddr patterns text
      | Some match \<Rightarrow>
          (let erddr = strip_non_digits (strip (group 1 match))
           in if length erddr \<ge> 8 then erddr else find_erddr patterns text))"

definition expertise_patterns :: "rx list" where
  "expertise_patterns =
     [seqs [Lit 8470, ws0,
            Grp 1 (seqs [digits1, Lit 47, digits1, Plus (Set [Rng 1040 1071]), Lit 45, digits1])],
      seqs [word l_ekspertyza, ws0, Lit 8470, ws0, token1],
      seqs [word w_vysnovok, ws0, Lit 8470, ws0, token1],
      seqs [word w_vysnovok, LStar Dot, Lit 8470, ws0, token1],
      seqs [Lit 8470, ws0,
            Grp 1 (seqs [Star (NSet [Ch 44, Ch 10, Ch 46]), digits1,
                         Star (NSet [Ch 44, Ch 10, Ch 46])])]]"

fun find_expertise_number :: "rx list \<Rightarrow> ustr \<Rightarrow> ustr" where
  "find_expertise_number [] text = []"
| "find_expertise_number (pattern # patterns) text =
     (case re_search True pattern text of
        None \<Rightarrow> find_expertise_number patterns text
      | Some match \<Rightarrow>
          (let expertise_num = strip (group 1 match)
           in if list_ex is_digit expertise_num \<and> length expertise_num > 3
              then expertise_num else find_expertise_number patterns text))"

text \<open>\<^verbatim>\<open>(\d{1,2}\.\d{1,2}\.(\d{4}))\<close> with the separator \<open>sep\<close>.\<close>

definition date_rx :: "int \<Rightarrow> rx" where
  "date_rx sep = Grp 1 (seqs [Rep 1 1 (Set [Digit]), Lit sep, Rep 1 1 (Set [Digit]), Lit sep,
                              Grp 2 (Rep 4 0 (Set [Digit]))])"

definition date_patterns :: "rx list" where
  "date_patterns = [date_rx 46, date_rx 47, seqs [word l_vid, ws0, date_rx 46]]"

fun find_date :: "rx list \<Rightarrow> ustr \<Rightarrow> ustr \<times> int option" where
  "find_date [] text = ([], None)"
| "find_date (pattern # patterns) text =
     (case re_search False pattern text of
        None \<Rightarrow> find_date patterns text
      | Some match \<Rightarrow> (group 1 match, Some (int_of_digits (group 2 match))))"

text \<open>The fallback of lines 415-420: without a year so far, the first \<^verbatim>\<open>20\d\d\<close> of the
  text is the year if it is at most 2030.\<close>

definition year_fallback :: "ustr \<Rightarrow> int option" where
  "year_fallback text =
     (case re_search False (seqs [Lit 50, Lit 48, Grp 1 (Rep 2 0 (Set [Digit]))]) text of
        None \<Rightarrow> None
      | Some year_match \<Rightarrow>
          (let year = int_of_digits ([50, 48] @ group 1 year_match)
           in if 2000 \<le> year \<and> year \<le> 2030 then Some year else None))"

definition parse_expertise_document :: "agent \<Rightarrow> ustr \<Rightarrow> ustr \<Rightarrow> ustr option \<Rightarrow> parsed" where
  "parse_expertise_document self text filename sector_code =
     (let (date, year) = find_date date_patterns text;
          year' = (if \<not> truthy_int year then
                     (case year_fallback text of Some y \<Rightarrow> Some y | None \<Rightarrow> year)
                   else year)
      in \<lparr>p_erddr_number = find_erddr erddr_patterns text,
          p_expertise_number = find_expertise_number expertise_patterns text,
          p_expertise_date = date,
          p_expertise_year = year',
          p_expertise_type =
            (case sector_code of
               Some code \<Rightarrow> if code \<noteq> [] then determine_expertise_type_by_sector self text code
                            else determine_expertise_type self text
             | None \<Rightarrow> determine_expertise_type self text),
          p_source_file = filename\<rparr>)"

section \<open>Minimal variant: sector resolver\<close>

text \<open>
  \<^verbatim>\<open>determine_sector_from_path\<close> (forensic_archive_agent.py, lines 534-557): three nested
  loops over the sectors of a local table, the parts of the path and the sector's
  keywords, returning at the first keyword found in the lower-cased part.
\<close>

definition sector_keywords :: "(ustr \<times> ustr list) list" where
  "sector_keywords =
     [(s_pocherk_ted, [w_pocherk, w_ted, w_pidpys, w_rukopys, w_hrafoloh]),
      (s_balisty, [w_balisty, w_zbroia, w_pistolet, w_kulia, w_hilza, w_postril]),
      (s_trasolohiia, [w_trasol, w_slid, w_vidbytok, w_vzuttia, w_shyny, w_mekhano]),
      (s_daktyloskopiia, [w_daktylo, w_palets, w_papiliar, w_dermatohlif]),
      (s_bal_oblik, [w_oblik, w_kuli, w_hilzy, w_identyfik])]"

fun keyword_loop :: "ustr list \<Rightarrow> ustr \<Rightarrow> bool" where
  "keyword_loop [] part = False"
| "keyword_loop (keyword # keywords) part =
     (if contains (lower part) keyword then True else keyword_loop keywords part)"

fun part_loop :: "ustr list \<Rightarrow> ustr list \<Rightarrow> bool" where
  "part_loop keywords [] = False"
| "part_loop keywords (part # parts) =
     (if keyword_loop keywords part then True else part_loop keywords parts)"

fun sector_loop :: "agent \<Rightarrow> (ustr \<times> ustr list) list \<Rightarrow> ustr list \<Rightarrow> ustr" where
  "sector_loop self [] path_parts = s_pocherk_ted"
| "sector_loop self ((sector, keywords) # rest) path_parts =
     (if part_loop keywords path_parts
      then (case map_of (sectors self) sector of Some code \<Rightarrow> code | None \<Rightarrow> sector)
      else sector_loop self rest path_parts)"

definition determine_sector_from_path :: "agent \<Rightarrow> ustr \<Rightarrow> ustr" where
  "determine_sector_from_path self file_path =
     sector_loop self sector_keywords (split_on 47 (replace_cp 92 47 file_path))"

section \<open>Paths, files and the case index\<close>

text \<open>
  Paths are texts with the separator \<open>/\<close> (\<open>47\<close>); \<^verbatim>\<open>os.path.join\<close>,
  \<^verbatim>\<open>os.path.basename\<close> and \<^verbatim>\<open>os.path.splitext\<close> are those of \<^verbatim>\<open>posixpath\<close>.
\<close>

definition path_join :: "ustr \<Rightarrow> ustr \<Rightarrow> ustr" where
  "path_join a b =
     (if startswith b [47] then b
      else if a = [] \<or> endswith a [47] then a @ b
      else a @ [47] @ b)"

definition join_all :: "ustr \<Rightarrow> ustr list \<Rightarrow> ustr" where
  "join_all a ps = foldl path_join a ps"

definition basename :: "ustr \<Rightarrow> ustr" where
  "basename p = rev (takeWhile (\<lambda>c. c \<noteq> 47) (rev p))"

text \<open>The extension starts at the last dot of the base name, unless only dots precede
  it.\<close>

definition splitext :: "ustr \<Rightarrow> ustr \<times> ustr" where
  "splitext p =
     (let b = basename p;
          e = rev (takeWhile (\<lambda>c. c \<noteq> 46) (rev b));
          stem = take (length b - length e - 1) b
      in if length e < length b \<and> list_ex (\<lambda>c. c \<noteq> 46) stem
         then (take (length p - length e - 1) p, 46 # e)
         else (p, []))"

text \<open>\<^verbatim>\<open>re.sub(r'[<>:"/\\|?*]', '_', s)\<close>\<close>

definition sanitize :: "ustr \<Rightarrow> ustr" where
  "sanitize s = map (\<lambda>c. if c \<in> set [60, 62, 58, 34, 47, 92, 124, 63, 42] then 95 else c) s"

text \<open>
  The file system maps the paths that exist to the content found there.  The table
  \<^verbatim>\<open>expertise_cases\<close> is the list of its rows in the order of insertion, with the next
  value of the \<^verbatim>\<open>AUTOINCREMENT\<close> key; a column is \<open>None\<close> where it is \<^verbatim>\<open>NULL\<close>.
  The optimized variant's table has the two columns \<^verbatim>\<open>file_size\<close> and
  \<^verbatim>\<open>file_hash\<close> in addition.
\<close>

type_synonym content = "int list"

record case_row =
  r_id :: int
  r_erddr_number :: "ustr option"
  r_expertise_number :: "ustr option"
  r_expertise_date :: "ustr option"
  r_expertise_year :: "int option"
  r_expertise_type :: "ustr option"
  r_expert_name :: "ustr option"
  r_sector :: "ustr option"
  r_source_file :: "ustr option"
  r_file_path :: "ustr option"

record case_row_opt = case_row +
  r_file_size :: int
  r_file_hash :: "ustr option"

record 'r world =
  fs :: "ustr \<rightharpoonup> content"
  rows :: "'r list"
  next_id :: int

text \<open>\<^verbatim>\<open>SELECT id FROM expertise_cases WHERE expertise_number = ?\<close>, first row.\<close>

definition select_by_number :: "('m case_row_scheme) list \<Rightarrow> ustr \<Rightarrow> int option" where
  "select_by_number rs number =
     (case filter (\<lambda>r. r_expertise_number r = Some number) rs of
        [] \<Rightarrow> None | r # _ \<Rightarrow> Some (r_id r))"

text \<open>The constraint \<^verbatim>\<open>expertise_number TEXT UNIQUE\<close> of the table (lines 149-169):
  an insert whose number is not \<^verbatim>\<open>NULL\<close> and is already in the table raises.\<close>

definition violates_unique :: "('m case_row_scheme) list \<Rightarrow> ustr option \<Rightarrow> bool" where
  "violates_unique rs number =
     (case number of None \<Rightarrow> False
      | Some n \<Rightarrow> list_ex (\<lambda>r. r_expertise_number r = Some n) rs)"

section \<open>Minimal variant: placement and add\<close>

text \<open>
  What an add reads from its surroundings: whether the Word automation is installed, what
  the conversion of a \<^verbatim>\<open>.doc\<close> file and the text extractors return, the clock, and which
  of the operations on the store and the file system raise.
\<close>

record env =
  WIN32_AVAILABLE :: bool
  convert_doc_to_docx :: "ustr \<Rightarrow> (ustr \<times> content) option"
  extract_docx_content :: "ustr \<Rightarrow> ustr option"
  extract_pdf_content :: "ustr \<Rightarrow> ustr option"
  now_stamp :: ustr
  now_year :: int
  select_fails :: bool
  makedirs_fails :: "ustr \<Rightarrow> bool"
  copy_fails :: bool
  insert_fails :: bool

text \<open>\<^verbatim>\<open>get_file_content\<close> (lines 324-345).\<close>

definition get_file_content :: "env \<Rightarrow> ustr \<Rightarrow> ustr option" where
  "get_file_content e file_path =
     (let file_ext = lower (snd (splitext file_path))
      in if file_ext = dot_docx then extract_docx_content e file_path
         else if file_ext = dot_pdf then extract_pdf_content e file_path
         else if file_ext = dot_doc then
           (if WIN32_AVAILABLE e then
              (case convert_doc_to_docx e file_path of
                 Some (docx_path, c) \<Rightarrow>
                   if docx_path \<noteq> [] then extract_docx_content e docx_path else None
               | None \<Rightarrow> None)
            else None)
         else None)"

text \<open>\<^verbatim>\<open>get_file_destination_path\<close> (lines 588-616); \<open>None\<close> when the fallback
  directory cannot be made either and the exception leaves the method.\<close>

definition get_file_destination_path ::
  "agent \<Rightarrow> env \<Rightarrow> ustr option \<Rightarrow> ustr option \<Rightarrow> int option \<Rightarrow> ustr option \<Rightarrow> ustr option" where
  "get_file_destination_path self e sector_code expert_name expertise_year expertise_number =
     (let year_folder = (if truthy_int expertise_year then str_of_int (the expertise_year)
                         else str_of_int (now_year e));
          safe_expert = sanitize (if truthy_str expert_name then the expert_name
                                  else unknown_expert);
          safe_sector = sanitize (if truthy_str sector_code then the sector_code
                                  else s_pocherk_ted);
          safe_expertise = (if truthy_str expertise_number then sanitize (the expertise_number)
                            else l_ekspertyza_und @ now_stamp e);
          path = join_all (archive_folder self)
                   [safe_sector, safe_expert, year_folder, safe_expertise];
          simple_path = path_join (archive_folder self) safe_sector
      in if \<not> makedirs_fails e path then Some path
         else if \<not> makedirs_fails e simple_path then Some simple_path
         else None)"

text \<open>The arguments of \<^verbatim>\<open>add_document\<close> and its result: the flag and the message, one
  constructor for each message of the method with the values it interpolates.\<close>

record add_args =
  a_file_path :: ustr
  a_sector_code :: "ustr option"
  a_expert_name :: "ustr option"
  a_expertise_year :: "int option"
  a_expertise_number :: "ustr option"

datatype add_msg =
    FileNotFound
  | DocConversionUnavailable
  | DocConversionFailed
  | UnsupportedFormat ustr
  | CannotReadText ustr
  | ExpertNameMissing
  | SectorMissing
  | AlreadyExists ustr
  | UniquenessCheckError
  | NotInArchive
  | CopyError
  | Added ustr ustr ustr ustr
  | SaveError

record add_data =
  d_erddr_number :: ustr
  d_expertise_number :: ustr
  d_expertise_date :: ustr
  d_expertise_year :: "int option"
  d_expertise_type :: ustr
  d_expert_name :: ustr
  d_sector :: ustr
  d_source_file :: ustr

text \<open>Lines 620-641: the file must exist; a \<^verbatim>\<open>.doc\<close> file is converted and the converted
  file is read instead; the extension must be a supported one.  The result is the file
  system with the converted file, and the path to read.\<close>

definition open_input ::
  "env \<Rightarrow> (ustr \<rightharpoonup> content) \<Rightarrow> ustr \<Rightarrow> add_msg + ((ustr \<rightharpoonup> content) \<times> ustr \<times> ustr)" where
  "open_input e files original_path =
     (if files original_path = None then Inl FileNotFound
      else let file_ext = lower (snd (splitext original_path))
           in if file_ext = dot_doc then
                (if \<not> WIN32_AVAILABLE e then Inl DocConversionUnavailable
                 else (case convert_doc_to_docx e original_path of
                         None \<Rightarrow> Inl DocConversionFailed
                       | Some (docx_path, c) \<Rightarrow>
                           if docx_path = [] then Inl DocConversionFailed
                           else Inr (files(docx_path \<mapsto> c), docx_path, dot_docx)))
              else if file_ext \<notin> set [dot_doc, dot_docx, dot_pdf]
                   then Inl (UnsupportedFormat file_ext)
              else Inr (files, original_path, file_ext))"

text \<open>Lines 643-674: the text is read and parsed, the arguments override the parsed
  fields, the expert's name is required and a missing number is generated from the
  clock.\<close>

definition build_data :: "agent \<Rightarrow> env \<Rightarrow> add_args \<Rightarrow> ustr \<Rightarrow> ustr \<Rightarrow> add_msg + add_data" where
  "build_data self e args file_path file_ext =
     (case get_file_content e file_path of
        None \<Rightarrow> Inl (CannotReadText file_ext)
      | Some text \<Rightarrow>
          if text = [] then Inl (CannotReadText file_ext)
          else
            let parsed_data = parse_expertise_document self text
                                (basename (a_file_path args)) (a_sector_code args);
                data = \<lparr>d_erddr_number = p_erddr_number parsed_data,
                        d_expertise_number =
                          (if truthy_str (a_expertise_number args)
                           then the (a_expertise_number args)
                           else p_expertise_number parsed_data),
                        d_expertise_date = p_expertise_date parsed_data,
                        d_expertise_year =
                          (if truthy_int (a_expertise_year args) then a_expertise_year args
                           else p_expertise_year parsed_data),
                        d_expertise_type = p_expertise_type parsed_data,
                        d_expert_name =
                          (if truthy_str (a_expert_name args) then the (a_expert_name args)
                           else unknown_expert),
                        d_sector =
                          (if truthy_str (a_sector_code args) then the (a_sector_code args)
                           else s_pocherk_ted),
                        d_source_file = p_source_file parsed_data\<rparr>
            in if (d_expert_name data = [] \<or> d_expert_name data = unknown_expert)
                  \<and> \<not> truthy_str (a_expert_name args)
               then Inl ExpertNameMissing
               else if d_sector data = [] then Inl SectorMissing
               else if d_expertise_number data = []
                    then Inr (data\<lparr>d_expertise_number := l_AUTO @ now_stamp e\<rparr>)
               else Inr data)"

text \<open>Lines 689-712: in index-only mode the file must lie under the existing archive and
  is referenced where it is; otherwise it is copied to the destination directory under
  its own base name, by \<^verbatim>\<open>shutil.copy2\<close>, which writes over a file that is there and
  raises when source and destination are the same file.  The result is the file system,
  the path to store and the destination directory if one was computed.\<close>

definition place_file ::
  "agent \<Rightarrow> env \<Rightarrow> (ustr \<rightharpoonup> content) \<Rightarrow> ustr \<Rightarrow> ustr \<Rightarrow> add_data
     \<Rightarrow> add_msg + ((ustr \<rightharpoonup> content) \<times> ustr \<times> ustr option)" where
  "place_file self e files original_path file_path data =
     (if index_only_mode self \<and> truthy_str (existing_archive_path self) then
        (if \<not> startswith file_path (the (existing_archive_path self)) then Inl NotInArchive
         else Inr (files, file_path, None))
      else
        (case get_file_destination_path self e (Some (d_sector data)) (Some (d_expert_name data))
                (d_expertise_year data) (Some (d_expertise_number data)) of
           None \<Rightarrow> Inl CopyError
         | Some dest_path \<Rightarrow>
             let dest_file_path = path_join dest_path (basename original_path)
             in (case files original_path of
                   None \<Rightarrow> Inl CopyError
                 | Some c \<Rightarrow>
                     if copy_fails e \<or> dest_file_path = original_path then Inl CopyError
                     else Inr (files(dest_file_path \<mapsto> c), dest_file_path, Some dest_path))))"

text \<open>Lines 714-741: the row is inserted and committed, the converted file is removed,
  and the message is built from the destination directory.  In index-only mode that
  variable was never assigned: building the message raises, the handler of the insert
  catches it, and the method reports a failure to save after the row was committed.\<close>

definition insert_case ::
  "env \<Rightarrow> case_row world \<Rightarrow> add_data \<Rightarrow> ustr \<Rightarrow> case_row world option" where
  "insert_case e w data stored_path =
     (if insert_fails e \<or> violates_unique (rows w) (Some (d_expertise_number data)) then None
      else Some (w\<lparr>rows := rows w @
                    [\<lparr>r_id = next_id w,
                      r_erddr_number = Some (d_erddr_number data),
                      r_expertise_number = Some (d_expertise_number data),
                      r_expertise_date = Some (d_expertise_date data),
                      r_expertise_year = d_expertise_year data,
                      r_expertise_type = Some (d_expertise_type data),
                      r_expert_name = Some (d_expert_name data),
                      r_sector = Some (d_sector data),
                      r_source_file = Some (d_source_file data),
                      r_file_path = Some stored_path\<rparr>],
                  next_id := next_id w + 1\<rparr>))"

definition add_document ::
  "agent \<Rightarrow> env \<Rightarrow> case_row world \<Rightarrow> add_args \<Rightarrow> (bool \<times> add_msg) \<times> case_row world" where
  "add_document self e w args =
     (let original_path = a_file_path args
      in case open_input e (fs w) original_path of
           Inl msg \<Rightarrow> ((False, msg), w)
         | Inr (files1, file_path, file_ext) \<Rightarrow>
             let w1 = w\<lparr>fs := files1\<rparr>
             in (case build_data self e args file_path file_ext of
                   Inl msg \<Rightarrow> ((False, msg), w1)
                 | Inr data \<Rightarrow>
                     if select_fails e then ((False, UniquenessCheckError), w1)
                     else if select_by_number (rows w1) (d_expertise_number data) \<noteq> None
                          then ((False, AlreadyExists (d_expertise_number data)), w1)
                     else
                       (case place_file self e files1 original_path file_path data of
                          Inl msg \<Rightarrow> ((False, msg), w1)
                        | Inr (files2, stored_path, dest) \<Rightarrow>
                            let w2 = w1\<lparr>fs := files2\<rparr>
                            in (case insert_case e w2 data stored_path of
                                  None \<Rightarrow> ((False, SaveError), w2)
                                | Some w3 \<Rightarrow>
                                    let w4 = (if file_path \<noteq> original_path
                                                 \<and> fs w3 file_path \<noteq> None
                                              then w3\<lparr>fs := (fs w3)(file_path := None)\<rparr>
                                              else w3)
                                    in (case dest of
                                          None \<Rightarrow> ((False, SaveError), w4)
                                        | Some dest_path \<Rightarrow>
                                            ((True, Added (d_sector data) (d_expert_name data)
                                                      (basename dest_path)
                                                      (d_expertise_type data)), w4))))))"

section \<open>Optimized variant: field parser and validator\<close>

text \<open>
  forensic_part2_optimized.py.  The methods of this variant whose names begin with an
  underscore are written without it, and \<open>_opt\<close> is appended where the minimal variant
  has a method of the same name.  The parsed fields are a dictionary of eleven keys;
  an absent field is \<^verbatim>\<open>None\<close>.
\<close>

definition l_ekspertyz_cap :: ustr where
  "l_ekspertyz_cap = [1045, 1082, 1089, 1087, 1077, 1088, 1090, 1080, 1079]"

definition l_vysnovok_cap :: ustr where
  "l_vysnovok_cap = [1042, 1080, 1089, 1085, 1086, 1074, 1086, 1082]"

definition l_ekspert :: ustr where
  "l_ekspert = [1077, 1082, 1089, 1087, 1077, 1088, 1090]"

definition l_sprav :: ustr where
  "l_sprav = [1089, 1087, 1088, 1072, 1074]"

definition l_provadzhenn :: ustr where
  "l_provadzhenn = [1087, 1088, 1086, 1074, 1072, 1076, 1078, 1077, 1085, 1085]"

definition l_rok :: ustr where
  "l_rok = [1088, 1086, 1082]"

definition l_ekspert_cap :: ustr where
  "l_ekspert_cap = [1045, 1082, 1089, 1087, 1077, 1088, 1090]"

definition l_vykonav_cap :: ustr where
  "l_vykonav_cap = [1042, 1080, 1082, 1086, 1085, 1072, 1074]"

record data_opt =
  o_erddr_number :: "ustr option"
  o_expertise_number :: "ustr option"
  o_expertise_date :: "ustr option"
  o_expertise_year :: "int option"
  o_expertise_type :: ustr
  o_expert_name :: ustr
  o_sector :: ustr
  o_source_file :: ustr
  o_file_path :: ustr
  o_file_size :: int
  o_file_hash :: "ustr option"

text \<open>What the optimized add reads from its surroundings.  \<open>get_file_size p\<close> is
  \<^verbatim>\<open>int(get_file_size_mb(p) * 1024 * 1024)\<close>; the extractors return the flag of success
  and the text; \<open>mkdir_fails\<close> tells where \<^verbatim>\<open>ensure_directory_exists\<close> returns false.
  For the cache on disc: \<open>cache_initialized\<close> is the attribute \<^verbatim>\<open>self._cache_initialized\<close>
  at the time of the call (false after the constructor, true once a search or a scan has
  run); \<open>read_content_cache\<close> is what lines 200-212 of \<^verbatim>\<open>_load_content_cache\<close> find
  for a key (a valid entry that loads, nothing, or an entry whose loading raises);
  \<open>pickle_dump\<close> and \<open>gzip_pickle_dump\<close> are the bytes \<^verbatim>\<open>pickle.dump\<close> writes, plain and
  through \<^verbatim>\<open>gzip\<close>; \<open>write_fails\<close> and \<open>remove_fails\<close> tell where opening a file for
  writing and \<^verbatim>\<open>os.remove\<close> raise.\<close>

datatype cache_read = CacheHit ustr | CacheMiss | CacheDamaged

record env_opt =
  get_file_size :: "ustr \<Rightarrow> int"
  get_file_hash :: "ustr \<Rightarrow> ustr option"
  extract_docx_content_opt :: "ustr \<Rightarrow> bool \<times> ustr"
  extract_pdf_content_opt :: "ustr \<Rightarrow> bool \<times> ustr"
  current_year :: int
  dup_check_fails :: bool
  mkdir_fails :: "ustr \<Rightarrow> bool"
  copy2_fails :: "ustr \<Rightarrow> ustr \<Rightarrow> bool"
  save_fails :: bool
  PDF_AVAILABLE :: bool
  cache_initialized :: bool
  read_content_cache :: "ustr \<Rightarrow> cache_read"
  pickle_dump :: "ustr \<Rightarrow> content"
  gzip_pickle_dump :: "ustr \<Rightarrow> content"
  write_fails :: "ustr \<Rightarrow> bool"
  remove_fails :: "ustr \<Rightarrow> bool"

text \<open>\<^verbatim>\<open>_extract_document_content\<close> (lines 269-280) and
  \<^verbatim>\<open>_get_default_expertise_data\<close> (lines 282-295).\<close>

definition extract_document_content :: "env_opt \<Rightarrow> ustr \<Rightarrow> ustr" where
  "extract_document_content e file_path =
     (let file_ext = lower (snd (splitext file_path))
      in if file_ext = dot_docx then
           (case extract_docx_content_opt e file_path of (success, content) \<Rightarrow>
              if success then content else [])
         else if file_ext = dot_pdf then
           (case extract_pdf_content_opt e file_path of (success, content) \<Rightarrow>
              if success then content else [])
         else [])"

definition get_default_expertise_data :: "env_opt \<Rightarrow> ustr \<Rightarrow> data_opt" where
  "get_default_expertise_data e file_path =
     \<lparr>o_erddr_number = None, o_expertise_number = None, o_expertise_date = None,
      o_expertise_year = None, o_expertise_type = t_nevyznacheno,
      o_expert_name = unknown_expert, o_sector = s_pocherk_ted,
      o_source_file = basename file_path, o_file_path = file_path,
      o_file_size = get_file_size e file_path, o_file_hash = None\<rparr>"

text \<open>\<^verbatim>\<open>_parse_erddr_patterns\<close> (lines 297-316); \<^verbatim>\<open>(\d{11,12})\<close> is group 1.\<close>

definition digits_11_12 :: rx where
  "digits_11_12 = Grp 1 (Rep 11 1 (Set [Digit]))"

definition erddr_patterns_opt :: "rx list" where
  "erddr_patterns_opt =
     [seqs [word l_IERDR, ws0, Set [Ch 8470, Ch 35], ws0, digits_11_12],
      seqs [word l_IERDR, ws0, digits_11_12],
      seqs [Lit 8470, ws0, digits_11_12],
      seqs [word l_sprav, Set [Ch 1072, Ch 1110], ws0, Lit 8470, ws0, digits_11_12],
      seqs [word l_provadzhenn, Set [Ch 1103, Ch 1110], ws0, Lit 8470, ws0, digits_11_12],
      seqs [digits_11_12, ws0, word l_vid]]"

fun parse_erddr_loop :: "rx list \<Rightarrow> ustr \<Rightarrow> ustr option" where
  "parse_erddr_loop [] content = None"
| "parse_erddr_loop (pattern # patterns) content =
     (case re_search True pattern content of
        None \<Rightarrow> parse_erddr_loop patterns content
      | Some match \<Rightarrow>
          (let erddr = group 1 match
           in if 11 \<le> length erddr \<and> length erddr \<le> 12 then Some erddr
              else parse_erddr_loop patterns content))"

definition parse_erddr_patterns :: "ustr \<Rightarrow> ustr option" where
  "parse_erddr_patterns content = parse_erddr_loop erddr_patterns_opt content"

text \<open>\<^verbatim>\<open>_parse_expertise_number_patterns\<close> (lines 318-333);
  \<^verbatim>\<open>(\d+(?:/\d+)*)\<close> is group 1.\<close>

definition slashed_number :: rx where
  "slashed_number = Grp 1 (Seq digits1 (Star (Seq (Lit 47) digits1)))"

definition expertise_patterns_opt :: "rx list" where
  "expertise_patterns_opt =
     [seqs [word l_ekspertyz_cap, Set [Ch 1072, Ch 1110], ws0, Lit 8470, ws0, slashed_number],
      seqs [word l_vysnovok_cap, ws0, word l_ekspert, Set [Ch 1072, Ch 1080], ws0, Lit 8470,
            ws0, slashed_number],
      seqs [Lit 8470, ws0, slashed_number, ws0, word l_vid, ws0, digits1, Lit 46, digits1,
            Lit 46, digits1],
      seqs [word w_ekspertyz, Set [Ch 1072, Ch 1110], ws0, slashed_number]]"

fun parse_number_loop :: "rx list \<Rightarrow> ustr \<Rightarrow> ustr option" where
  "parse_number_loop [] content = None"
| "parse_number_loop (pattern # patterns) content =
     (case re_search True pattern content of
        None \<Rightarrow> parse_number_loop patterns content
      | Some match \<Rightarrow> Some (group 1 match))"

definition parse_expertise_number_patterns :: "ustr \<Rightarrow> ustr option" where
  "parse_expertise_number_patterns content = parse_number_loop expertise_patterns_opt content"

text \<open>\<^verbatim>\<open>_parse_date_patterns\<close> (lines 335-378).  Each pattern comes with the number of
  its groups: the third has one group only, so a match of it fills nothing and the loop
  goes on.  A month is looked up as it was written in the text; a month name that is not
  in the table as written takes the branch of the numeric dates.\<close>

definition months_ua :: "(ustr \<times> ustr) list" where
  "months_ua =
     [
      ([1089, 1110, 1095, 1085, 1103], [48, 49]),
      ([1083, 1102, 1090, 1086, 1075, 1086], [48, 50]),
      ([1073, 1077, 1088, 1077, 1079, 1085, 1103], [48, 51]),
      ([1082, 1074, 1110, 1090, 1085, 1103], [48, 52]),
      ([1090, 1088, 1072, 1074, 1085, 1103], [48, 53]),
      ([1095, 1077, 1088, 1074, 1085, 1103], [48, 54]),
      ([1083, 1080, 1087, 1085, 1103], [48, 55]),
      ([1089, 1077, 1088, 1087, 1085, 1103], [48, 56]),
      ([1074, 1077, 1088, 1077, 1089, 1085, 1103], [48, 57]),
      ([1078, 1086, 1074, 1090, 1085, 1103], [49, 48]),
      ([1083, 1080, 1089, 1090, 1086, 1087, 1072, 1076, 1072], [49, 49]),
      ([1075, 1088, 1091, 1076, 1085, 1103], [49, 50])]"

definition one_or_two_digits :: rx where
  "one_or_two_digits = Rep 1 1 (Set [Digit])"

definition four_digits :: rx where
  "four_digits = Rep 4 0 (Set [Digit])"

definition date_patterns_opt :: "(rx \<times> nat) list" where
  "date_patterns_opt =
     [(seqs [word l_vid, ws0, Grp 1 one_or_two_digits, Lit 46, Grp 2 one_or_two_digits, Lit 46,
             Grp 3 four_digits], 3),
      (seqs [Grp 1 one_or_two_digits, Lit 46, Grp 2 one_or_two_digits, Lit 46,
             Grp 3 four_digits, ws0, Lit 1088, Opt (Lit 46)], 3),
      (seqs [Grp 1 four_digits, ws0, word l_rok, Set [Ch 1080, Ch 1091]], 1),
      (seqs [Grp 1 one_or_two_digits, Plus (Set [Space]),
             Grp 2 (alts (map (\<lambda>(name, number). word name) months_ua)),
             Plus (Set [Space]), Grp 3 four_digits], 3)]"

text \<open>\<^verbatim>\<open>s.zfill(2)\<close>\<close>

definition zfill2 :: "ustr \<Rightarrow> ustr" where
  "zfill2 s = (case s of [] \<Rightarrow> [48, 48]
               | [c] \<Rightarrow> if c = 43 \<or> c = 45 then [c, 48] else [48, c]
               | _ \<Rightarrow> s)"

fun parse_date_loop :: "(rx \<times> nat) list \<Rightarrow> ustr \<Rightarrow> ustr option \<times> int option" where
  "parse_date_loop [] content = (None, None)"
| "parse_date_loop ((pattern, groups) # patterns) content =
     (case re_search True pattern content of
        None \<Rightarrow> parse_date_loop patterns content
      | Some match \<Rightarrow>
          if groups = 3 then
            (let day = group 1 match; month = group 2 match; year = group 3 match
             in case map_of months_ua month of
                  Some number \<Rightarrow>
                    (Some (zfill2 day @ [46] @ number @ [46] @ year), Some (int_of_digits year))
                | None \<Rightarrow>
                    (Some (zfill2 day @ [46] @ zfill2 month @ [46] @ year),
                     Some (int_of_digits year)))
          else parse_date_loop patterns content)"

definition parse_date_patterns :: "ustr \<Rightarrow> ustr option \<times> int option" where
  "parse_date_patterns content = parse_date_loop date_patterns_opt content"

text \<open>\<^verbatim>\<open>_parse_expert_patterns\<close> (lines 380-396): a capitalised surname and two
  initials, group 1, after or before a label; runs of white space become one underscore.\<close>

definition capital :: "cls list" where
  "capital = [Rng 1040 1071, Ch 1030, Ch 1031, Ch 1028, Ch 1168]"

definition small :: "cls list" where
  "small = [Rng 1072 1103, Ch 1110, Ch 1111, Ch 1108, Ch 1169]"

definition surname_initials :: rx where
  "surname_initials =
     Grp 1 (seqs [Set capital, Plus (Set small), Plus (Set [Space]), Set capital, Lit 46,
                  Set capital, Lit 46])"

definition expert_patterns :: "rx list" where
  "expert_patterns =
     [seqs [word l_ekspert_cap, Plus (Set [Ch 58, Space]), surname_initials],
      seqs [surname_initials, ws0, Alt (word l_ekspert) (word w_pidpys)],
      seqs [word l_vykonav_cap, Plus (Set [Ch 58, Space]), surname_initials]]"

fun squeeze :: "bool \<Rightarrow> ustr \<Rightarrow> ustr" where
  "squeeze in_run [] = []"
| "squeeze in_run (c # cs) =
     (if is_space c then (if in_run then squeeze True cs else 95 # squeeze True cs)
      else c # squeeze False cs)"

definition squeeze_spaces :: "ustr \<Rightarrow> ustr" where
  "squeeze_spaces s = squeeze False s"

fun parse_expert_loop :: "rx list \<Rightarrow> ustr \<Rightarrow> ustr" where
  "parse_expert_loop [] content = unknown_expert"
| "parse_expert_loop (pattern # patterns) content =
     (case re_search False pattern content of
        None \<Rightarrow> parse_expert_loop patterns content
      | Some match \<Rightarrow> squeeze_spaces (strip (group 1 match)))"

definition parse_expert_patterns :: "ustr \<Rightarrow> ustr" where
  "parse_expert_patterns content = parse_expert_loop expert_patterns content"

text \<open>\<^verbatim>\<open>_determine_expertise_type\<close> (lines 398-424) reads the keyword table of the
  agent.  A keyword counts three times where it stands before one of three context
  words; the keyword is put into that pattern as it is, and the configured keywords are
  plain words.\<close>

definition context_rx :: "ustr \<Rightarrow> rx" where
  "context_rx keyword =
     seqs [word (lower keyword), ws0, alts [word w_ekspertyz, word w_doslidzhenn, word w_vysnovok]]"

fun keyword_weight :: "ustr \<Rightarrow> ustr list \<Rightarrow> int" where
  "keyword_weight content_lower [] = 0"
| "keyword_weight content_lower (keyword # keywords) =
     (let count = int (count_sub content_lower (lower keyword))
      in if re_search False (context_rx keyword) content_lower \<noteq> None then count * 3
         else count) + keyword_weight content_lower keywords"

definition expertise_weights :: "agent \<Rightarrow> ustr \<Rightarrow> (ustr \<times> int) list" where
  "expertise_weights self content_lower =
     filter (\<lambda>(t, weight). weight > 0)
       (map (\<lambda>(t, keywords). (t, keyword_weight content_lower keywords))
          (expertise_keywords self))"

definition determine_expertise_type_opt :: "agent \<Rightarrow> ustr \<Rightarrow> ustr" where
  "determine_expertise_type_opt self content =
     best_type (expertise_weights self (lower content))"

text \<open>\<^verbatim>\<open>_determine_sector\<close> (lines 426-439).\<close>

definition type_to_sector :: "(ustr \<times> ustr) list" where
  "type_to_sector =
     [(t_pocherkoznavcha, s_pocherk_ted), (t_zbroi, s_balisty),
      (t_trasolohichna, s_trasolohiia), (t_daktyloskopichna, s_daktyloskopiia),
      (t_bal_oblik, s_bal_oblik)]"

definition determine_sector :: "ustr \<Rightarrow> ustr \<Rightarrow> ustr" where
  "determine_sector content expertise_type =
     (case map_of type_to_sector expertise_type of Some sector \<Rightarrow> sector
      | None \<Rightarrow> s_pocherk_ted)"

text \<open>\<^verbatim>\<open>_validate_and_clean_expertise_data\<close> (lines 441-475).  Each field is looked at
  only if it is truthy (\<^verbatim>\<open>if data.get(...)\<close>); the four blocks of the method are
  four steps, applied in its order.\<close>

definition number_shape :: rx where
  "number_shape = seqs [digits1, Star (Grp 1 (Seq (Lit 47) digits1)), Eol]"

definition clean_erddr :: "data_opt \<Rightarrow> data_opt" where
  "clean_erddr data =
     (if truthy_str (o_erddr_number data) then
        (let erddr = filter is_digit (the (o_erddr_number data))
         in if \<not> (11 \<le> length erddr \<and> length erddr \<le> 12)
            then data\<lparr>o_erddr_number := None\<rparr>
            else data\<lparr>o_erddr_number := Some erddr\<rparr>)
      else data)"

definition clean_number :: "data_opt \<Rightarrow> data_opt" where
  "clean_number data =
     (if truthy_str (o_expertise_number data) then
        (let number = strip (the (o_expertise_number data))
         in if re_match False number_shape number = None
            then data\<lparr>o_expertise_number := None\<rparr>
            else data)
      else data)"

definition clean_year :: "env_opt \<Rightarrow> data_opt \<Rightarrow> data_opt" where
  "clean_year e data =
     (if truthy_int (o_expertise_year data) then
        (let year = the (o_expertise_year data)
         in if \<not> (2000 \<le> year \<and> year \<le> current_year e + 1)
            then data\<lparr>o_expertise_year := None, o_expertise_date := None\<rparr>
            else data)
      else data)"

definition clean_expert :: "data_opt \<Rightarrow> data_opt" where
  "clean_expert data =
     (if o_expert_name data \<noteq> [] then
        (let name = strip (o_expert_name data)
         in if length name < 3 then data\<lparr>o_expert_name := unknown_expert\<rparr>
            else data)
      else data)"

definition validate_and_clean_expertise_data :: "env_opt \<Rightarrow> data_opt \<Rightarrow> data_opt" where
  "validate_and_clean_expertise_data e data =
     clean_expert (clean_year e (clean_number (clean_erddr data)))"

text \<open>\<^verbatim>\<open>parse_expertise_document\<close> of the optimized variant (lines 231-267), called
  without a ready text.\<close>

definition parse_expertise_document_opt :: "agent \<Rightarrow> env_opt \<Rightarrow> ustr \<Rightarrow> data_opt" where
  "parse_expertise_document_opt self e file_path =
     (let content = extract_document_content e file_path
      in if content = [] then get_default_expertise_data e file_path
         else
           let (date, year) = parse_date_patterns content;
               expertise_type = determine_expertise_type_opt self content;
               result = (get_default_expertise_data e file_path)
                          \<lparr>o_erddr_number := parse_erddr_patterns content,
                           o_expertise_number := parse_expertise_number_patterns content,
                           o_expertise_date := date,
                           o_expertise_year := year,
                           o_expert_name := parse_expert_patterns content,
                           o_expertise_type := expertise_type,
                           o_sector := determine_sector content expertise_type\<rparr>
           in validate_and_clean_expertise_data e result)"

section \<open>Optimized variant: duplicate check, placement and add\<close>

text \<open>\<^verbatim>\<open>_check_duplicate_document\<close> (lines 748-781): the first row with the hash, if
  there is a hash; otherwise, and after a miss, the first row whose \<^verbatim>\<open>source_file\<close> is
  the base name of the path.  The result is the row's id, path and source file; an
  exception of the store gives \<^verbatim>\<open>None\<close>.\<close>

definition first_row ::
  "(case_row_opt \<Rightarrow> bool) \<Rightarrow> case_row_opt list \<Rightarrow> (int \<times> ustr option \<times> ustr option) option" where
  "first_row cond rs =
     (case filter cond rs of [] \<Rightarrow> None
      | r # _ \<Rightarrow> Some (r_id r, r_file_path r, r_source_file r))"

definition check_duplicate_document ::
  "env_opt \<Rightarrow> case_row_opt list \<Rightarrow> ustr option \<Rightarrow> ustr
     \<Rightarrow> (int \<times> ustr option \<times> ustr option) option" where
  "check_duplicate_document e rs file_hash file_path =
     (if dup_check_fails e then None
      else
        (case (if truthy_str file_hash then first_row (\<lambda>r. r_file_hash r = file_hash) rs
               else None) of
           Some result \<Rightarrow> Some result
         | None \<Rightarrow> first_row (\<lambda>r. r_source_file r = Some (basename file_path)) rs))"

text \<open>The loop of lines 823-828: while the target path exists, the counter is put
  between the name and the extension and incremented.\<close>

partial_function (option) free_target ::
  "(ustr \<rightharpoonup> content) \<Rightarrow> ustr \<Rightarrow> ustr \<Rightarrow> ustr \<Rightarrow> ustr \<Rightarrow> nat \<Rightarrow> ustr option" where
  "free_target files target_dir name ext target_path counter =
     (if files target_path \<noteq> None
      then free_target files target_dir name ext
             (path_join target_dir (name @ [95] @ digits_of_nat counter @ ext)) (Suc counter)
      else Some target_path)"

text \<open>\<^verbatim>\<open>_copy_file_to_archive\<close> (lines 783-843): the directory of the expert, the
  directory of the year below it if there is a year and the directory can be made, the
  name with the expertise number before it, the loop, the copy.  The result is \<open>None\<close>
  if the loop does not end; otherwise the archive path, or the failure, and the file
  system.\<close>

datatype copy_result = CopyOk ustr | ExpertDirFailed ustr | CopyFailed

definition expert_directory :: "agent \<Rightarrow> data_opt \<Rightarrow> ustr" where
  "expert_directory self parsed_data =
     (let sector_path = path_join (archive_folder self) (o_sector parsed_data)
      in path_join sector_path (o_expert_name parsed_data))"

definition target_directory :: "agent \<Rightarrow> env_opt \<Rightarrow> data_opt \<Rightarrow> ustr" where
  "target_directory self e parsed_data =
     (let expert_path = expert_directory self parsed_data
      in if truthy_int (o_expertise_year parsed_data) then
           (let year_path = path_join expert_path
                              (str_of_int (the (o_expertise_year parsed_data)))
            in if mkdir_fails e year_path then expert_path else year_path)
         else expert_path)"

definition target_name :: "ustr \<Rightarrow> data_opt \<Rightarrow> ustr \<times> ustr" where
  "target_name source_path parsed_data =
     (let original_filename = basename source_path;
          (name, ext) = splitext original_filename
      in if truthy_str (o_expertise_number parsed_data)
         then (the (o_expertise_number parsed_data) @ [95] @ name, ext)
         else (name, ext))"

definition copy_file_to_archive ::
  "agent \<Rightarrow> env_opt \<Rightarrow> (ustr \<rightharpoonup> content) \<Rightarrow> ustr \<Rightarrow> data_opt
     \<Rightarrow> (copy_result \<times> (ustr \<rightharpoonup> content)) option" where
  "copy_file_to_archive self e files source_path parsed_data =
     (if mkdir_fails e (expert_directory self parsed_data)
      then Some (ExpertDirFailed (expert_directory self parsed_data), files)
      else
        let target_dir = target_directory self e parsed_data;
            (name, ext) = target_name source_path parsed_data
        in (case free_target files target_dir name ext (path_join target_dir (name @ ext)) 1 of
              None \<Rightarrow> None
            | Some target_path \<Rightarrow>
                (case files source_path of
                   None \<Rightarrow> Some (CopyFailed, files)
                 | Some c \<Rightarrow>
                     if copy2_fails e source_path target_path then Some (CopyFailed, files)
                     else Some (CopyOk target_path, files(target_path \<mapsto> c)))))"

text \<open>\<^verbatim>\<open>_save_document_to_database\<close> (lines 845-891): the new row's id, or \<^verbatim>\<open>None\<close>
  when the insert raises, be it the unique constraint or anything else.\<close>

definition save_document_to_database ::
  "env_opt \<Rightarrow> case_row_opt world \<Rightarrow> data_opt \<Rightarrow> (int \<times> case_row_opt world) option" where
  "save_document_to_database e w data =
     (if save_fails e \<or> violates_unique (rows w) (o_expertise_number data) then None
      else Some (next_id w,
                 w\<lparr>rows := rows w @
                      [\<lparr>r_id = next_id w,
                        r_erddr_number = o_erddr_number data,
                        r_expertise_number = o_expertise_number data,
                        r_expertise_date = o_expertise_date data,
                        r_expertise_year = o_expertise_year data,
                        r_expertise_type = Some (o_expertise_type data),
                        r_expert_name = Some (o_expert_name data),
                        r_sector = Some (o_sector data),
                        r_source_file = Some (o_source_file data),
                        r_file_path = Some (o_file_path data),
                        r_file_size = o_file_size data,
                        r_file_hash = o_file_hash data\<rparr>],
                    next_id := next_id w + 1\<rparr>))"

text \<open>The keyword arguments that override parsed fields (\<^verbatim>\<open>**override_data\<close>), applied
  by \<^verbatim>\<open>parsed_data.update\<close>.\<close>

datatype override =
    Erddr_number "ustr option"
  | Expertise_number "ustr option"
  | Expertise_date "ustr option"
  | Expertise_year "int option"
  | Expertise_type ustr
  | Expert_name ustr
  | Sector ustr
  | Source_file ustr

fun update_data :: "data_opt \<Rightarrow> override \<Rightarrow> data_opt" where
  "update_data d (Erddr_number v) = d\<lparr>o_erddr_number := v\<rparr>"
| "update_data d (Expertise_number v) = d\<lparr>o_expertise_number := v\<rparr>"
| "update_data d (Expertise_date v) = d\<lparr>o_expertise_date := v\<rparr>"
| "update_data d (Expertise_year v) = d\<lparr>o_expertise_year := v\<rparr>"
| "update_data d (Expertise_type v) = d\<lparr>o_expertise_type := v\<rparr>"
| "update_data d (Expert_name v) = d\<lparr>o_expert_name := v\<rparr>"
| "update_data d (Sector v) = d\<lparr>o_sector := v\<rparr>"
| "update_data d (Source_file v) = d\<lparr>o_source_file := v\<rparr>"

text \<open>
  The cache on disc (forensic_archive_optimized.py, line 54, and forensic_part2_optimized.py,
  lines 168-225 and 893-918).  The extractors and the add write there, besides the copy:
  \<^verbatim>\<open>_save_content_cache\<close> writes the text under
  \<^verbatim>\<open>cache/content_<key>.pkl\<close>, compressed with the suffix \<^verbatim>\<open>.gz\<close> if it is longer than
  10000 characters; \<^verbatim>\<open>_load_content_cache\<close> removes both files when loading raises;
  \<^verbatim>\<open>_invalidate_search_cache\<close> removes every file \<^verbatim>\<open>cache/search_*.pkl\<close>.  None of
  them does anything before the cache is initialized, and every exception is swallowed.
\<close>

definition CACHE_DIR :: ustr where
  "CACHE_DIR = [99, 97, 99, 104, 101]"

definition l_content_und :: ustr where
  "l_content_und = [99, 111, 110, 116, 101, 110, 116, 95]"

definition l_docx_content_und :: ustr where
  "l_docx_content_und = [100, 111, 99, 120, 95, 99, 111, 110, 116, 101, 110, 116, 95]"

definition l_pdf_content_und :: ustr where
  "l_pdf_content_und = [112, 100, 102, 95, 99, 111, 110, 116, 101, 110, 116, 95]"

definition l_search_und :: ustr where
  "l_search_und = [115, 101, 97, 114, 99, 104, 95]"

definition dot_pkl :: ustr where
  "dot_pkl = [46, 112, 107, 108]"

definition dot_gz :: ustr where
  "dot_gz = [46, 103, 122]"

definition content_cache_file :: "ustr \<Rightarrow> ustr" where
  "content_cache_file cache_key = path_join CACHE_DIR (l_content_und @ cache_key @ dot_pkl)"

definition save_content_cache ::
  "env_opt \<Rightarrow> (ustr \<rightharpoonup> content) \<Rightarrow> ustr \<Rightarrow> ustr \<Rightarrow> (ustr \<rightharpoonup> content)" where
  "save_content_cache e files cache_key content =
     (if \<not> cache_initialized e then files
      else
        let cache_file = content_cache_file cache_key
        in if length content > 10000 then
             (if write_fails e (cache_file @ dot_gz) then files
              else files(cache_file @ dot_gz \<mapsto> gzip_pickle_dump e content))
           else
             (if write_fails e cache_file then files
              else files(cache_file \<mapsto> pickle_dump e content)))"

definition remove_existing ::
  "env_opt \<Rightarrow> (ustr \<rightharpoonup> content) \<Rightarrow> ustr \<Rightarrow> (ustr \<rightharpoonup> content)" where
  "remove_existing e files f =
     (if files f \<noteq> None \<and> \<not> remove_fails e f then files(f := None) else files)"

definition load_content_cache ::
  "env_opt \<Rightarrow> (ustr \<rightharpoonup> content) \<Rightarrow> ustr \<Rightarrow> ustr option \<times> (ustr \<rightharpoonup> content)" where
  "load_content_cache e files cache_key =
     (if \<not> cache_initialized e then (None, files)
      else
        let cache_file = content_cache_file cache_key;
            cache_file_gz = cache_file @ dot_gz
        in (case read_content_cache e cache_key of
              CacheHit cached \<Rightarrow> (Some cached, files)
            | CacheMiss \<Rightarrow> (None, files)
            | CacheDamaged \<Rightarrow> (None, foldl (remove_existing e) files [cache_file, cache_file_gz])))"

text \<open>What \<^verbatim>\<open>extract_docx_content\<close> (lines 19-66) and \<^verbatim>\<open>extract_pdf_content\<close> (lines
  68-115) do to the files, given what they return: nothing for a file above 100 MB and,
  for a PDF, without the PDF libraries; then, if the file has a hash, the cache is asked,
  and unless it answers, a text that was read and is not empty is saved there.\<close>

definition MAX_FILE_SIZE_MB :: int where
  "MAX_FILE_SIZE_MB = 100"

definition cache_after_extract ::
  "env_opt \<Rightarrow> (ustr \<rightharpoonup> content) \<Rightarrow> ustr \<Rightarrow> ustr \<Rightarrow> bool \<times> ustr
     \<Rightarrow> (ustr \<rightharpoonup> content)" where
  "cache_after_extract e files key_prefix file_path returned =
     (if get_file_size e file_path > MAX_FILE_SIZE_MB * 1024 * 1024 then files
      else
        let file_hash = get_file_hash e file_path
        in if truthy_str file_hash then
             (let cache_key = key_prefix @ the file_hash;
                  (cached_content, files1) = load_content_cache e files cache_key
              in if cached_content \<noteq> None then files1
                 else (case returned of (success, content) \<Rightarrow>
                         if success \<and> content \<noteq> []
                         then save_content_cache e files1 cache_key content
                         else files1))
           else files)"

definition files_after_extract ::
  "env_opt \<Rightarrow> (ustr \<rightharpoonup> content) \<Rightarrow> ustr \<Rightarrow> (ustr \<rightharpoonup> content)" where
  "files_after_extract e files file_path =
     (let file_ext = lower (snd (splitext file_path))
      in if file_ext = dot_docx then
           cache_after_extract e files l_docx_content_und file_path
             (extract_docx_content_opt e file_path)
         else if file_ext = dot_pdf then
           (if \<not> PDF_AVAILABLE e then files
            else cache_after_extract e files l_pdf_content_und file_path
                   (extract_pdf_content_opt e file_path))
         else files)"

text \<open>\<^verbatim>\<open>_invalidate_search_cache\<close> (lines 893-918): the files of the cache directory
  whose names begin with \<^verbatim>\<open>search_\<close> and end with \<^verbatim>\<open>.pkl\<close> are removed.\<close>

definition search_cache_file :: "ustr \<Rightarrow> bool" where
  "search_cache_file p =
     (let filename = basename p
      in p = path_join CACHE_DIR filename
         \<and> startswith filename l_search_und \<and> endswith filename dot_pkl)"

definition invalidate_search_cache ::
  "env_opt \<Rightarrow> (ustr \<rightharpoonup> content) \<Rightarrow> (ustr \<rightharpoonup> content)" where
  "invalidate_search_cache e files =
     (if \<not> cache_initialized e then files
      else (\<lambda>p. if search_cache_file p \<and> \<not> remove_fails e p then None else files p))"

text \<open>\<^verbatim>\<open>_add_document_impl\<close> (lines 670-746) and its results: a failure with its
  message, the duplicate with the id of the existing row, or the success with the id of
  the new row, the archive path and the fields.  The file system changes where the
  extraction writes the content cache, where the copy is put, and, after a save, where
  the search cache is removed.\<close>

datatype add_error =
    FileNotFoundOpt ustr
  | UnsupportedFormatOpt
  | ExpertDirError ustr
  | CopyErrorOpt
  | SaveErrorOpt

datatype add_result = Failed add_error | Duplicate int | Saved int ustr data_opt

definition supported_extension :: "ustr \<Rightarrow> bool" where
  "supported_extension file_path =
     list_ex (\<lambda>ext. endswith (lower file_path) ext) [dot_doc, dot_docx, dot_pdf]"

definition add_document_impl ::
  "agent \<Rightarrow> env_opt \<Rightarrow> case_row_opt world \<Rightarrow> ustr \<Rightarrow> bool \<Rightarrow> override list
     \<Rightarrow> (add_result \<times> case_row_opt world) option" where
  "add_document_impl self e w file_path force_reparse override_data =
     (if fs w file_path = None then Some (Failed (FileNotFoundOpt file_path), w)
      else if \<not> supported_extension file_path then Some (Failed UnsupportedFormatOpt, w)
      else
        let file_hash = get_file_hash e file_path;
            existing_doc = (if \<not> force_reparse \<and> truthy_str file_hash
                            then check_duplicate_document e (rows w) file_hash file_path
                            else None)
        in (case existing_doc of
              Some (existing_id, existing_path, existing_source) \<Rightarrow>
                Some (Duplicate existing_id, w)
            | None \<Rightarrow>
                let parsed_data = (foldl update_data
                                     (parse_expertise_document_opt self e file_path)
                                     override_data)\<lparr>o_file_hash := file_hash\<rparr>;
                    w1 = w\<lparr>fs := files_after_extract e (fs w) file_path\<rparr>
                in if index_only_mode self then
                     (let data = parsed_data\<lparr>o_file_path := file_path\<rparr>
                      in case save_document_to_database e w1 data of
                           None \<Rightarrow> Some (Failed SaveErrorOpt, w1)
                         | Some (doc_id, w2) \<Rightarrow>
                             if doc_id \<noteq> 0
                             then Some (Saved doc_id file_path data,
                                        w2\<lparr>fs := invalidate_search_cache e (fs w2)\<rparr>)
                             else Some (Failed SaveErrorOpt, w2))
                   else
                     (case copy_file_to_archive self e (fs w1) file_path parsed_data of
                        None \<Rightarrow> None
                      | Some (ExpertDirFailed p, files) \<Rightarrow> Some (Failed (ExpertDirError p), w1)
                      | Some (CopyFailed, files) \<Rightarrow> Some (Failed CopyErrorOpt, w1)
                      | Some (CopyOk archive_path, files) \<Rightarrow>
                          let data = parsed_data\<lparr>o_file_path := archive_path\<rparr>;
                              w2 = w1\<lparr>fs := files\<rparr>
                          in (case save_document_to_database e w2 data of
                                None \<Rightarrow> Some (Failed SaveErrorOpt, w2)
                              | Some (doc_id, w3) \<Rightarrow>
                                  if doc_id \<noteq> 0
                                  then Some (Saved doc_id archive_path data,
                                             w3\<lparr>fs := invalidate_search_cache e (fs w3)\<rparr>)
                                  else Some (Failed SaveErrorOpt, w3)))))"

section \<open>Statements of the specification and scenario inputs\<close>

text \<open>
  The sector resolver as the specification words it: the path is decomposed into segments
  and the result is the code of the first sector of the table one of whose keywords is a
  substring of some lower-cased segment, the handwriting sector's code if there is none.
\<close>

definition spec_sector_from_path :: "ustr \<Rightarrow> ustr" where
  "spec_sector_from_path file_path =
     (let segments = split_on 47 (replace_cp 92 47 file_path)
      in case find (\<lambda>(sector, kws).
                     \<exists>segment \<in> set segments. \<exists>keyword \<in> set kws.
                       contains (lower segment) keyword) sector_keywords of
           Some (sector, kws) \<Rightarrow> sector
         | None \<Rightarrow> s_pocherk_ted)"

text \<open>The path of the resolver scenario: \<^verbatim>\<open>Balisty_Petrenko/2023/55-23SE\<close> in Cyrillic
  letters.\<close>

definition scenario_path :: ustr where
  "scenario_path = [1041, 1072, 1083, 1110, 1089, 1090, 1080, 95, 1055, 1077, 1090, 1088, 1077,
     1085, 1082, 1086, 47, 50, 48, 50, 51, 47, 53, 53, 45, 50, 51, 1057, 1045]"

text \<open>The score of a category after the scoring loop of the minimal variant's
  classifier.\<close>

definition category_score :: "ustr \<Rightarrow> ustr \<Rightarrow> int" where
  "category_score text_lower category =
     (case map_of expertise_keywords_weighted category of
        Some (kws, weight) \<Rightarrow> keyword_score weight text_lower kws
      | None \<Rightarrow> 0)"

text \<open>A text with one trace keyword and one weapons keyword (\<^verbatim>\<open>slid kulia\<close>).\<close>

definition bonus_text :: ustr where
  "bonus_text = [1089, 1083, 1110, 1076, 32, 1082, 1091, 1083, 1103]"

text \<open>The text of the parser scenario: \<^verbatim>\<open>Vysnovok No105/24E-17 vid 12.03.2024 ... IERDR
  No12023450000000123\<close> in Cyrillic letters with the number sign U+2116; the number and the
  date the specification expects.\<close>

definition scenario_text :: ustr where
  "scenario_text = [1042, 1080, 1089, 1085, 1086, 1074, 1086, 1082, 32, 8470, 49, 48, 53, 47,
     50, 52, 1045, 45, 49, 55, 32, 1074, 1110, 1076, 32, 49, 50, 46, 48, 51, 46, 50, 48, 50, 52,
     32, 46, 46, 46, 32, 1028, 1056, 1044, 1056, 32, 8470, 49, 50, 48, 50, 51, 52, 53, 48, 48,
     48, 48, 48, 48, 48, 49, 50, 51]"

definition scenario_number :: ustr where
  "scenario_number = [49, 48, 53, 47, 50, 52, 1045, 45, 49, 55]"

definition scenario_date :: ustr where
  "scenario_date = [49, 50, 46, 48, 51, 46, 50, 48, 50, 52]"

text \<open>Surroundings in which nothing fails: every \<^verbatim>\<open>.docx\<close> file yields the given text,
  the clock shows 4 November 2026.  For the optimized variant the hash of every file is
  given too, an empty text is a failed extraction, and the agent is fresh: its cache is
  not initialized.\<close>

definition plain_env :: "ustr \<Rightarrow> env" where
  "plain_env text =
     \<lparr>WIN32_AVAILABLE = False, convert_doc_to_docx = (\<lambda>p. None),
      extract_docx_content = (\<lambda>p. Some text), extract_pdf_content = (\<lambda>p. None),
      now_stamp = [50, 48, 50, 54, 49, 49, 48, 52, 95, 49, 50, 48, 48, 48, 48], now_year = 2026,
      select_fails = False, makedirs_fails = (\<lambda>p. False), copy_fails = False,
      insert_fails = False\<rparr>"

definition plain_env_opt :: "ustr \<Rightarrow> ustr option \<Rightarrow> env_opt" where
  "plain_env_opt text hash =
     \<lparr>get_file_size = (\<lambda>p. 3), get_file_hash = (\<lambda>p. hash),
      extract_docx_content_opt = (\<lambda>p. (text \<noteq> [], text)),
      extract_pdf_content_opt = (\<lambda>p. (False, [])),
      current_year = 2026, dup_check_fails = False, mkdir_fails = (\<lambda>p. False),
      copy2_fails = (\<lambda>p q. False), save_fails = False,
      PDF_AVAILABLE = True, cache_initialized = False, read_content_cache = (\<lambda>k. CacheMiss),
      pickle_dump = (\<lambda>s. s), gzip_pickle_dump = (\<lambda>s. s), write_fails = (\<lambda>p. False),
      remove_fails = (\<lambda>p. False)\<rparr>"

text \<open>The file \<^verbatim>\<open>/in/a.docx\<close>, a document dated 12.03.1999, a document that only
  says 2030, and an add of the first to an empty index.\<close>

definition a_docx :: ustr where
  "a_docx = [47, 105, 110, 47, 97, 46, 100, 111, 99, 120]"

definition text_1999 :: ustr where
  "text_1999 = [49, 50, 46, 48, 51, 46, 49, 57, 57, 57]"

definition text_2030 :: ustr where
  "text_2030 = [50, 48, 51, 48]"

definition args_1999 :: add_args where
  "args_1999 = \<lparr>a_file_path = a_docx, a_sector_code = None, a_expert_name = Some [88],
                a_expertise_year = None, a_expertise_number = Some [55]\<rparr>"

definition world_1999 :: "case_row world" where
  "world_1999 = \<lparr>fs = [a_docx \<mapsto> [1, 2, 3]], rows = [], next_id = 1\<rparr>"

definition data_1999 :: data_opt where
  "data_1999 = \<lparr>o_erddr_number = None, o_expertise_number = None,
      o_expertise_date = Some text_1999, o_expertise_year = Some 1999,
      o_expertise_type = t_nevyznacheno, o_expert_name = unknown_expert,
      o_sector = s_pocherk_ted, o_source_file = [], o_file_path = [], o_file_size = 0,
      o_file_hash = None\<rparr>"

text \<open>The number of rows of the index with a given expertise number.\<close>

definition number_count :: "('m case_row_scheme) list \<Rightarrow> ustr \<Rightarrow> nat" where
  "number_count rs n = length (filter (\<lambda>r. r_expertise_number r = Some n) rs)"

text \<open>An add of the minimal variant gets as far as the uniqueness check: the file is
  there, it is converted if it is a \<^verbatim>\<open>.doc\<close> file, its format is supported, its text is
  read and not empty, the expert's name is given (lines 620-674), and the query of lines
  677-687 does not raise.\<close>

definition reaches_uniqueness_check ::
  "agent \<Rightarrow> env \<Rightarrow> case_row world \<Rightarrow> add_args \<Rightarrow> bool" where
  "reaches_uniqueness_check self e w args =
     (case open_input e (fs w) (a_file_path args) of
        Inl msg \<Rightarrow> False
      | Inr (files1, file_path, file_ext) \<Rightarrow>
          (case build_data self e args file_path file_ext of
             Inl msg \<Rightarrow> False
           | Inr data \<Rightarrow> \<not> select_fails e))"

text \<open>Surroundings in which only the insert fails; a second file \<^verbatim>\<open>/b/a.docx\<close> with the
  base name of the first; the places in the archive \<^verbatim>\<open>a\<close> where the minimal variant
  puts a file \<^verbatim>\<open>a.docx\<close> of expert \<^verbatim>\<open>X\<close> and year 1999 with the number \<^verbatim>\<open>7\<close> and
  with the numbers \<^verbatim>\<open>5/2\<close> and \<^verbatim>\<open>5:2\<close>; and the two adds of the latter.\<close>

definition failing_env :: "ustr \<Rightarrow> env" where
  "failing_env text = (plain_env text)\<lparr>insert_fails := True\<rparr>"

definition b_docx :: ustr where
  "b_docx = [47, 98, 47, 97, 46, 100, 111, 99, 120]"

definition archived_1999 :: ustr where
  "archived_1999 = [97, 47] @ s_pocherk_ted @ [47, 88, 47, 49, 57, 57, 57, 47, 55, 47,
                            97, 46, 100, 111, 99, 120]"

definition archived_5_2 :: ustr where
  "archived_5_2 = [97, 47] @ s_pocherk_ted @ [47, 88, 47, 49, 57, 57, 57, 47, 53, 95, 50, 47,
                            97, 46, 100, 111, 99, 120]"

definition world_two_files :: "case_row world" where
  "world_two_files =
     \<lparr>fs = [a_docx \<mapsto> [1, 2, 3], b_docx \<mapsto> [4, 5, 6]], rows = [], next_id = 1\<rparr>"

definition args_slash :: add_args where
  "args_slash = \<lparr>a_file_path = a_docx, a_sector_code = None, a_expert_name = Some [88],
                a_expertise_year = None, a_expertise_number = Some [53, 47, 50]\<rparr>"

definition args_colon :: add_args where
  "args_colon = \<lparr>a_file_path = b_docx, a_sector_code = None, a_expert_name = Some [88],
                a_expertise_year = None, a_expertise_number = Some [53, 58, 50]\<rparr>"

definition world_after_slash :: "case_row world" where
  "world_after_slash =
     snd (add_document (new_agent [] [97] None False) (plain_env text_1999) world_two_files
            args_slash)"

definition world_after_colon :: "case_row world" where
  "world_after_colon =
     snd (add_document (new_agent [] [97] None False) (plain_env text_1999) world_after_slash
            args_colon)"

text \<open>The target names the placement loop of the optimized variant goes through: the
  name itself, then the name with the counter 1, 2, ... before the extension.\<close>

definition candidate :: "ustr \<Rightarrow> ustr \<Rightarrow> ustr \<Rightarrow> nat \<Rightarrow> ustr" where
  "candidate target_dir name ext k =
     (if k = 0 then path_join target_dir (name @ ext)
      else path_join target_dir (name @ [95] @ digits_of_nat k @ ext))"

text \<open>An index of the optimized variant with one row, for the file \<^verbatim>\<open>/in/a.docx\<close> with
  the hash \<^verbatim>\<open>h\<close>; \<^verbatim>\<open>/in/c.docx\<close> is a file of another name.\<close>

definition c_docx :: ustr where
  "c_docx = [47, 105, 110, 47, 99, 46, 100, 111, 99, 120]"

definition stored_row :: case_row_opt where
  "stored_row =
     \<lparr>r_id = 1, r_erddr_number = None, r_expertise_number = None, r_expertise_date = None,
      r_expertise_year = None, r_expertise_type = Some t_nevyznacheno,
      r_expert_name = Some unknown_expert, r_sector = Some s_pocherk_ted,
      r_source_file = Some [97, 46, 100, 111, 99, 120], r_file_path = Some a_docx,
      r_file_size = 3, r_file_hash = Some [104]\<rparr>"

definition world_stored :: "case_row_opt world" where
  "world_stored =
     \<lparr>fs = [a_docx \<mapsto> [1, 2, 3], b_docx \<mapsto> [4, 5, 6], c_docx \<mapsto> [1, 2, 3]],
      rows = [stored_row], next_id = 2\<rparr>"

text \<open>An archive \<^verbatim>\<open>a\<close> in which the place of \<^verbatim>\<open>a.docx\<close>, for the unknown expert and
  the year 1999, is taken; the next name is \<^verbatim>\<open>a_1.docx\<close>.\<close>

definition copy_dir :: ustr where
  "copy_dir = [97, 47] @ s_pocherk_ted @ [47] @ unknown_expert @ [47, 49, 57, 57, 57]"

definition taken_path :: ustr where
  "taken_path = copy_dir @ [47, 97, 46, 100, 111, 99, 120]"

definition free_path :: ustr where
  "free_path = copy_dir @ [47, 97, 95, 49, 46, 100, 111, 99, 120]"

definition files_taken :: "ustr \<rightharpoonup> content" where
  "files_taken = [a_docx \<mapsto> [1, 2, 3], taken_path \<mapsto> [9]]"

text \<open>Two more texts for the classifier, each with one trace keyword and one weapons
  keyword: \<^verbatim>\<open>trasol postril\<close>, whose only indicator word is a weapons one, and
  \<^verbatim>\<open>slid postril\<close>, with one indicator word of each kind.\<close>

definition weapons_text :: ustr where
  "weapons_text = [1090, 1088, 1072, 1089, 1086, 1083, 32, 1087, 1086, 1089, 1090, 1088, 1110,
     1083]"

definition tie_text :: ustr where
  "tie_text = [1089, 1083, 1110, 1076, 32, 1087, 1086, 1089, 1090, 1088, 1110, 1083]"

text \<open>The fields of the add of \<^verbatim>\<open>/in/a.docx\<close> and the directory the minimal variant
  computes for them; the same add without the expert's name; surroundings in which only
  the query of the uniqueness check fails.\<close>

definition dir_1999 :: ustr where
  "dir_1999 = [97, 47] @ s_pocherk_ted @ [47, 88, 47, 49, 57, 57, 57, 47, 55]"

definition added_1999 :: add_data where
  "added_1999 = \<lparr>d_erddr_number = [], d_expertise_number = [55],
      d_expertise_date = text_1999, d_expertise_year = Some 1999,
      d_expertise_type = t_nevyznacheno, d_expert_name = [88], d_sector = s_pocherk_ted,
      d_source_file = [97, 46, 100, 111, 99, 120]\<rparr>"

definition args_unnamed :: add_args where
  "args_unnamed = args_1999\<lparr>a_expert_name := None\<rparr>"

definition unanswering_env :: "ustr \<Rightarrow> env" where
  "unanswering_env text = (plain_env text)\<lparr>select_fails := True\<rparr>"

text \<open>Two adds of the optimized variant in index-only mode that supply the number
  \<^verbatim>\<open>7\<close>: of \<^verbatim>\<open>/in/a.docx\<close> with the hash \<^verbatim>\<open>h\<close> to the empty index, then of
  \<^verbatim>\<open>/in/c.docx\<close> with the hash \<^verbatim>\<open>i\<close>.\<close>

definition world_opt_empty :: "case_row_opt world" where
  "world_opt_empty = world_stored\<lparr>rows := [], next_id := 1\<rparr>"

definition first_numbered :: "(add_result \<times> case_row_opt world) option" where
  "first_numbered =
     add_document_impl (new_agent_opt [] [97] None True) (plain_env_opt [] (Some [104]))
       world_opt_empty a_docx False [Expertise_number (Some [55])]"

definition second_numbered :: "(add_result \<times> case_row_opt world) option" where
  "second_numbered =
     add_document_impl (new_agent_opt [] [97] None True) (plain_env_opt [] (Some [105]))
       (snd (the first_numbered)) c_docx False [Expertise_number (Some [55])]"

text \<open>An agent of the optimized variant whose cache is initialized, with a search cache
  file and a content cache file for the hash \<^verbatim>\<open>h\<close> on disc; the text of every document
  is \<^verbatim>\<open>x\<close>.\<close>

definition cache_env :: env_opt where
  "cache_env = (plain_env_opt [120] (Some [104]))\<lparr>cache_initialized := True\<rparr>"

definition search_pkl :: ustr where
  "search_pkl = [99, 97, 99, 104, 101, 47, 115, 101, 97, 114, 99, 104, 95, 113, 46, 112, 107, 108]"

definition content_pkl :: ustr where
  "content_pkl = [99, 97, 99, 104, 101, 47] @ [99, 111, 110, 116, 101, 110, 116, 95]
     @ [100, 111, 99, 120, 95, 99, 111, 110, 116, 101, 110, 116, 95] @ [104] @ [46, 112, 107, 108]"

definition world_cached :: "case_row_opt world" where
  "world_cached = \<lparr>fs = [c_docx \<mapsto> [1, 2, 3], search_pkl \<mapsto> [7], content_pkl \<mapsto> [8]],
      rows = [], next_id = 1\<rparr>"

section \<open>Facts about texts and tables\<close>

lemma startswith_iff: "startswith s p \<longleftrightarrow> (\<exists>r. s = p @ r)"
  by (induction s p rule: startswith.induct) auto

text \<open>\<open>contains\<close> is the substring test.\<close>

lemma contains_iff: "contains s p \<longleftrightarrow> (\<exists>a b. s = a @ p @ b)"
proof (induction s)
  case Nil
  then show ?case by auto
next
  case (Cons x xs)
  show ?case
  proof
    assume "contains (x # xs) p"
    then consider "startswith (x # xs) p" | "contains xs p" by auto
    then show "\<exists>a b. x # xs = a @ p @ b"
    proof cases
      case 1
      then obtain r where "x # xs = p @ r" using startswith_iff by blast
      then have "x # xs = [] @ p @ r" by simp
      then show ?thesis by blast
    next
      case 2
      then obtain a b where "xs = a @ p @ b" using Cons.IH by blast
      then have "x # xs = (x # a) @ p @ b" by simp
      then show ?thesis by blast
    qed
  next
    assume "\<exists>a b. x # xs = a @ p @ b"
    then obtain a b where ab: "x # xs = a @ p @ b" by blast
    show "contains (x # xs) p"
    proof (cases a)
      case Nil
      then have "startswith (x # xs) p" using ab startswith_iff by auto
      then show ?thesis by simp
    next
      case (Cons y ys)
      then have "xs = ys @ p @ b" using ab by simp
      then have "contains xs p" using Cons.IH by blast
      then show ?thesis by simp
    qed
  qed
qed

lemmas label_defs = s_pocherk_ted_def s_pocherk_ted_wide_def s_balisty_def s_trasolohiia_def
  s_daktyloskopiia_def s_bal_oblik_def n_pocherk_def n_zbroi_def n_trasolohiia_def
  n_daktyloskopiia_def n_bal_oblik_def

lemmas type_defs = t_zbroi_def t_trasolohichna_def t_daktyloskopichna_def t_pocherkoznavcha_def
  t_bal_oblik_def t_nevyznacheno_def

section \<open>The sector resolver\<close>

lemma keyword_loop_iff:
  "keyword_loop kws part \<longleftrightarrow> (\<exists>keyword \<in> set kws. contains (lower part) keyword)"
  by (induction kws) auto

lemma part_loop_iff:
  "part_loop kws parts \<longleftrightarrow>
     (\<exists>part \<in> set parts. \<exists>keyword \<in> set kws. contains (lower part) keyword)"
  by (induction parts) (auto simp: keyword_loop_iff)

lemma sector_loop_find:
  "sector_loop self table parts =
     (case find (\<lambda>(sector, kws). \<exists>part \<in> set parts. \<exists>keyword \<in> set kws.
                    contains (lower part) keyword) table of
        Some (sector, kws) \<Rightarrow>
          (case map_of (sectors self) sector of Some code \<Rightarrow> code | None \<Rightarrow> sector)
      | None \<Rightarrow> s_pocherk_ted)"
  by (induction table) (auto simp: part_loop_iff)

text \<open>The keys of \<open>sectors\<close> are the names of the sectors, so looking a code up in it
  gives the code back.\<close>

lemma sectors_get_default:
  assumes "sector \<in> fst ` set sector_keywords"
  shows "map_of (sectors (new_agent dbp folder existing io)) sector = None"
  using assms by (auto simp: sector_keywords_def new_agent_def label_defs)

lemma find_in_table:
  "find P table = Some (sector, kws) \<Longrightarrow> sector \<in> fst ` set table"
  by (induction table) (auto split: if_splits)

lemma resolver_refines:
  "determine_sector_from_path (new_agent dbp folder existing io) file_path =
     spec_sector_from_path file_path"
proof -
  let ?parts = "split_on 47 (replace_cp 92 47 file_path)"
  let ?P = "\<lambda>(sector, kws). \<exists>part \<in> set ?parts. \<exists>keyword \<in> set kws.
                    contains (lower part) keyword"
  show ?thesis
  proof (cases "find ?P sector_keywords")
    case None
    then show ?thesis
      by (simp add: determine_sector_from_path_def spec_sector_from_path_def sector_loop_find)
  next
    case (Some entry)
    obtain sector kws where entry: "entry = (sector, kws)" by (cases entry)
    have "sector \<in> fst ` set sector_keywords" using Some entry find_in_table by fast
    then have "map_of (sectors (new_agent dbp folder existing io)) sector = None"
      by (rule sectors_get_default)
    then show ?thesis
      using Some entry
      by (simp add: determine_sector_from_path_def spec_sector_from_path_def sector_loop_find)
  qed
qed

lemma resolver_range:
  "spec_sector_from_path file_path \<in> set (map fst sector_keywords) \<union> {s_pocherk_ted}"
proof -
  let ?parts = "split_on 47 (replace_cp 92 47 file_path)"
  let ?P = "\<lambda>(sector, kws). \<exists>part \<in> set ?parts. \<exists>keyword \<in> set kws.
                    contains (lower part) keyword"
  show ?thesis
  proof (cases "find ?P sector_keywords")
    case None
    then show ?thesis by (simp add: spec_sector_from_path_def)
  next
    case (Some entry)
    obtain sector kws where entry: "entry = (sector, kws)" by (cases entry)
    have "sector \<in> fst ` set sector_keywords" using Some entry find_in_table by fast
    then show ?thesis using Some entry by (simp add: spec_sector_from_path_def)
  qed
qed

lemma resolver_scenario: "spec_sector_from_path scenario_path = s_balisty"
  by (simp add: spec_sector_from_path_def scenario_path_def replace_cp_def sector_keywords_def
      lower_def lower_cp_def label_defs w_pocherk_def w_ted_def w_pidpys_def w_rukopys_def
      w_hrafoloh_def w_balisty_def)

text \<open>
  Claim C6.  For every agent the constructor builds and every path, the resolver returns
  what the specification describes: the code of the first sector, in the order of the
  table, one of whose keywords occurs in some lower-cased segment of the path, and the
  handwriting sector's code when no keyword occurs in any segment.  The path
  \<^verbatim>\<open>Balisty_Petrenko/2023/55-23SE\<close> resolves to the weapons sector's code, and the
  result is always one of the five sector codes of the table (the default is the first of
  them).
\<close>

theorem sector_from_path_resolves:
  "determine_sector_from_path (new_agent dbp folder existing io) file_path =
     spec_sector_from_path file_path
   \<and> determine_sector_from_path (new_agent dbp folder existing io) scenario_path = s_balisty
   \<and> determine_sector_from_path (new_agent dbp folder existing io) file_path
       \<in> set [s_pocherk_ted, s_balisty, s_trasolohiia, s_daktyloskopiia, s_bal_oblik]"
proof -
  have "spec_sector_from_path file_path
          \<in> set [s_pocherk_ted, s_balisty, s_trasolohiia, s_daktyloskopiia, s_bal_oblik]"
    using resolver_range [of file_path] by (auto simp: sector_keywords_def)
  then show ?thesis
    by (simp only: resolver_refines resolver_scenario simp_thms)
qed

theorem sector_from_path_resolves_witness:
  "determine_sector_from_path (new_agent [] [] None False) scenario_path =
     spec_sector_from_path scenario_path
   \<and> spec_sector_from_path scenario_path = s_balisty"
proof -
  note resolves = sector_from_path_resolves [of "[]" "[]" None False scenario_path]
  have refines: "determine_sector_from_path (new_agent [] [] None False) scenario_path =
     spec_sector_from_path scenario_path"
    using resolves by (rule conjunct1)
  have "determine_sector_from_path (new_agent [] [] None False) scenario_path = s_balisty"
    using resolves by blast
  then show ?thesis using refines by simp
qed

section \<open>The type classifier\<close>

lemma map_of_scored:
  "distinct (map fst table) \<Longrightarrow>
   map_of (filter (\<lambda>(t, score). score > 0)
             (map (\<lambda>(t, kws, weight). (t, f weight kws)) table)) k =
     (case map_of table k of
        Some (kws, weight) \<Rightarrow> if f weight kws > (0::int) then Some (f weight kws) else None
      | None \<Rightarrow> None)"
proof (induction table)
  case Nil
  then show ?case by simp
next
  case (Cons entry table)
  obtain t kws weight where entry: "entry = (t, kws, weight)" by (cases entry)
  have notin: "t \<notin> fst ` set table" using Cons.prems entry by simp
  have ih: "map_of (filter (\<lambda>(t, score). score > 0)
             (map (\<lambda>(t, kws, weight). (t, f weight kws)) table)) k =
     (case map_of table k of
        Some (kws, weight) \<Rightarrow> if f weight kws > 0 then Some (f weight kws) else None
      | None \<Rightarrow> None)"
    using Cons by simp
  show ?case
  proof (cases "k = t")
    case True
    then have "map_of table k = None" using notin by (simp add: map_of_eq_None_iff)
    then show ?thesis using ih True entry by simp
  next
    case False
    then show ?thesis using ih entry by simp
  qed
qed

lemma weighted_distinct: "distinct (map fst expertise_keywords_weighted)"
  by (simp add: expertise_keywords_weighted_def type_defs)

text \<open>A category is in \<^verbatim>\<open>type_scores\<close> exactly if its score is positive.\<close>

lemma type_scores_lookup:
  "map_of (type_scores text_lower) k =
     (if category_score text_lower k > 0 then Some (category_score text_lower k) else None)"
  unfolding type_scores_def category_score_def
  by (simp add: map_of_scored [OF weighted_distinct] split: option.splits)

lemma add_score_lookup:
  "map_of (add_score key n scores) k =
     (if k = key then map_option (\<lambda>score. score + n) (map_of scores k) else map_of scores k)"
  by (induction scores) (auto simp: add_score_def)

lemma zbroi_neq_tras: "t_zbroi \<noteq> t_trasolohichna"
  by (simp add: type_defs)

lemma no_bonus_otherwise:
  "\<not> (category_score (lower text) t_zbroi > 0 \<and> category_score (lower text) t_trasolohichna > 0)
   \<Longrightarrow> disambiguate (lower text) (type_scores (lower text)) = type_scores (lower text)"
  by (auto simp: disambiguate_def type_scores_lookup)

lemma bonus_text_scores:
  "category_score (lower bonus_text) t_zbroi = 10
   \<and> category_score (lower bonus_text) t_trasolohichna = 8
   \<and> indicator_count trasology_indicators (lower bonus_text) = 1
   \<and> indicator_count weapons_indicators (lower bonus_text) = 0
   \<and> determine_expertise_type (new_agent [] [] None False) bonus_text = t_trasolohichna"
  by code_simp

lemma weapons_text_scores:
  "category_score (lower weapons_text) t_zbroi = 10
   \<and> category_score (lower weapons_text) t_trasolohichna = 8
   \<and> indicator_count trasology_indicators (lower weapons_text) = 0
   \<and> indicator_count weapons_indicators (lower weapons_text) = 1
   \<and> determine_expertise_type (new_agent [] [] None False) weapons_text = t_zbroi"
  by code_simp

lemma tie_text_scores:
  "category_score (lower tie_text) t_zbroi = 10
   \<and> category_score (lower tie_text) t_trasolohichna = 8
   \<and> indicator_count trasology_indicators (lower tie_text) = 1
   \<and> indicator_count weapons_indicators (lower tie_text) = 1
   \<and> determine_expertise_type (new_agent [] [] None False) tie_text = t_zbroi"
  by code_simp

text \<open>
  Claim C7.  When the weapons category and the trace category both have a positive score
  after the scoring loop, the classifier returns the best category of the scores in which
  5 was added to one of the two and nothing else was changed: to the trace category if
  more of its indicator words occur in the lower-cased text than weapons indicator words,
  to the weapons category if more weapons indicator words occur, and to the weapons
  category if the two counts are equal.  The count of a category is the number of the
  words of its list that are substrings of the lower-cased text: of \<^verbatim>\<open>slid\<close>,
  \<^verbatim>\<open>vidbytok\<close>, \<^verbatim>\<open>vzuttia\<close>, \<^verbatim>\<open>shyny\<close>, \<^verbatim>\<open>mekhanoskopi\<close>, \<^verbatim>\<open>zamok\<close> for the
  traces and of \<^verbatim>\<open>postril\<close>, \<^verbatim>\<open>vohnepalna\<close>, \<^verbatim>\<open>stvol\<close>, \<^verbatim>\<open>nabii\<close> for the
  weapons.  The three texts of the scenarios have the counts 1 and 0, 0 and 1, 1 and 1;
  the first is classified as a trace examination, the other two as weapons examinations.
\<close>

theorem disambiguation_bonus:
  assumes weapons: "category_score (lower text) t_zbroi > 0"
    and traces: "category_score (lower text) t_trasolohichna > 0"
  shows "determine_expertise_type self text =
           best_type (disambiguate (lower text) (type_scores (lower text)))
    \<and> indicator_count trasology_indicators (lower text)
        = length (filter (\<lambda>ind. \<exists>a b. lower text = a @ ind @ b)
                    [w_slid, w_vidbytok, w_vzuttia, w_shyny, w_mekhanoskopi, w_zamok])
    \<and> indicator_count weapons_indicators (lower text)
        = length (filter (\<lambda>ind. \<exists>a b. lower text = a @ ind @ b)
                    [w_postril, w_vohnepalna, w_stvol, w_nabii])
    \<and> (let final = disambiguate (lower text) (type_scores (lower text));
            trasology_count = indicator_count trasology_indicators (lower text);
            weapons_count = indicator_count weapons_indicators (lower text)
        in (trasology_count > weapons_count \<longrightarrow>
              map_of final t_trasolohichna = Some (category_score (lower text) t_trasolohichna + 5)
              \<and> map_of final t_zbroi = Some (category_score (lower text) t_zbroi))
         \<and> (weapons_count > trasology_count \<longrightarrow>
              map_of final t_zbroi = Some (category_score (lower text) t_zbroi + 5)
              \<and> map_of final t_trasolohichna = Some (category_score (lower text) t_trasolohichna))
         \<and> (weapons_count = trasology_count \<longrightarrow>
              map_of final t_zbroi = Some (category_score (lower text) t_zbroi + 5)
              \<and> map_of final t_trasolohichna = Some (category_score (lower text) t_trasolohichna))
         \<and> (\<forall>k. k \<noteq> t_zbroi \<and> k \<noteq> t_trasolohichna \<longrightarrow>
              map_of final k = map_of (type_scores (lower text)) k))"
proof -
  have both: "map_of (type_scores (lower text)) t_trasolohichna \<noteq> None
      \<and> map_of (type_scores (lower text)) t_zbroi \<noteq> None"
    using weapons traces by (simp add: type_scores_lookup)
  have w: "map_of (type_scores (lower text)) t_zbroi = Some (category_score (lower text) t_zbroi)"
    using weapons by (simp add: type_scores_lookup)
  have t: "map_of (type_scores (lower text)) t_trasolohichna =
             Some (category_score (lower text) t_trasolohichna)"
    using traces by (simp add: type_scores_lookup)
  have present: "(\<lambda>ind. contains (lower text) ind) = (\<lambda>ind. \<exists>a b. lower text = a @ ind @ b)"
    by (simp add: contains_iff)
  have tc: "indicator_count trasology_indicators (lower text)
        = length (filter (\<lambda>ind. \<exists>a b. lower text = a @ ind @ b)
                    [w_slid, w_vidbytok, w_vzuttia, w_shyny, w_mekhanoskopi, w_zamok])"
    unfolding indicator_count_def trasology_indicators_def present ..
  have wc: "indicator_count weapons_indicators (lower text)
        = length (filter (\<lambda>ind. \<exists>a b. lower text = a @ ind @ b)
                    [w_postril, w_vohnepalna, w_stvol, w_nabii])"
    unfolding indicator_count_def weapons_indicators_def present ..
  have bonus: "let final = disambiguate (lower text) (type_scores (lower text));
            trasology_count = indicator_count trasology_indicators (lower text);
            weapons_count = indicator_count weapons_indicators (lower text)
        in (trasology_count > weapons_count \<longrightarrow>
              map_of final t_trasolohichna = Some (category_score (lower text) t_trasolohichna + 5)
              \<and> map_of final t_zbroi = Some (category_score (lower text) t_zbroi))
         \<and> (weapons_count > trasology_count \<longrightarrow>
              map_of final t_zbroi = Some (category_score (lower text) t_zbroi + 5)
              \<and> map_of final t_trasolohichna = Some (category_score (lower text) t_trasolohichna))
         \<and> (weapons_count = trasology_count \<longrightarrow>
              map_of final t_zbroi = Some (category_score (lower text) t_zbroi + 5)
              \<and> map_of final t_trasolohichna = Some (category_score (lower text) t_trasolohichna))
         \<and> (\<forall>k. k \<noteq> t_zbroi \<and> k \<noteq> t_trasolohichna \<longrightarrow>
              map_of final k = map_of (type_scores (lower text)) k)"
    using both w t zbroi_neq_tras
    by (auto simp: disambiguate_def Let_def add_score_lookup)
  have "determine_expertise_type self text =
           best_type (disambiguate (lower text) (type_scores (lower text)))"
    by (simp add: determine_expertise_type_def Let_def)
  then show ?thesis using tc wc bonus by blast
qed

theorem disambiguation_bonus_witness:
  "category_score (lower bonus_text) t_zbroi = 10
   \<and> category_score (lower bonus_text) t_trasolohichna = 8
   \<and> indicator_count trasology_indicators (lower bonus_text) = 1
   \<and> indicator_count weapons_indicators (lower bonus_text) = 0
   \<and> map_of (disambiguate (lower bonus_text) (type_scores (lower bonus_text))) t_trasolohichna
       = Some 13
   \<and> map_of (disambiguate (lower bonus_text) (type_scores (lower bonus_text))) t_zbroi
       = Some 10
   \<and> determine_expertise_type (new_agent [] [] None False) bonus_text = t_trasolohichna
   \<and> category_score (lower weapons_text) t_zbroi = 10
   \<and> category_score (lower weapons_text) t_trasolohichna = 8
   \<and> indicator_count trasology_indicators (lower weapons_text) = 0
   \<and> indicator_count weapons_indicators (lower weapons_text) = 1
   \<and> map_of (disambiguate (lower weapons_text) (type_scores (lower weapons_text))) t_zbroi
       = Some 15
   \<and> map_of (disambiguate (lower weapons_text) (type_scores (lower weapons_text)))
       t_trasolohichna = Some 8
   \<and> determine_expertise_type (new_agent [] [] None False) weapons_text = t_zbroi
   \<and> category_score (lower tie_text) t_zbroi = 10
   \<and> category_score (lower tie_text) t_trasolohichna = 8
   \<and> indicator_count trasology_indicators (lower tie_text) = 1
   \<and> indicator_count weapons_indicators (lower tie_text) = 1
   \<and> map_of (disambiguate (lower tie_text) (type_scores (lower tie_text))) t_zbroi = Some 15
   \<and> map_of (disambiguate (lower tie_text) (type_scores (lower tie_text))) t_trasolohichna
       = Some 8
   \<and> determine_expertise_type (new_agent [] [] None False) tie_text = t_zbroi"
proof -
  let ?A = "new_agent [] [] None False"
  have b1: "category_score (lower bonus_text) t_zbroi > 0"
    and b2: "category_score (lower bonus_text) t_trasolohichna > 0"
    using bonus_text_scores by simp_all
  have w1: "category_score (lower weapons_text) t_zbroi > 0"
    and w2: "category_score (lower weapons_text) t_trasolohichna > 0"
    using weapons_text_scores by simp_all
  have t1: "category_score (lower tie_text) t_zbroi > 0"
    and t2: "category_score (lower tie_text) t_trasolohichna > 0"
    using tie_text_scores by simp_all
  note b = disambiguation_bonus [OF b1 b2, of ?A, THEN conjunct2, THEN conjunct2, THEN conjunct2]
  note w = disambiguation_bonus [OF w1 w2, of ?A, THEN conjunct2, THEN conjunct2, THEN conjunct2]
  note t = disambiguation_bonus [OF t1 t2, of ?A, THEN conjunct2, THEN conjunct2, THEN conjunct2]
  have "map_of (disambiguate (lower bonus_text) (type_scores (lower bonus_text))) t_trasolohichna
          = Some 13
      \<and> map_of (disambiguate (lower bonus_text) (type_scores (lower bonus_text))) t_zbroi
          = Some 10"
    using b bonus_text_scores by (simp add: Let_def)
  moreover have "map_of (disambiguate (lower weapons_text) (type_scores (lower weapons_text)))
          t_zbroi = Some 15
      \<and> map_of (disambiguate (lower weapons_text) (type_scores (lower weapons_text)))
          t_trasolohichna = Some 8"
    using w weapons_text_scores by (simp add: Let_def)
  moreover have "map_of (disambiguate (lower tie_text) (type_scores (lower tie_text))) t_zbroi
          = Some 15
      \<and> map_of (disambiguate (lower tie_text) (type_scores (lower tie_text))) t_trasolohichna
          = Some 8"
    using t tie_text_scores by (simp add: Let_def)
  ultimately show ?thesis
    using bonus_text_scores weapons_text_scores tie_text_scores by simp
qed

text \<open>
  Claim C8.  The classifiers are functions of the text and of the keyword table alone:
  two agents that differ in anything but the table of keywords, in whatever state of the
  index and of the file system, classify a text alike.  The minimal variant's classifier
  has its table in the method and depends on the text only.
\<close>

theorem classifier_deterministic:
  assumes "expertise_keywords self1 = expertise_keywords self2"
  shows "determine_expertise_type self1 text = determine_expertise_type self2 text
       \<and> determine_expertise_type_opt self1 text = determine_expertise_type_opt self2 text"
  using assms
  by (simp add: determine_expertise_type_def determine_expertise_type_opt_def
      expertise_weights_def)

theorem classifier_deterministic_witness:
  "expertise_keywords (new_agent [97] [98] None False)
     = expertise_keywords (new_agent_opt [99] [100] (Some [101]) True)
   \<and> determine_expertise_type (new_agent [97] [98] None False) bonus_text
     = determine_expertise_type (new_agent_opt [99] [100] (Some [101]) True) bonus_text
   \<and> determine_expertise_type_opt (new_agent [97] [98] None False) bonus_text
     = determine_expertise_type_opt (new_agent_opt [99] [100] (Some [101]) True) bonus_text"
proof -
  have same: "expertise_keywords (new_agent [97] [98] None False)
     = expertise_keywords (new_agent_opt [99] [100] (Some [101]) True)"
    by (simp add: new_agent_def new_agent_opt_def)
  show ?thesis
    using same classifier_deterministic [OF same, of bonus_text]
    by simp
qed

section \<open>The validator and the year\<close>

lemma clean_erddr_year [simp]:
  "o_expertise_year (clean_erddr data) = o_expertise_year data"
  "o_expertise_date (clean_erddr data) = o_expertise_date data"
  by (simp_all add: clean_erddr_def Let_def)

lemma clean_number_year [simp]:
  "o_expertise_year (clean_number data) = o_expertise_year data"
  "o_expertise_date (clean_number data) = o_expertise_date data"
  by (simp_all add: clean_number_def Let_def)

lemma clean_expert_year [simp]:
  "o_expertise_year (clean_expert data) = o_expertise_year data"
  "o_expertise_date (clean_expert data) = o_expertise_date data"
  by (simp_all add: clean_expert_def Let_def)

lemma validate_year:
  "o_expertise_year (validate_and_clean_expertise_data e data) =
     (if truthy_int (o_expertise_year data)
         \<and> \<not> (2000 \<le> the (o_expertise_year data)
               \<and> the (o_expertise_year data) \<le> current_year e + 1)
      then None else o_expertise_year data)"
  by (simp add: validate_and_clean_expertise_data_def clean_year_def Let_def)

lemma validate_date:
  "o_expertise_date (validate_and_clean_expertise_data e data) =
     (if truthy_int (o_expertise_year data)
         \<and> \<not> (2000 \<le> the (o_expertise_year data)
               \<and> the (o_expertise_year data) \<le> current_year e + 1)
      then None else o_expertise_date data)"
  by (simp add: validate_and_clean_expertise_data_def clean_year_def Let_def)

lemma parse_opt_year:
  "o_expertise_year (parse_expertise_document_opt self e file_path) = Some y \<Longrightarrow> y \<noteq> 0 \<Longrightarrow>
     2000 \<le> y \<and> y \<le> current_year e + 1"
  by (auto simp: parse_expertise_document_opt_def Let_def validate_year
      get_default_expertise_data_def truthy_int_def split: if_splits prod.splits)

text \<open>The year zero is falsy, so the validator does not look at it: a date such as
  \<^verbatim>\<open>01.01.0000\<close> passes with its year.\<close>

lemma validator_keeps_year_zero:
  "o_expertise_year data = Some 0 \<Longrightarrow>
     o_expertise_year (validate_and_clean_expertise_data e data) = Some 0
     \<and> o_expertise_date (validate_and_clean_expertise_data e data) = o_expertise_date data"
  by (simp add: validate_year validate_date truthy_int_def)

lemma parse_1999:
  "parse_expertise_document (new_agent [] [97] None False) text_1999
     [97, 46, 100, 111, 99, 120] None =
     \<lparr>p_erddr_number = [], p_expertise_number = [], p_expertise_date = text_1999,
      p_expertise_year = Some 1999, p_expertise_type = t_nevyznacheno,
      p_source_file = [97, 46, 100, 111, 99, 120]\<rparr>"
  by code_simp

lemma parse_2030:
  "p_expertise_year (parse_expertise_document (new_agent [] [97] None False) text_2030 [] None)
     = Some 2030"
  by code_simp

lemma add_1999_rows:
  "rows (snd (add_document (new_agent [] [97] None False) (plain_env text_1999) world_1999
                args_1999))
   = [\<lparr>r_id = 1, r_erddr_number = Some [], r_expertise_number = Some [55],
       r_expertise_date = Some text_1999, r_expertise_year = Some 1999,
       r_expertise_type = Some t_nevyznacheno, r_expert_name = Some [88],
       r_sector = Some s_pocherk_ted, r_source_file = Some [97, 46, 100, 111, 99, 120],
       r_file_path = Some ([97, 47] @ s_pocherk_ted @ [47, 88, 47, 49, 57, 57, 57, 47, 55, 47,
                            97, 46, 100, 111, 99, 120])\<rparr>]"
  by code_simp

text \<open>
  The claim C3 as stated fails on the minimal variant, whose pipeline has no validation
  step.  Its parser takes the year 1999 from the date \<^verbatim>\<open>12.03.1999\<close> and keeps both,
  and \<^verbatim>\<open>add_document\<close> stores the row with that year and date; its fallback scan takes
  the year 2030 from a text that only says \<^verbatim>\<open>2030\<close>, which is beyond the year after the
  current one (2026).
\<close>

theorem year_outside_range_persisted:
  "p_expertise_year (parse_expertise_document (new_agent [] [97] None False) text_1999
                       [97, 46, 100, 111, 99, 120] None) = Some 1999
   \<and> p_expertise_date (parse_expertise_document (new_agent [] [97] None False) text_1999
                       [97, 46, 100, 111, 99, 120] None) = text_1999
   \<and> rows (snd (add_document (new_agent [] [97] None False) (plain_env text_1999) world_1999
                   args_1999))
     = [\<lparr>r_id = 1, r_erddr_number = Some [], r_expertise_number = Some [55],
         r_expertise_date = Some text_1999, r_expertise_year = Some 1999,
         r_expertise_type = Some t_nevyznacheno, r_expert_name = Some [88],
         r_sector = Some s_pocherk_ted, r_source_file = Some [97, 46, 100, 111, 99, 120],
         r_file_path = Some ([97, 47] @ s_pocherk_ted @ [47, 88, 47, 49, 57, 57, 57, 47, 55, 47,
                              97, 46, 100, 111, 99, 120])\<rparr>]
   \<and> p_expertise_year (parse_expertise_document (new_agent [] [97] None False) text_2030 []
                         None) = Some 2030
   \<and> \<not> (2030 \<le> now_year (plain_env text_2030) + 1)"
proof -
  have "\<not> (2030 \<le> now_year (plain_env text_2030) + 1)" by (simp add: plain_env_def)
  then show ?thesis by (simp add: parse_1999 parse_2030 add_1999_rows)
qed

text \<open>
  Claim C3, amended.  In the optimized variant, for every record of parsed fields whose
  year is present, not zero and outside \<open>[2000, current_year + 1]\<close>, the validator sets
  both the year and the date absent; so every non-zero year in the record the optimized
  parser returns lies in that range.
\<close>

theorem validator_clears_year_and_date:
  assumes "o_expertise_year data = Some y" and "y \<noteq> 0"
    and "\<not> (2000 \<le> y \<and> y \<le> current_year e + 1)"
  shows "o_expertise_year (validate_and_clean_expertise_data e data) = None
       \<and> o_expertise_date (validate_and_clean_expertise_data e data) = None
       \<and> (\<forall>self file_path z.
            o_expertise_year (parse_expertise_document_opt self e file_path) = Some z \<and> z \<noteq> 0
              \<longrightarrow> 2000 \<le> z \<and> z \<le> current_year e + 1)"
  using assms parse_opt_year by (auto simp: validate_year validate_date truthy_int_def)

theorem validator_clears_year_and_date_witness:
  "o_expertise_year data_1999 = Some 1999
   \<and> o_expertise_date data_1999 = Some text_1999
   \<and> o_expertise_year (validate_and_clean_expertise_data (plain_env_opt [] None) data_1999) = None
   \<and> o_expertise_date (validate_and_clean_expertise_data (plain_env_opt [] None) data_1999) = None"
proof -
  have y: "o_expertise_year data_1999 = Some 1999" by (simp add: data_1999_def)
  have nz: "(1999::int) \<noteq> 0" by simp
  have out: "\<not> (2000 \<le> (1999::int) \<and> 1999 \<le> current_year (plain_env_opt [] None) + 1)"
    by simp
  show ?thesis
    using validator_clears_year_and_date [OF y nz out] y by (simp add: data_1999_def)
qed

section \<open>The parser scenario\<close>

lemma scenario_minimal:
  "parse_expertise_document (new_agent [] [97] None False) scenario_text [] None =
     \<lparr>p_erddr_number = [49, 50, 48, 50, 51, 52, 53, 48, 48, 48, 48, 48, 48, 48, 49, 50, 51],
      p_expertise_number = scenario_number, p_expertise_date = scenario_date,
      p_expertise_year = Some 2024, p_expertise_type = t_nevyznacheno, p_source_file = []\<rparr>"
  by code_simp

lemma scenario_optimized:
  "parse_expertise_document_opt (new_agent_opt [] [97] None False)
     (plain_env_opt scenario_text None) a_docx =
     \<lparr>o_erddr_number = Some [49, 50, 48, 50, 51, 52, 53, 48, 48, 48, 48, 48],
      o_expertise_number = None, o_expertise_date = Some scenario_date,
      o_expertise_year = Some 2024, o_expertise_type = t_nevyznacheno,
      o_expert_name = unknown_expert, o_sector = s_pocherk_ted,
      o_source_file = [97, 46, 100, 111, 99, 120], o_file_path = a_docx, o_file_size = 3,
      o_file_hash = None\<rparr>"
  by code_simp

text \<open>
  The claim C5 as stated fails on both parsers.  The minimal variant's parser gives the
  number, the date and the year, but its case identifier is the whole token of 17 digits;
  the optimized variant's parser gives no expertise number at all.
\<close>

theorem scenario_parse_counterexample:
  "\<not> (p_expertise_number (parse_expertise_document (new_agent [] [97] None False)
                           scenario_text [] None) = scenario_number
       \<and> p_expertise_date (parse_expertise_document (new_agent [] [97] None False)
                           scenario_text [] None) = scenario_date
       \<and> p_expertise_year (parse_expertise_document (new_agent [] [97] None False)
                           scenario_text [] None) = Some 2024
       \<and> 11 \<le> length (p_erddr_number (parse_expertise_document (new_agent [] [97] None False)
                           scenario_text [] None))
       \<and> length (p_erddr_number (parse_expertise_document (new_agent [] [97] None False)
                           scenario_text [] None)) \<le> 12)
   \<and> \<not> (o_expertise_number (parse_expertise_document_opt (new_agent_opt [] [97] None False)
                              (plain_env_opt scenario_text None) a_docx) = Some scenario_number)"
  by (simp add: scenario_minimal scenario_optimized)

text \<open>
  Claim C5, amended.  For the text of the scenario the minimal variant's parser produces
  the expertise number \<^verbatim>\<open>105/24E-17\<close>, the date \<^verbatim>\<open>12.03.2024\<close>, the year 2024 and, as
  case identifier, the token of 17 digits that follows the label (the end of the text);
  the optimized variant's parser produces the same date and year, the first 12 digits of
  that token as case identifier, and no expertise number.
\<close>

theorem scenario_parse:
  "(let p = parse_expertise_document (new_agent [] [97] None False) scenario_text [] None
    in p_expertise_number p = scenario_number \<and> p_expertise_date p = scenario_date
       \<and> p_expertise_year p = Some 2024
       \<and> p_erddr_number p = drop 46 scenario_text \<and> length (p_erddr_number p) = 17)
   \<and> (let d = parse_expertise_document_opt (new_agent_opt [] [97] None False)
                 (plain_env_opt scenario_text None) a_docx
      in o_expertise_number d = None \<and> o_expertise_date d = Some scenario_date
         \<and> o_expertise_year d = Some 2024
         \<and> o_erddr_number d = Some (take 12 (drop 46 scenario_text)))"
proof -
  have whole: "drop 46 scenario_text =
      [49, 50, 48, 50, 51, 52, 53, 48, 48, 48, 48, 48, 48, 48, 49, 50, 51]"
    by (simp add: scenario_text_def)
  have part: "take 12 (drop 46 scenario_text) = [49, 50, 48, 50, 51, 52, 53, 48, 48, 48, 48, 48]"
    by (simp add: scenario_text_def)
  show ?thesis
    by (simp add: scenario_minimal scenario_optimized whole part)
qed

theorem scenario_parse_witness:
  "p_expertise_number (parse_expertise_document (new_agent [] [97] None False)
                         scenario_text [] None) = scenario_number
   \<and> o_expertise_number (parse_expertise_document_opt (new_agent_opt [] [97] None False)
                            (plain_env_opt scenario_text None) a_docx) = None"
  using scenario_parse by (simp add: Let_def)

section \<open>The minimal add and the index\<close>

lemma select_none_iff: "select_by_number rs n = None \<longleftrightarrow> number_count rs n = 0"
  by (simp add: select_by_number_def number_count_def split: list.splits)

lemma violates_iff: "violates_unique rs (Some n) \<longleftrightarrow> number_count rs n \<noteq> 0"
  by (induction rs) (auto simp: violates_unique_def number_count_def)

lemma build_data_number:
  assumes "build_data self e args file_path file_ext = Inr data"
    and "a_expertise_number args = Some n" and "n \<noteq> []"
  shows "d_expertise_number data = n"
  using assms
  by (auto simp: build_data_def Let_def truthy_str_def split: option.splits if_splits)

lemma insert_case_rows:
  assumes "insert_case e w data stored_path = Some w'"
  shows "\<exists>row. rows w' = rows w @ [row] \<and> r_expertise_number row = Some (d_expertise_number data)
           \<and> number_count (rows w) (d_expertise_number data) = 0 \<and> fs w' = fs w
           \<and> \<not> insert_fails e"
  using assms by (auto simp: insert_case_def violates_iff split: if_splits)

text \<open>What an add does to the index: nothing, reporting a failure, or one row with a
  number that was not there.\<close>

lemma add_document_cases:
  assumes "add_document self e w args = (res, w')"
  shows "(rows w' = rows w \<and> \<not> fst res)
       \<or> (\<exists>row data files1 file_path file_ext.
             open_input e (fs w) (a_file_path args) = Inr (files1, file_path, file_ext)
             \<and> build_data self e args file_path file_ext = Inr data
             \<and> rows w' = rows w @ [row]
             \<and> r_expertise_number row = Some (d_expertise_number data)
             \<and> number_count (rows w) (d_expertise_number data) = 0
             \<and> \<not> insert_fails e)"
proof (cases "open_input e (fs w) (a_file_path args)")
  case (Inl msg)
  then show ?thesis using assms by (auto simp: add_document_def Let_def split: if_splits)
next
  case (Inr opened)
  obtain files1 file_path file_ext where opened: "opened = (files1, file_path, file_ext)"
    by (cases opened)
  show ?thesis
  proof (cases "build_data self e args file_path file_ext")
    case (Inl msg)
    then show ?thesis using assms Inr opened by (auto simp: add_document_def Let_def split: if_splits)
  next
    case built: (Inr data)
    show ?thesis
    proof (cases "select_fails e \<or> select_by_number (rows w) (d_expertise_number data) \<noteq> None")
      case True
      then show ?thesis using assms Inr opened built by (auto simp: add_document_def Let_def split: if_splits)
    next
      case False
      show ?thesis
      proof (cases "place_file self e files1 (a_file_path args) file_path data")
        case (Inl msg)
        then show ?thesis using assms Inr opened built False by (auto simp: add_document_def Let_def split: if_splits)
      next
        case placed: (Inr p)
        obtain files2 stored_path dest where p: "p = (files2, stored_path, dest)" by (cases p)
        show ?thesis
        proof (cases "insert_case e (w\<lparr>fs := files2\<rparr>) data stored_path")
          case None
          then show ?thesis using assms Inr opened built False placed p
            by (auto simp: add_document_def Let_def split: if_splits)
        next
          case (Some w3)
          obtain row where row: "rows w3 = rows w @ [row]"
            "r_expertise_number row = Some (d_expertise_number data)"
            "number_count (rows w) (d_expertise_number data) = 0" "\<not> insert_fails e"
            using insert_case_rows [OF Some] by auto
          have "rows w' = rows w3"
            using assms Inr opened built False placed p Some
            by (auto simp: add_document_def Let_def split: option.splits if_splits)
          then show ?thesis using row Inr opened built by auto
        qed
      qed
    qed
  qed
qed

lemma number_count_append:
  "number_count (rs @ [row]) m = number_count rs m + (if r_expertise_number row = Some m then 1 else 0)"
  by (simp add: number_count_def)

lemma add_document_unique:
  assumes "\<forall>m. number_count (rows w) m \<le> 1"
    and "add_document self e w args = (res, w')"
  shows "\<forall>m. number_count (rows w') m \<le> 1"
  using add_document_cases [OF assms(2)] assms(1)
  by (auto simp: number_count_append)

lemma add_document_success:
  assumes "add_document self e w args = (res, w')" and "fst res"
    and "a_expertise_number args = Some n" and "n \<noteq> []"
  shows "number_count (rows w') n = 1"
proof -
  from add_document_cases [OF assms(1)] assms(2)
  obtain row data files1 file_path file_ext where
    b: "build_data self e args file_path file_ext = Inr data"
    and r: "rows w' = rows w @ [row]" "r_expertise_number row = Some (d_expertise_number data)"
      "number_count (rows w) (d_expertise_number data) = 0"
    by auto
  have "d_expertise_number data = n" using build_data_number [OF b assms(3,4)] .
  then show ?thesis using r by (simp add: number_count_append)
qed

lemma add_document_present:
  assumes "add_document self e w args = (res, w')"
    and "a_expertise_number args = Some n" and "n \<noteq> []"
    and "number_count (rows w) n \<noteq> 0"
  shows "\<not> fst res \<and> rows w' = rows w"
proof -
  have "\<not> (\<exists>row data files1 file_path file_ext.
             open_input e (fs w) (a_file_path args) = Inr (files1, file_path, file_ext)
             \<and> build_data self e args file_path file_ext = Inr data
             \<and> rows w' = rows w @ [row]
             \<and> r_expertise_number row = Some (d_expertise_number data)
             \<and> number_count (rows w) (d_expertise_number data) = 0
             \<and> \<not> insert_fails e)"
    using build_data_number assms(2,3,4) by fastforce
  then show ?thesis using add_document_cases [OF assms(1)] by blast
qed

lemma add_document_conflict:
  assumes "add_document self e w args = (res, w')"
    and "a_expertise_number args = Some n" and "n \<noteq> []"
    and "number_count (rows w) n \<noteq> 0"
    and "reaches_uniqueness_check self e w args"
  shows "res = (False, AlreadyExists n)"
proof -
  obtain opened where o': "open_input e (fs w) (a_file_path args) = Inr opened"
    using assms(5)
    by (cases "open_input e (fs w) (a_file_path args)") (auto simp: reaches_uniqueness_check_def)
  obtain files1 file_path file_ext where opened: "opened = (files1, file_path, file_ext)"
    by (cases opened)
  have o: "open_input e (fs w) (a_file_path args) = Inr (files1, file_path, file_ext)"
    using o' opened by simp
  obtain data where b: "build_data self e args file_path file_ext = Inr data"
    using assms(5) o
    by (cases "build_data self e args file_path file_ext")
       (auto simp: reaches_uniqueness_check_def)
  have s: "\<not> select_fails e"
    using assms(5) o b by (simp add: reaches_uniqueness_check_def)
  have n: "d_expertise_number data = n" using build_data_number [OF b assms(2,3)] .
  have "select_by_number (rows w) n \<noteq> None" using assms(4) by (simp add: select_none_iff)
  then show ?thesis using assms(1) o b s n by (auto simp: add_document_def Let_def split: if_splits)
qed


lemma add_document_no_insert:
  assumes "add_document self e w args = (res, w')" and "insert_fails e"
  shows "\<not> fst res \<and> rows w' = rows w"
  using add_document_cases [OF assms(1)] assms(2) by blast

lemma place_file_copy:
  assumes "\<not> (index_only_mode self \<and> truthy_str (existing_archive_path self))"
    and "place_file self e files original_path file_path data = Inr (files2, stored_path, dest)"
  shows "\<exists>dest_dir c. dest = Some dest_dir
           \<and> stored_path = path_join dest_dir (basename original_path)
           \<and> files original_path = Some c \<and> files2 = files(stored_path \<mapsto> c)
           \<and> stored_path \<noteq> original_path"
proof -
  obtain dest_dir where g: "get_file_destination_path self e (Some (d_sector data))
      (Some (d_expert_name data)) (d_expertise_year data) (Some (d_expertise_number data))
        = Some dest_dir"
    using assms by (auto simp: place_file_def split: option.splits if_splits)
  have eq: "place_file self e files original_path file_path data =
      (case files original_path of
         None \<Rightarrow> Inl CopyError
       | Some c \<Rightarrow>
           if copy_fails e \<or> path_join dest_dir (basename original_path) = original_path
           then Inl CopyError
           else Inr (files(path_join dest_dir (basename original_path) \<mapsto> c),
                     path_join dest_dir (basename original_path), Some dest_dir))"
  proof -
    have cm: "(index_only_mode self \<and> truthy_str (existing_archive_path self)) = False"
      using assms(1) by simp
    show ?thesis using g by (simp add: place_file_def Let_def cm)
  qed
  show ?thesis
    using assms(2) unfolding eq by (auto split: option.splits if_splits)
qed

lemma open_input_original:
  assumes "open_input e files original_path = Inr (files1, file_path, file_ext)"
  shows "files original_path \<noteq> None
       \<and> (lower (snd (splitext original_path)) \<noteq> dot_doc \<longrightarrow> files1 = files)"
  using assms
  by (auto simp: open_input_def Let_def split: option.splits if_splits)

lemma add_document_save_error:
  assumes copy_mode: "\<not> (index_only_mode self \<and> truthy_str (existing_archive_path self))"
    and run: "add_document self e w args = ((ok, SaveError), w')"
  shows "\<not> ok \<and> insert_fails e \<and> rows w' = rows w \<and> next_id w' = next_id w
       \<and> fs w (a_file_path args) \<noteq> None
       \<and> (\<exists>dest_dir. path_join dest_dir (basename (a_file_path args)) \<noteq> a_file_path args
             \<and> fs w' (path_join dest_dir (basename (a_file_path args))) \<noteq> None
             \<and> (lower (snd (splitext (a_file_path args))) \<noteq> dot_doc \<longrightarrow>
                  fs w' (path_join dest_dir (basename (a_file_path args)))
                    = fs w (a_file_path args)))"
proof (cases "open_input e (fs w) (a_file_path args)")
  case (Inl msg)
  then show ?thesis using run by (auto simp: add_document_def open_input_def Let_def split: if_splits option.splits)
next
  case (Inr opened)
  obtain files1 file_path file_ext where opened: "opened = (files1, file_path, file_ext)"
    by (cases opened)
  note o = Inr [unfolded opened]
  show ?thesis
  proof (cases "build_data self e args file_path file_ext")
    case (Inl msg)
    then show ?thesis using run o
      by (auto simp: add_document_def build_data_def Let_def split: if_splits option.splits)
  next
    case built: (Inr data)
    show ?thesis
    proof (cases "select_fails e \<or> select_by_number (rows w) (d_expertise_number data) \<noteq> None")
      case True
      then show ?thesis using run o built by (auto simp: add_document_def Let_def split: if_splits)
    next
      case False
      show ?thesis
      proof (cases "place_file self e files1 (a_file_path args) file_path data")
        case (Inl msg)
        then show ?thesis using run o built False copy_mode
          by (auto simp: add_document_def place_file_def Let_def split: if_splits option.splits)
      next
        case placed: (Inr p)
        obtain files2 stored_path dest where p: "p = (files2, stored_path, dest)" by (cases p)
        from place_file_copy [OF copy_mode placed [unfolded p]]
        obtain dest_dir c where d: "dest = Some dest_dir"
          "stored_path = path_join dest_dir (basename (a_file_path args))"
          "files1 (a_file_path args) = Some c" "files2 = files1(stored_path \<mapsto> c)"
          "stored_path \<noteq> a_file_path args"
          by auto
        show ?thesis
        proof (cases "insert_case e (w\<lparr>fs := files2\<rparr>) data stored_path")
          case None
          have w': "w' = w\<lparr>fs := files2\<rparr>" and ok: "\<not> ok"
            using run o built False placed p None by (auto simp: add_document_def Let_def)
          have "number_count (rows w) (d_expertise_number data) = 0"
            using False by (simp add: select_none_iff)
          then have fails: "insert_fails e"
            using None by (auto simp: insert_case_def violates_iff split: if_splits)
          show ?thesis
            using w' ok fails d open_input_original [OF o] by auto
        next
          case (Some w3)
          then show ?thesis using run o built False placed p d
            by (auto simp: add_document_def Let_def)
        qed
      qed
    qed
  qed
qed

lemma second_add_reaches:
  "reaches_uniqueness_check (new_agent [] [97] None False) (plain_env text_1999)
     (snd (add_document (new_agent [] [97] None False) (plain_env text_1999) world_1999
             args_1999)) args_1999"
  by code_simp


text \<open>An add of an existing \<^verbatim>\<open>.docx\<close> file whose text is read and not empty, with
  the expert's name given, gets as far as the uniqueness check when the store answers.\<close>

lemma plain_document_reaches_check:
  assumes "fs w (a_file_path args) \<noteq> None"
    and "lower (snd (splitext (a_file_path args))) = dot_docx"
    and "extract_docx_content e (a_file_path args) = Some text" and "text \<noteq> []"
    and "truthy_str (a_expert_name args)"
    and "\<not> select_fails e"
  shows "reaches_uniqueness_check self e w args"
proof -
  have o: "open_input e (fs w) (a_file_path args) = Inr (fs w, a_file_path args, dot_docx)"
    using assms(1,2) by (auto simp: open_input_def Let_def dot_doc_def dot_docx_def)
  have g: "get_file_content e (a_file_path args) = Some text"
    using assms(2,3) by (simp add: get_file_content_def Let_def)
  have "\<exists>data. build_data self e args (a_file_path args) dot_docx = Inr data"
    using g assms(4,5)
    by (auto simp: build_data_def Let_def truthy_str_def s_pocherk_ted_def
        split: option.splits)
  then show ?thesis
    using o assms(6) by (auto simp: reaches_uniqueness_check_def)
qed

lemma first_add_count:
  "number_count (rows (snd (add_document (new_agent [] [97] None False) (plain_env text_1999)
                             world_1999 args_1999))) [55] = 1"
  by (simp add: add_1999_rows number_count_def)

lemma unnamed_second_add:
  "a_expertise_number args_unnamed = Some [55]
   \<and> fst (add_document (new_agent [] [97] None False) (plain_env text_1999)
            (snd (add_document (new_agent [] [97] None False) (plain_env text_1999) world_1999
                    args_1999)) args_unnamed)
       = (False, ExpertNameMissing)"
  by code_simp

lemma unanswered_second_add:
  "fst (add_document (new_agent [] [97] None False) (unanswering_env text_1999)
            (snd (add_document (new_agent [] [97] None False) (plain_env text_1999) world_1999
                    args_1999)) args_1999)
       = (False, UniquenessCheckError)"
  by code_simp

lemma first_add_succeeds:
  "fst (fst (add_document (new_agent [] [97] None False) (plain_env text_1999) world_1999
               args_1999))
   \<and> map r_expertise_number
        (rows (snd (add_document (new_agent [] [97] None False) (plain_env text_1999) world_1999
                      args_1999))) = [Some [55]]"
  by code_simp

lemma numbered_adds:
  "map_option fst first_numbered
     = Some (Saved 1 a_docx
         \<lparr>o_erddr_number = None, o_expertise_number = Some [55], o_expertise_date = None,
          o_expertise_year = None, o_expertise_type = t_nevyznacheno,
          o_expert_name = unknown_expert, o_sector = s_pocherk_ted,
          o_source_file = [97, 46, 100, 111, 99, 120], o_file_path = a_docx, o_file_size = 3,
          o_file_hash = Some [104]\<rparr>)
   \<and> map r_expertise_number (rows (snd (the first_numbered))) = [Some [55]]
   \<and> map_option fst second_numbered = Some (Failed SaveErrorOpt)
   \<and> map r_id (rows (snd (the second_numbered))) = [1]"
  by code_simp

text \<open>
  The claim C1 as stated fails: a second add that supplies a number already in the index
  is not always answered with the message that the expertise exists.  In the minimal
  variant the checks of the input come first, so the same add without the expert's name
  is refused for the missing name, and when the query of the uniqueness check raises the
  answer is the general error of that check.  In the optimized variant nothing looks for
  the number before the insert: the second add, of another file with another hash, is
  stopped by the constraint of the table and reports the general failure to save, the
  index keeping its single row.
\<close>

theorem duplicate_number_other_errors:
  "a_expertise_number args_1999 = Some [55] \<and> a_expertise_number args_unnamed = Some [55]
   \<and> fst (fst (add_document (new_agent [] [97] None False) (plain_env text_1999) world_1999
                  args_1999))
   \<and> map r_expertise_number
        (rows (snd (add_document (new_agent [] [97] None False) (plain_env text_1999) world_1999
                      args_1999))) = [Some [55]]
   \<and> fst (add_document (new_agent [] [97] None False) (plain_env text_1999)
            (snd (add_document (new_agent [] [97] None False) (plain_env text_1999) world_1999
                    args_1999)) args_unnamed)
       = (False, ExpertNameMissing)
   \<and> fst (add_document (new_agent [] [97] None False) (unanswering_env text_1999)
            (snd (add_document (new_agent [] [97] None False) (plain_env text_1999) world_1999
                    args_1999)) args_1999)
       = (False, UniquenessCheckError)
   \<and> map r_expertise_number (rows (snd (the first_numbered))) = [Some [55]]
   \<and> map_option fst second_numbered = Some (Failed SaveErrorOpt)
   \<and> map r_id (rows (snd (the second_numbered))) = [1]"
proof -
  have "a_expertise_number args_1999 = Some [55]" by (simp add: args_1999_def)
  then show ?thesis
    using unnamed_second_add unanswered_second_add first_add_succeeds numbered_adds by simp
qed

text \<open>
  Claim C1, amended.  For the minimal variant's \<^verbatim>\<open>add_document\<close>, on an index that
  holds no number twice, and for every pair of adds that supply the same non-empty
  number: after the two adds the index still holds no number twice; if the first add
  succeeds one row with the number is in the index; once such a row is there the second
  add does not succeed and adds nothing; and if the second add passes the checks of its
  input (the file is there, is converted if need be, has a supported format and a text,
  the expert is named) and the query of the uniqueness check does not raise, its result
  is the failure with the message that the expertise with this number already exists,
  which no other failure of the method shares.
\<close>

theorem duplicate_number_conflict:
  assumes uniq: "\<forall>m. number_count (rows w) m \<le> 1"
    and n1: "a_expertise_number args1 = Some n"
    and n2: "a_expertise_number args2 = Some n"
    and ne: "n \<noteq> []"
    and run1: "add_document self e1 w args1 = (res1, w1)"
    and run2: "add_document self e2 w1 args2 = (res2, w2)"
  shows "(\<forall>m. number_count (rows w2) m \<le> 1)
       \<and> (fst res1 \<longrightarrow> number_count (rows w1) n = 1)
       \<and> (number_count (rows w1) n = 1 \<longrightarrow> \<not> fst res2 \<and> rows w2 = rows w1)
       \<and> (number_count (rows w1) n = 1 \<and> reaches_uniqueness_check self e2 w1 args2
            \<longrightarrow> res2 = (False, AlreadyExists n))"
proof -
  have u1: "\<forall>m. number_count (rows w1) m \<le> 1"
    using add_document_unique [OF uniq run1] .
  have u2: "\<forall>m. number_count (rows w2) m \<le> 1"
    using add_document_unique [OF u1 run2] .
  have s: "fst res1 \<longrightarrow> number_count (rows w1) n = 1"
    using add_document_success [OF run1 _ n1 ne] by blast
  have p: "number_count (rows w1) n = 1 \<longrightarrow> \<not> fst res2 \<and> rows w2 = rows w1"
    using add_document_present [OF run2 n2 ne] by simp
  have c: "number_count (rows w1) n = 1 \<and> reaches_uniqueness_check self e2 w1 args2
            \<longrightarrow> res2 = (False, AlreadyExists n)"
    using add_document_conflict [OF run2 n2 ne] by simp
  show ?thesis using u2 s p c by blast
qed

theorem duplicate_number_conflict_witness:
  "rows world_1999 = []
   \<and> a_expertise_number args_1999 = Some [55]
   \<and> reaches_uniqueness_check (new_agent [] [97] None False) (plain_env text_1999)
       (snd (add_document (new_agent [] [97] None False) (plain_env text_1999) world_1999
               args_1999)) args_1999
   \<and> fst (add_document (new_agent [] [97] None False) (plain_env text_1999)
            (snd (add_document (new_agent [] [97] None False) (plain_env text_1999) world_1999
                    args_1999)) args_1999)
       = (False, AlreadyExists [55])"
proof -
  let ?A = "new_agent [] [97] None False"
  let ?E = "plain_env text_1999"
  let ?first = "add_document ?A ?E world_1999 args_1999"
  let ?second = "add_document ?A ?E (snd ?first) args_1999"
  have uniq: "\<forall>m. number_count (rows world_1999) m \<le> 1"
    by (simp add: world_1999_def number_count_def)
  have n: "a_expertise_number args_1999 = Some [55]" by (simp add: args_1999_def)
  have ne: "[55] \<noteq> ([]::ustr)" by simp
  have run1: "?first = (fst ?first, snd ?first)" by simp
  have run2: "?second = (fst ?second, snd ?second)" by simp
  note conflict = duplicate_number_conflict [OF uniq n n ne run1 run2]
  have "fst ?second = (False, AlreadyExists [55])"
    using conflict first_add_count second_add_reaches by blast
  moreover have "rows world_1999 = []" by (simp add: world_1999_def)
  ultimately show ?thesis using n second_add_reaches by blast
qed

lemma open_input_source:
  assumes "open_input e files original_path = Inr (files1, file_path, file_ext)"
  shows "files1 original_path \<noteq> None"
  using assms
  by (auto simp: open_input_def Let_def split: option.splits if_splits)

lemma digits_of_nat_head: "\<exists>c cs. digits_of_nat n = c # cs \<and> c \<noteq> 47"
proof (induction n rule: digits_of_nat.induct)
  case (1 n)
  show ?case
  proof (cases "n < 10")
    case True
    then show ?thesis by (subst digits_of_nat.simps) simp
  next
    case False
    then obtain c cs where "digits_of_nat (n div 10) = c # cs" "c \<noteq> 47" using 1 by blast
    then show ?thesis using False by (subst digits_of_nat.simps) simp
  qed
qed

lemma str_of_int_head: "\<not> startswith (str_of_int i) [47]"
  using digits_of_nat_head [of "nat i"]
  by (auto simp: str_of_int_def)

lemma sanitize_head: "\<not> startswith (sanitize s) [47]"
  by (cases s) (auto simp: sanitize_def)

lemma path_join_extends: "\<not> startswith b [47] \<Longrightarrow> \<exists>rest. path_join a b = a @ rest"
  by (simp add: path_join_def)

lemma destination_in_archive:
  assumes "get_file_destination_path self e sector_code expert_name expertise_year
             expertise_number = Some dest_dir"
  shows "\<exists>rest. dest_dir = archive_folder self @ rest"
proof -
  let ?year = "if truthy_int expertise_year then str_of_int (the expertise_year)
               else str_of_int (now_year e)"
  let ?expert = "sanitize (if truthy_str expert_name then the expert_name else unknown_expert)"
  let ?sector = "sanitize (if truthy_str sector_code then the sector_code else s_pocherk_ted)"
  let ?number = "if truthy_str expertise_number then sanitize (the expertise_number)
                 else l_ekspertyza_und @ now_stamp e"
  have number: "\<not> startswith ?number [47]"
    using sanitize_head by (simp add: l_ekspertyza_und_def)
  have year: "\<not> startswith ?year [47]" using str_of_int_head by simp
  obtain r1 where r1: "path_join (archive_folder self) ?sector = archive_folder self @ r1"
    using path_join_extends [OF sanitize_head] by blast
  obtain r2 where r2: "path_join (archive_folder self @ r1) ?expert = (archive_folder self @ r1) @ r2"
    using path_join_extends [OF sanitize_head] by blast
  obtain r3 where r3: "path_join ((archive_folder self @ r1) @ r2) ?year
                        = ((archive_folder self @ r1) @ r2) @ r3"
    using path_join_extends [OF year] by blast
  obtain r4 where r4: "path_join (((archive_folder self @ r1) @ r2) @ r3) ?number
                        = (((archive_folder self @ r1) @ r2) @ r3) @ r4"
    using path_join_extends [OF number] by blast
  have full: "join_all (archive_folder self) [?sector, ?expert, ?year, ?number]
              = archive_folder self @ (r1 @ r2 @ r3 @ r4)"
    using r1 r2 r3 r4 by (simp add: join_all_def)
  have "dest_dir = join_all (archive_folder self) [?sector, ?expert, ?year, ?number]
        \<or> dest_dir = path_join (archive_folder self) ?sector"
    using assms by (auto simp: get_file_destination_path_def Let_def split: if_splits)
  then show ?thesis using full r1 by auto
qed

lemma failing_add_steps:
  "lower (snd (splitext a_docx)) = dot_docx
   \<and> build_data (new_agent [] [97] None False) (failing_env text_1999) args_1999 a_docx dot_docx
       = Inr added_1999
   \<and> get_file_destination_path (new_agent [] [97] None False) (failing_env text_1999)
        (Some (d_sector added_1999)) (Some (d_expert_name added_1999))
        (d_expertise_year added_1999) (Some (d_expertise_number added_1999)) = Some dir_1999
   \<and> path_join dir_1999 (basename a_docx) = archived_1999
   \<and> archived_1999 \<noteq> a_docx
   \<and> \<not> copy_fails (failing_env text_1999) \<and> \<not> select_fails (failing_env text_1999)
   \<and> insert_fails (failing_env text_1999)
   \<and> a_file_path args_1999 = a_docx"
  by code_simp

lemma failing_add_opened:
  "open_input (failing_env text_1999) (fs world_1999) (a_file_path args_1999)
     = Inr (fs world_1999, a_docx, dot_docx)"
proof -
  have ext: "lower (snd (splitext a_docx)) = dot_docx" using failing_add_steps by simp
  have "dot_docx \<noteq> dot_doc" "dot_docx \<in> set [dot_doc, dot_docx, dot_pdf]"
    by (simp_all add: dot_docx_def dot_doc_def)
  moreover have "fs world_1999 a_docx \<noteq> None" by (simp add: world_1999_def)
  moreover have "a_file_path args_1999 = a_docx" by (simp add: args_1999_def)
  ultimately show ?thesis using ext by (simp add: open_input_def Let_def)
qed

text \<open>
  Claim C10.  In copy mode the file is copied before the insert is attempted.  When an
  add has passed the checks of its input, the number is not in the index, the destination
  directory is computed and the copy succeeds, and then the insert fails, the add returns
  the failure to save, the index is as it was, and the copy is left in the archive: the
  destination directory lies under the archive folder and holds, under the base name of
  the file, the content of the file, for which the index has no new row.
\<close>

theorem failed_insert_leaves_copy:
  assumes copy_mode: "\<not> (index_only_mode self \<and> truthy_str (existing_archive_path self))"
    and opened: "open_input e (fs w) (a_file_path args) = Inr (files1, file_path, file_ext)"
    and built: "build_data self e args file_path file_ext = Inr data"
    and answers: "\<not> select_fails e"
    and new: "select_by_number (rows w) (d_expertise_number data) = None"
    and dest: "get_file_destination_path self e (Some (d_sector data)) (Some (d_expert_name data))
                 (d_expertise_year data) (Some (d_expertise_number data)) = Some dest_dir"
    and differs: "path_join dest_dir (basename (a_file_path args)) \<noteq> a_file_path args"
    and copies: "\<not> copy_fails e"
    and fails: "insert_fails e"
  shows "\<exists>w' c. add_document self e w args = ((False, SaveError), w')
           \<and> rows w' = rows w \<and> next_id w' = next_id w
           \<and> files1 (a_file_path args) = Some c
           \<and> fs w' (path_join dest_dir (basename (a_file_path args))) = Some c
           \<and> (\<exists>rest. dest_dir = archive_folder self @ rest)"
proof -
  obtain c where c: "files1 (a_file_path args) = Some c"
    using open_input_source [OF opened] by blast
  let ?target = "path_join dest_dir (basename (a_file_path args))"
  have cm: "(index_only_mode self \<and> truthy_str (existing_archive_path self)) = False"
    using copy_mode by simp
  have placed: "place_file self e files1 (a_file_path args) file_path data
                  = Inr (files1(?target \<mapsto> c), ?target, Some dest_dir)"
    using dest c differs copies by (simp add: place_file_def Let_def cm)
  have ins: "insert_case e (w\<lparr>fs := files1(?target \<mapsto> c)\<rparr>) data ?target = None"
    using fails by (simp add: insert_case_def)
  have "add_document self e w args = ((False, SaveError), w\<lparr>fs := files1(?target \<mapsto> c)\<rparr>)"
    using opened built answers new placed ins by (simp add: add_document_def Let_def)
  then show ?thesis using c destination_in_archive [OF dest] by auto
qed

theorem failed_insert_leaves_copy_witness:
  "\<not> (index_only_mode (new_agent [] [97] None False)
        \<and> truthy_str (existing_archive_path (new_agent [] [97] None False)))
   \<and> insert_fails (failing_env text_1999) \<and> \<not> copy_fails (failing_env text_1999)
   \<and> fs world_1999 a_docx = Some [1, 2, 3] \<and> rows world_1999 = []
   \<and> fs world_1999 archived_1999 = None
   \<and> fst (add_document (new_agent [] [97] None False) (failing_env text_1999) world_1999
            args_1999) = (False, SaveError)
   \<and> rows (snd (add_document (new_agent [] [97] None False) (failing_env text_1999) world_1999
                   args_1999)) = []
   \<and> fs (snd (add_document (new_agent [] [97] None False) (failing_env text_1999) world_1999
                 args_1999)) archived_1999 = Some [1, 2, 3]"
proof -
  let ?A = "new_agent [] [97] None False"
  let ?E = "failing_env text_1999"
  have copy_mode: "\<not> (index_only_mode ?A \<and> truthy_str (existing_archive_path ?A))"
    by (simp add: new_agent_def)
  have built: "build_data ?A ?E args_1999 a_docx dot_docx = Inr added_1999"
    using failing_add_steps by simp
  have answers: "\<not> select_fails ?E" and copies: "\<not> copy_fails ?E" and fails: "insert_fails ?E"
    using failing_add_steps by simp_all
  have new: "select_by_number (rows world_1999) (d_expertise_number added_1999) = None"
    by (simp add: world_1999_def select_by_number_def)
  have dest: "get_file_destination_path ?A ?E (Some (d_sector added_1999))
                (Some (d_expert_name added_1999)) (d_expertise_year added_1999)
                (Some (d_expertise_number added_1999)) = Some dir_1999"
    using failing_add_steps by simp
  have target: "path_join dir_1999 (basename (a_file_path args_1999)) = archived_1999"
    using failing_add_steps by simp
  have differs: "path_join dir_1999 (basename (a_file_path args_1999)) \<noteq> a_file_path args_1999"
    using failing_add_steps by simp
  have source: "fs world_1999 a_docx = Some [1, 2, 3]" by (simp add: world_1999_def)
  have free: "fs world_1999 archived_1999 = None"
    using failing_add_steps by (simp add: world_1999_def)
  have empty: "rows world_1999 = []" by (simp add: world_1999_def)
  from failed_insert_leaves_copy
         [OF copy_mode failing_add_opened built answers new dest differs copies fails]
  obtain w' c where
    run: "add_document ?A ?E world_1999 args_1999 = ((False, SaveError), w')"
    and kept: "rows w' = rows world_1999"
    and c: "fs world_1999 (a_file_path args_1999) = Some c"
    and left: "fs w' (path_join dir_1999 (basename (a_file_path args_1999))) = Some c"
    by blast
  have "c = [1, 2, 3]" using c source failing_add_steps by simp
  then show ?thesis
    using run kept left target copy_mode fails copies source free empty by simp
qed


section \<open>The optimized add and duplicates\<close>

lemma first_row_find:
  "first_row cond rs = map_option (\<lambda>r. (r_id r, r_file_path r, r_source_file r)) (find cond rs)"
  by (induction rs) (auto simp: first_row_def)

lemma find_some: "r \<in> set rs \<Longrightarrow> cond r \<Longrightarrow> \<exists>first. find cond rs = Some first"
  by (induction rs) auto

lemma find_holds: "find cond rs = Some first \<Longrightarrow> first \<in> set rs \<and> cond first"
  by (induction rs) (auto split: if_splits)

lemma find_none: "\<forall>r\<in>set rs. \<not> cond r \<Longrightarrow> find cond rs = None"
  by (induction rs) auto


lemma world_stored_files:
  "fs world_stored b_docx \<noteq> None \<and> fs world_stored c_docx \<noteq> None"
  by (simp add: world_stored_def a_docx_def b_docx_def c_docx_def)

lemma supported_docx: "supported_extension b_docx \<and> supported_extension c_docx"
  by code_simp

lemma forced_same_hash:
  "map r_id (rows (snd (the (add_document_impl (new_agent_opt [] [97] None True)
       (plain_env_opt [] (Some [104])) world_stored c_docx True [])))) = [1, 2]
   \<and> map r_file_hash (rows (snd (the (add_document_impl (new_agent_opt [] [97] None True)
       (plain_env_opt [] (Some [104])) world_stored c_docx True [])))) = [Some [104], Some [104]]
   \<and> map r_source_file (rows (snd (the (add_document_impl (new_agent_opt [] [97] None True)
       (plain_env_opt [] (Some [104])) world_stored c_docx True []))))
       = [Some [97, 46, 100, 111, 99, 120], Some [99, 46, 100, 111, 99, 120]]
   \<and> fst (the (add_document_impl (new_agent_opt [] [97] None True)
       (plain_env_opt [] (Some [104])) world_stored c_docx True [])) \<noteq> Duplicate 1"
  by code_simp

lemma forced_same_name:
  "map r_id (rows (snd (the (add_document_impl (new_agent_opt [] [97] None True)
       (plain_env_opt [] (Some [105])) world_stored b_docx True [])))) = [1, 2]
   \<and> map r_file_hash (rows (snd (the (add_document_impl (new_agent_opt [] [97] None True)
       (plain_env_opt [] (Some [105])) world_stored b_docx True [])))) = [Some [104], Some [105]]
   \<and> map r_source_file (rows (snd (the (add_document_impl (new_agent_opt [] [97] None True)
       (plain_env_opt [] (Some [105])) world_stored b_docx True []))))
       = [Some [97, 46, 100, 111, 99, 120], Some [97, 46, 100, 111, 99, 120]]
   \<and> fst (the (add_document_impl (new_agent_opt [] [97] None True)
       (plain_env_opt [] (Some [105])) world_stored b_docx True [])) \<noteq> Duplicate 1"
  by code_simp


text \<open>With the cache initialized, a successful add writes outside the archive: the
  text it extracted replaces the content cache file of the hash, and the search cache
  file is removed.\<close>

lemma add_writes_cache:
  "fs world_cached search_pkl = Some [7] \<and> fs world_cached content_pkl = Some [8]
   \<and> map r_id (rows (snd (the (add_document_impl (new_agent_opt [] [97] None True) cache_env
          world_cached c_docx False [])))) = [1]
   \<and> fs (snd (the (add_document_impl (new_agent_opt [] [97] None True) cache_env
          world_cached c_docx False []))) search_pkl = None
   \<and> fs (snd (the (add_document_impl (new_agent_opt [] [97] None True) cache_env
          world_cached c_docx False []))) content_pkl = Some [120]"
  by code_simp

text \<open>
  The claim C2 as stated fails when the caller sets \<^verbatim>\<open>force_reparse\<close>: the duplicate
  check is skipped, and the file \<^verbatim>\<open>/in/c.docx\<close>, whose hash is the hash stored with the
  row of \<^verbatim>\<open>a.docx\<close>, gets a second row with the same hash.
\<close>

theorem forced_reparse_inserts_same_hash:
  "get_file_hash (plain_env_opt [] (Some [104])) c_docx = r_file_hash stored_row
   \<and> rows world_stored = [stored_row]
   \<and> fst (the (add_document_impl (new_agent_opt [] [97] None True)
       (plain_env_opt [] (Some [104])) world_stored c_docx True [])) \<noteq> Duplicate 1
   \<and> map r_id (rows (snd (the (add_document_impl (new_agent_opt [] [97] None True)
       (plain_env_opt [] (Some [104])) world_stored c_docx True [])))) = [1, 2]
   \<and> map r_file_hash (rows (snd (the (add_document_impl (new_agent_opt [] [97] None True)
       (plain_env_opt [] (Some [104])) world_stored c_docx True []))))
       = [Some [104], Some [104]]"
proof -
  have "get_file_hash (plain_env_opt [] (Some [104])) c_docx = r_file_hash stored_row"
    by (simp add: plain_env_opt_def stored_row_def)
  moreover have "rows world_stored = [stored_row]" by (simp add: world_stored_def)
  ultimately show ?thesis using forced_same_hash by blast
qed

text \<open>
  Claim C2, amended.  If a file that exists and has a supported extension is added
  without \<^verbatim>\<open>force_reparse\<close>, its hash was computed, the query of the index does not
  raise and some row of the index has that hash, then the add returns the duplicate
  result with the id of the first row with that hash, and the index and the file system
  are unchanged, whatever the names of the two files.
\<close>

theorem same_hash_is_duplicate:
  assumes present: "fs w file_path \<noteq> None"
    and supported: "supported_extension file_path"
    and default: "\<not> force_reparse"
    and hash: "get_file_hash e file_path = Some h" and nonempty: "h \<noteq> []"
    and store: "\<not> dup_check_fails e"
    and stored: "r \<in> set (rows w)" "r_file_hash r = Some h"
  shows "\<exists>first. find (\<lambda>r. r_file_hash r = Some h) (rows w) = Some first
           \<and> first \<in> set (rows w) \<and> r_file_hash first = Some h
           \<and> add_document_impl self e w file_path force_reparse override_data
               = Some (Duplicate (r_id first), w)"
proof -
  obtain first where first: "find (\<lambda>r. r_file_hash r = Some h) (rows w) = Some first"
    using find_some [OF stored(1), of "\<lambda>r. r_file_hash r = Some h"] stored(2) by blast
  have "check_duplicate_document e (rows w) (Some h) file_path
          = Some (r_id first, r_file_path first, r_source_file first)"
    using store nonempty first
    by (simp add: check_duplicate_document_def truthy_str_def first_row_find)
  then have "add_document_impl self e w file_path force_reparse override_data
               = Some (Duplicate (r_id first), w)"
    using present supported default hash nonempty
    by (simp add: add_document_impl_def Let_def truthy_str_def)
  then show ?thesis using first find_holds [OF first] by blast
qed


theorem same_hash_is_duplicate_witness:
  "fs world_stored c_docx \<noteq> None \<and> supported_extension c_docx
   \<and> get_file_hash (plain_env_opt [] (Some [104])) c_docx = Some [104]
   \<and> rows world_stored = [stored_row] \<and> r_file_hash stored_row = Some [104]
   \<and> r_source_file stored_row \<noteq> Some (basename c_docx)
   \<and> add_document_impl (new_agent_opt [] [97] None True) (plain_env_opt [] (Some [104]))
        world_stored c_docx False [] = Some (Duplicate 1, world_stored)"
proof -
  let ?E = "plain_env_opt [] (Some [104])"
  have present: "fs world_stored c_docx \<noteq> None" using world_stored_files by simp
  have supported: "supported_extension c_docx" using supported_docx by simp
  have default: "\<not> False" by simp
  have hash: "get_file_hash ?E c_docx = Some [104]" by (simp add: plain_env_opt_def)
  have nonempty: "[104] \<noteq> ([]::ustr)" by simp
  have store: "\<not> dup_check_fails ?E" by (simp add: plain_env_opt_def)
  have stored: "stored_row \<in> set (rows world_stored)" "r_file_hash stored_row = Some [104]"
    by (simp_all add: world_stored_def stored_row_def)
  have other: "r_source_file stored_row \<noteq> Some (basename c_docx)"
    by (simp add: stored_row_def basename_def c_docx_def)
  obtain first where
    first: "find (\<lambda>r. r_file_hash r = Some [104]) (rows world_stored) = Some first"
    and dup: "add_document_impl (new_agent_opt [] [97] None True) ?E world_stored c_docx False []
               = Some (Duplicate (r_id first), world_stored)"
    using same_hash_is_duplicate [OF present supported default hash nonempty store stored]
    by blast
  have "first = stored_row" using first by (simp add: world_stored_def stored_row_def)
  then have "r_id first = 1" by (simp add: stored_row_def)
  moreover have "rows world_stored = [stored_row]" by (simp add: world_stored_def)
  ultimately show ?thesis using dup present supported hash stored other by simp
qed

text \<open>
  The claim C9 as stated fails when the caller sets \<^verbatim>\<open>force_reparse\<close>: the file
  \<^verbatim>\<open>/b/a.docx\<close> has the base name stored with the row of \<^verbatim>\<open>/in/a.docx\<close> and another
  hash, and it gets a row of its own.
\<close>

theorem forced_reparse_inserts_same_name:
  "r_source_file stored_row = Some (basename b_docx)
   \<and> rows world_stored = [stored_row]
   \<and> fst (the (add_document_impl (new_agent_opt [] [97] None True)
       (plain_env_opt [] (Some [105])) world_stored b_docx True [])) \<noteq> Duplicate 1
   \<and> map r_id (rows (snd (the (add_document_impl (new_agent_opt [] [97] None True)
       (plain_env_opt [] (Some [105])) world_stored b_docx True [])))) = [1, 2]
   \<and> map r_source_file (rows (snd (the (add_document_impl (new_agent_opt [] [97] None True)
       (plain_env_opt [] (Some [105])) world_stored b_docx True []))))
       = [Some [97, 46, 100, 111, 99, 120], Some [97, 46, 100, 111, 99, 120]]"
proof -
  have "r_source_file stored_row = Some (basename b_docx)"
    by (simp add: stored_row_def basename_def b_docx_def)
  moreover have "rows world_stored = [stored_row]" by (simp add: world_stored_def)
  ultimately show ?thesis using forced_same_name by blast
qed

text \<open>
  Claim C9, amended.  In the optimized add path, if a file that exists and has a
  supported extension is added without \<^verbatim>\<open>force_reparse\<close>, its hash was computed and
  differs from every stored hash, the query of the index does not raise and some row's
  \<^verbatim>\<open>source_file\<close> is the base name of the file, then the add is rejected as a duplicate
  with the id of the first such row, and the index and the file system are unchanged:
  the check by name follows the miss by hash.
\<close>

theorem same_name_is_duplicate:
  assumes present: "fs w file_path \<noteq> None"
    and supported: "supported_extension file_path"
    and default: "\<not> force_reparse"
    and hash: "get_file_hash e file_path = Some h" and nonempty: "h \<noteq> []"
    and store: "\<not> dup_check_fails e"
    and miss: "\<forall>r\<in>set (rows w). r_file_hash r \<noteq> Some h"
    and stored: "r \<in> set (rows w)" "r_source_file r = Some (basename file_path)"
  shows "\<exists>first. find (\<lambda>r. r_source_file r = Some (basename file_path)) (rows w) = Some first
           \<and> first \<in> set (rows w) \<and> r_source_file first = Some (basename file_path)
           \<and> add_document_impl self e w file_path force_reparse override_data
               = Some (Duplicate (r_id first), w)"
proof -
  obtain first where
    first: "find (\<lambda>r. r_source_file r = Some (basename file_path)) (rows w) = Some first"
    using find_some [OF stored(1), of "\<lambda>r. r_source_file r = Some (basename file_path)"]
      stored(2) by blast
  have none: "find (\<lambda>r. r_file_hash r = Some h) (rows w) = None"
    using miss by (intro find_none) simp
  have "check_duplicate_document e (rows w) (Some h) file_path
          = Some (r_id first, r_file_path first, r_source_file first)"
    using store nonempty first none
    by (simp add: check_duplicate_document_def truthy_str_def first_row_find)
  then have "add_document_impl self e w file_path force_reparse override_data
               = Some (Duplicate (r_id first), w)"
    using present supported default hash nonempty
    by (simp add: add_document_impl_def Let_def truthy_str_def)
  then show ?thesis using first find_holds [OF first] by blast
qed


theorem same_name_is_duplicate_witness:
  "fs world_stored b_docx \<noteq> None \<and> supported_extension b_docx
   \<and> get_file_hash (plain_env_opt [] (Some [105])) b_docx = Some [105]
   \<and> map r_file_hash (rows world_stored) = [Some [104]]
   \<and> map r_source_file (rows world_stored) = [Some (basename b_docx)]
   \<and> add_document_impl (new_agent_opt [] [97] None True) (plain_env_opt [] (Some [105]))
        world_stored b_docx False [] = Some (Duplicate 1, world_stored)"
proof -
  let ?E = "plain_env_opt [] (Some [105])"
  have present: "fs world_stored b_docx \<noteq> None" using world_stored_files by simp
  have supported: "supported_extension b_docx" using supported_docx by simp
  have default: "\<not> False" by simp
  have hash: "get_file_hash ?E b_docx = Some [105]" by (simp add: plain_env_opt_def)
  have nonempty: "[105] \<noteq> ([]::ustr)" by simp
  have store: "\<not> dup_check_fails ?E" by (simp add: plain_env_opt_def)
  have miss: "\<forall>r\<in>set (rows world_stored). r_file_hash r \<noteq> Some [105]"
    by (simp add: world_stored_def stored_row_def)
  have stored: "stored_row \<in> set (rows world_stored)"
    "r_source_file stored_row = Some (basename b_docx)"
    by (simp_all add: world_stored_def stored_row_def basename_def b_docx_def)
  obtain first where
    first: "find (\<lambda>r. r_source_file r = Some (basename b_docx)) (rows world_stored) = Some first"
    and dup: "add_document_impl (new_agent_opt [] [97] None True) ?E world_stored b_docx False []
               = Some (Duplicate (r_id first), world_stored)"
    using same_name_is_duplicate [OF present supported default hash nonempty store miss stored]
    by blast
  have "first = stored_row"
    using first by (simp add: world_stored_def stored_row_def basename_def b_docx_def)
  then have "r_id first = 1" by (simp add: stored_row_def)
  moreover have "map r_file_hash (rows world_stored) = [Some [104]]"
    and "map r_source_file (rows world_stored) = [Some (basename b_docx)]"
    by (simp_all add: world_stored_def stored_row_def basename_def b_docx_def)
  ultimately show ?thesis using dup present supported hash by simp
qed

section \<open>Placement without overwriting\<close>

lemma int_of_digits_snoc:
  "int_of_digits (s @ [c]) =
     10 * int_of_digits s + (case digit_value c of Some d \<Rightarrow> d | None \<Rightarrow> 0)"
  by (simp add: int_of_digits_def)

lemma digit_value_ascii: "d < 10 \<Longrightarrow> digit_value (48 + int d) = Some (int d)"
  by (simp add: digit_value_def digit_zeros_def)

lemma int_of_digits_of_nat: "int_of_digits (digits_of_nat n) = int n"
proof (induction n rule: digits_of_nat.induct)
  case (1 n)
  show ?case
  proof (cases "n < 10")
    case True
    then have "digits_of_nat n = [48 + int n]" by (simp add: digits_of_nat.simps)
    then show ?thesis using True digit_value_ascii [of n] by (simp add: int_of_digits_def)
  next
    case False
    then have eq: "digits_of_nat n = digits_of_nat (n div 10) @ [48 + int (n mod 10)]"
      by (subst digits_of_nat.simps) simp
    have "int_of_digits (digits_of_nat (n div 10)) = int (n div 10)" using 1 False by simp
    moreover have "10 * int (n div 10) + int (n mod 10) = int n"
      by presburger
    ultimately show ?thesis
      using digit_value_ascii [of "n mod 10"] by (simp add: eq int_of_digits_snoc)
  qed
qed

lemma digits_of_nat_inj: "digits_of_nat m = digits_of_nat n \<Longrightarrow> m = n"
  by (metis int_of_digits_of_nat of_nat_eq_iff)

lemma path_join_inj:
  assumes "path_join d (x # xs) = path_join d (x # ys)"
  shows "xs = ys"
  using assms by (auto simp: path_join_def split: if_splits)

lemma suffixed_inj:
  assumes "path_join d (name @ [95] @ digits_of_nat j @ ext)
         = path_join d (name @ [95] @ digits_of_nat k @ ext)"
  shows "j = k"
proof -
  have "digits_of_nat j = digits_of_nat k"
  proof (cases name)
    case Nil
    then have "digits_of_nat j @ ext = digits_of_nat k @ ext"
      using assms path_join_inj [of d 95 "digits_of_nat j @ ext" "digits_of_nat k @ ext"]
      by simp
    then show ?thesis by simp
  next
    case (Cons x xs)
    then have "xs @ [95] @ digits_of_nat j @ ext = xs @ [95] @ digits_of_nat k @ ext"
      using assms
        path_join_inj [of d x "xs @ [95] @ digits_of_nat j @ ext"
                              "xs @ [95] @ digits_of_nat k @ ext"]
      by simp
    then show ?thesis by simp
  qed
  then show ?thesis by (rule digits_of_nat_inj)
qed

lemma free_candidate_exists:
  assumes "finite (dom files)"
  shows "\<exists>k\<ge>c. files (path_join d (name @ [95] @ digits_of_nat k @ ext)) = None"
proof (rule ccontr)
  let ?f = "\<lambda>k. path_join d (name @ [95] @ digits_of_nat k @ ext)"
  assume "\<not> (\<exists>k\<ge>c. files (?f k) = None)"
  then have "?f ` {c..} \<subseteq> dom files" by auto
  then have "finite (?f ` {c..})" using assms finite_subset by blast
  moreover have "inj_on ?f {c..}" using suffixed_inj by (auto simp: inj_on_def)
  ultimately have "finite {c..}" using finite_imageD by blast
  then show False using infinite_Ici by blast
qed

lemma free_target_loop:
  assumes "c \<le> k"
    and "files (path_join d (name @ [95] @ digits_of_nat k @ ext)) = None"
    and "\<forall>j. c \<le> j \<and> j < k \<longrightarrow> files (path_join d (name @ [95] @ digits_of_nat j @ ext)) \<noteq> None"
    and "files target_path \<noteq> None"
  shows "free_target files d name ext target_path c
         = Some (path_join d (name @ [95] @ digits_of_nat k @ ext))"
  using assms
proof (induction "k - c" arbitrary: c target_path)
  case 0
  then have "c = k" by simp
  then show ?case using 0
    by (subst free_target.simps, simp, subst free_target.simps, simp)
next
  case (Suc n)
  then have lt: "c < k" by simp
  then have taken: "files (path_join d (name @ [95] @ digits_of_nat c @ ext)) \<noteq> None"
    using Suc.prems by simp
  have "free_target files d name ext (path_join d (name @ [95] @ digits_of_nat c @ ext)) (Suc c)
        = Some (path_join d (name @ [95] @ digits_of_nat k @ ext))"
    using Suc.hyps(1) [of "Suc c"] Suc.hyps(2) Suc.prems lt taken by simp
  then show ?case using Suc.prems(4) by (subst free_target.simps) simp
qed

lemma free_target_total:
  assumes "finite (dom files)"
  shows "\<exists>k. free_target files d name ext (path_join d (name @ ext)) 1
              = Some (candidate d name ext k)
            \<and> files (candidate d name ext k) = None
            \<and> (\<forall>j<k. files (candidate d name ext j) \<noteq> None)"
proof (cases "files (path_join d (name @ ext)) = None")
  case True
  then have "free_target files d name ext (path_join d (name @ ext)) 1
             = Some (candidate d name ext 0)"
    by (subst free_target.simps) (simp add: candidate_def)
  then show ?thesis using True by (intro exI [of _ 0]) (simp add: candidate_def)
next
  case False
  let ?P = "\<lambda>k. 1 \<le> k \<and> files (path_join d (name @ [95] @ digits_of_nat k @ ext)) = None"
  have ex: "\<exists>k. ?P k" using free_candidate_exists [OF assms, of 1 d name ext] by blast
  define k where "k = (LEAST k. ?P k)"
  have k: "?P k" unfolding k_def using ex by (rule LeastI_ex)
  have least: "\<And>j. ?P j \<Longrightarrow> k \<le> j" unfolding k_def by (rule Least_le)
  have before: "\<forall>j. 1 \<le> j \<and> j < k \<longrightarrow>
      files (path_join d (name @ [95] @ digits_of_nat j @ ext)) \<noteq> None"
    using least by fastforce
  have "free_target files d name ext (path_join d (name @ ext)) 1
        = Some (path_join d (name @ [95] @ digits_of_nat k @ ext))"
    using free_target_loop [of 1 k files d name ext "path_join d (name @ ext)"] k before False
    by simp
  moreover have "\<forall>j<k. files (candidate d name ext j) \<noteq> None"
    using before False by (auto simp: candidate_def)
  ultimately show ?thesis using k by (intro exI [of _ k]) (auto simp: candidate_def)
qed

lemma copy_file_total:
  assumes "finite (dom files)"
  shows "\<exists>result files'. copy_file_to_archive self e files source_path data = Some (result, files')
           \<and> (case result of
                 CopyOk target \<Rightarrow>
                   files target = None \<and> files source_path \<noteq> None
                   \<and> files' = files(target \<mapsto> the (files source_path))
                   \<and> (\<exists>k. target = candidate (target_directory self e data)
                                       (fst (target_name source_path data))
                                       (snd (target_name source_path data)) k
                          \<and> (\<forall>j<k. files (candidate (target_directory self e data)
                                       (fst (target_name source_path data))
                                       (snd (target_name source_path data)) j) \<noteq> None))
               | ExpertDirFailed p \<Rightarrow> files' = files
               | CopyFailed \<Rightarrow> files' = files)"
proof (cases "mkdir_fails e (expert_directory self data)")
  case True
  then show ?thesis by (simp add: copy_file_to_archive_def)
next
  case False
  obtain name ext where tn: "target_name source_path data = (name, ext)"
    by (cases "target_name source_path data")
  let ?dir = "target_directory self e data"
  obtain k where k: "free_target files ?dir name ext (path_join ?dir (name @ ext)) 1
              = Some (candidate ?dir name ext k)"
            "files (candidate ?dir name ext k) = None"
            "\<forall>j<k. files (candidate ?dir name ext j) \<noteq> None"
    using free_target_total [OF assms] by blast
  have eq: "copy_file_to_archive self e files source_path data =
     (case files source_path of
        None \<Rightarrow> Some (CopyFailed, files)
      | Some c \<Rightarrow>
          if copy2_fails e source_path (candidate ?dir name ext k) then Some (CopyFailed, files)
          else Some (CopyOk (candidate ?dir name ext k),
                     files(candidate ?dir name ext k \<mapsto> c)))"
    using False tn k(1) by (simp add: copy_file_to_archive_def Let_def)
  show ?thesis unfolding eq using k(2,3) tn by (auto split: option.splits)
qed

lemma overwrite_first:
  "fs world_after_slash archived_5_2 = Some [1, 2, 3]"
  by code_simp

lemma overwrite_second:
  "fs world_after_colon archived_5_2 = Some [4, 5, 6]
   \<and> map r_file_path (rows world_after_colon) = [Some archived_5_2, Some archived_5_2]
   \<and> map r_expertise_number (rows world_after_colon) = [Some [53, 47, 50], Some [53, 58, 50]]"
  by code_simp

lemma taken_setting:
  "\<not> mkdir_fails (plain_env_opt [] None) (expert_directory (new_agent_opt [] [97] None False) data_1999)
   \<and> target_directory (new_agent_opt [] [97] None False) (plain_env_opt [] None) data_1999
       = copy_dir
   \<and> target_name a_docx data_1999 = ([97], [46, 100, 111, 99, 120])
   \<and> path_join copy_dir ([97] @ [46, 100, 111, 99, 120]) = taken_path
   \<and> path_join copy_dir ([97] @ [95] @ digits_of_nat 1 @ [46, 100, 111, 99, 120]) = free_path
   \<and> \<not> copy2_fails (plain_env_opt [] None) a_docx free_path"
  by code_simp

lemma taken_files:
  "files_taken taken_path = Some [9] \<and> files_taken free_path = None
   \<and> files_taken a_docx = Some [1, 2, 3]"
  by code_simp

lemma taken_free_target:
  "free_target files_taken copy_dir [97] [46, 100, 111, 99, 120] taken_path 1 = Some free_path"
proof -
  have "free_target files_taken copy_dir [97] [46, 100, 111, 99, 120] taken_path 1
        = free_target files_taken copy_dir [97] [46, 100, 111, 99, 120] free_path (Suc 1)"
    using taken_files taken_setting by (subst free_target.simps) simp
  also have "\<dots> = Some free_path"
    using taken_files by (subst free_target.simps) simp
  finally show ?thesis .
qed

lemma taken_copy:
  "map_option fst (copy_file_to_archive (new_agent_opt [] [97] None False)
      (plain_env_opt [] None) files_taken a_docx data_1999) = Some (CopyOk free_path)"
  using taken_setting taken_files taken_free_target
  by (simp add: copy_file_to_archive_def)

text \<open>
  The claim C4 as stated fails on the minimal variant, which copies to the destination
  directory under the base name of the file without looking: the numbers \<^verbatim>\<open>5/2\<close> and
  \<^verbatim>\<open>5:2\<close> are made safe to the same directory name, so two adds of files named
  \<^verbatim>\<open>a.docx\<close> write the same archive path, the second over the first, and both rows
  point to it.
\<close>

theorem minimal_add_overwrites:
  "fs world_after_slash archived_5_2 = Some [1, 2, 3]
   \<and> fs world_after_colon archived_5_2 = Some [4, 5, 6]
   \<and> map r_file_path (rows world_after_colon) = [Some archived_5_2, Some archived_5_2]
   \<and> map r_expertise_number (rows world_after_colon) = [Some [53, 47, 50], Some [53, 58, 50]]"
  using overwrite_first overwrite_second by blast

text \<open>
  Claim C4, amended.  In the optimized add path (\<^verbatim>\<open>_copy_file_to_archive\<close>), with
  finitely many files, the copy always returns; when it copies, the target is the name
  itself or the name with a counter before the extension, every name tried before it
  exists, the target did not exist, and the file system afterwards differs from the one
  before only at the target.
\<close>

theorem archive_copy_never_overwrites:
  assumes "finite (dom files)"
  shows "\<exists>result files'.
           copy_file_to_archive self e files source_path data = Some (result, files')
           \<and> (case result of
                 CopyOk target \<Rightarrow>
                   files target = None \<and> files source_path \<noteq> None
                   \<and> files' = files(target \<mapsto> the (files source_path))
                   \<and> (\<exists>k. target = candidate (target_directory self e data)
                                       (fst (target_name source_path data))
                                       (snd (target_name source_path data)) k
                          \<and> (\<forall>j<k. files (candidate (target_directory self e data)
                                       (fst (target_name source_path data))
                                       (snd (target_name source_path data)) j) \<noteq> None))
               | ExpertDirFailed p \<Rightarrow> files' = files
               | CopyFailed \<Rightarrow> files' = files)"
  using copy_file_total [OF assms] by blast

theorem archive_copy_never_overwrites_witness:
  "finite (dom files_taken)
   \<and> files_taken taken_path = Some [9]
   \<and> copy_file_to_archive (new_agent_opt [] [97] None False) (plain_env_opt [] None)
        files_taken a_docx data_1999
       = Some (CopyOk free_path, files_taken(free_path \<mapsto> [1, 2, 3]))
   \<and> files_taken free_path = None"
proof -
  let ?copy = "copy_file_to_archive (new_agent_opt [] [97] None False) (plain_env_opt [] None)
        files_taken a_docx data_1999"
  have fin: "finite (dom files_taken)" by (simp add: files_taken_def)
  have src: "files_taken a_docx = Some [1, 2, 3]"
    by (simp add: files_taken_def a_docx_def taken_path_def copy_dir_def)
  have taken: "files_taken taken_path = Some [9]" by (simp add: files_taken_def)
  let ?A = "new_agent_opt [] [97] None False"
  let ?E = "plain_env_opt [] None"
  from archive_copy_never_overwrites [OF fin, of ?A ?E a_docx data_1999]
  obtain result files' where
    c: "?copy = Some (result, files')"
    and r0: "case result of
               CopyOk target \<Rightarrow>
                 files_taken target = None \<and> files_taken a_docx \<noteq> None
                 \<and> files' = files_taken(target \<mapsto> the (files_taken a_docx))
                 \<and> (\<exists>k. target = candidate (target_directory ?A ?E data_1999)
                                     (fst (target_name a_docx data_1999))
                                     (snd (target_name a_docx data_1999)) k
                        \<and> (\<forall>j<k. files_taken (candidate (target_directory ?A ?E data_1999)
                                     (fst (target_name a_docx data_1999))
                                     (snd (target_name a_docx data_1999)) j) \<noteq> None))
             | ExpertDirFailed p \<Rightarrow> files' = files_taken
             | CopyFailed \<Rightarrow> files' = files_taken"
    by auto
  have r: "case result of
              CopyOk target \<Rightarrow>
                files_taken target = None
                \<and> files' = files_taken(target \<mapsto> the (files_taken a_docx))
            | ExpertDirFailed p \<Rightarrow> files' = files_taken
            | CopyFailed \<Rightarrow> files' = files_taken"
    using r0 by (cases result) simp_all
  have "result = CopyOk free_path" using taken_copy c by simp
  then have "files_taken free_path = None"
    and "files' = files_taken(free_path \<mapsto> [1, 2, 3])"
    using r src by simp_all
  then show ?thesis using c \<open>result = CopyOk free_path\<close> fin taken by simp
qed

end
